theory Spec2Isabelle
  imports Main "HOL-Library.Word"
begin

section \<open>Python values\<close>

text \<open>
  A Python float is a 64-bit IEEE pattern; the adapter never computes with it, it only
  forwards it and prints it. Dictionaries are association lists in insertion order.
\<close>

datatype pyfloat = Float64 "64 word"

datatype pyval =
    PNone
  | PBool bool
  | PInt int
  | PFloat pyfloat
  | PStr string
  | PList "pyval list"
  | PDict "(string \<times> pyval) list"

type_synonym pydict = "(string \<times> pyval) list"

text \<open>\<open>d[k] = v\<close>: replaces the value of an existing key in place, appends a new key.\<close>

fun dict_set :: "(string \<times> 'v) list \<Rightarrow> string \<Rightarrow> 'v \<Rightarrow> (string \<times> 'v) list" where
  "dict_set [] k v = [(k, v)]"
| "dict_set (p # ps) k v = (if fst p = k then (k, v) # ps else p # dict_set ps k v)"

text \<open>\<open>d.get(k)\<close>, with \<open>None\<close> for an absent key.\<close>

definition dict_get :: "(string \<times> 'v) list \<Rightarrow> string \<Rightarrow> 'v option" where
  "dict_get d k = map_of d k"

text \<open>The entries of a nested dictionary stored under a key, if there is one.\<close>

definition sub_dict :: "pydict \<Rightarrow> string \<Rightarrow> pydict option" where
  "sub_dict d k = (case dict_get d k of Some (PDict m) \<Rightarrow> Some m | _ \<Rightarrow> None)"

subsection \<open>Strings\<close>

text \<open>\<open>sep.join(xs)\<close>.\<close>

fun str_join :: "string \<Rightarrow> string list \<Rightarrow> string" where
  "str_join s [] = []"
| "str_join s [x] = x"
| "str_join s (x # y # ys) = x @ s @ str_join s (y # ys)"

text \<open>\<open>str(n)\<close> for an integer: decimal digits, with a minus sign when negative.\<close>

fun str_nat :: "nat \<Rightarrow> string" where
  "str_nat n = (if n < 10 then [''0123456789'' ! n]
     else str_nat (n div 10) @ [''0123456789'' ! (n mod 10)])"

declare str_nat.simps [simp del]

definition str_int :: "int \<Rightarrow> string" where
  "str_int i = (if i < 0 then CHR ''-'' # str_nat (nat (- i)) else str_nat (nat i))"

text \<open>
  \<open>s.replace(old, new)\<close>: occurrences of \<open>old\<close> are replaced from the left, without
  overlap; an empty \<open>old\<close> matches before every character and at the end.
\<close>

fun replace_nonempty :: "nat \<Rightarrow> string \<Rightarrow> string \<Rightarrow> string \<Rightarrow> string" where
  "replace_nonempty skip old new [] = []"
| "replace_nonempty (Suc k) old new (c # cs) = replace_nonempty k old new cs"
| "replace_nonempty 0 old new (c # cs) =
     (if take (length old) (c # cs) = old
      then new @ replace_nonempty (length old - 1) old new cs
      else c # replace_nonempty 0 old new cs)"

definition str_replace :: "string \<Rightarrow> string \<Rightarrow> string \<Rightarrow> string" where
  "str_replace s old new =
     (if old = [] then new @ concat (map (\<lambda>c. c # new) s)
      else replace_nonempty 0 old new s)"

section \<open>Paths (pathlib on POSIX)\<close>

text \<open>
  A path is a root (empty, \<open>/\<close> or \<open>//\<close>) and a list of components. Parsing drops
  empty components and \<open>.\<close>; \<open>..\<close> is kept as it is.
\<close>

datatype path = PurePath (root: string) (parts: "string list")

fun split_sep :: "string \<Rightarrow> string list" where
  "split_sep [] = [[]]"
| "split_sep (c # cs) =
     (if c = CHR ''/'' then [] # split_sep cs
      else (case split_sep cs of [] \<Rightarrow> [[c]] | w # ws \<Rightarrow> (c # w) # ws))"

definition splitroot :: "string \<Rightarrow> string \<times> string" where
  "splitroot part =
     (if part \<noteq> [] \<and> hd part = CHR ''/'' then
        (let stripped = dropWhile (\<lambda>c. c = CHR ''/'') part in
         if length part - length stripped = 2 then (''//'', stripped) else (''/'', stripped))
      else ([], part))"

definition parse_parts :: "string \<Rightarrow> string list" where
  "parse_parts rel = filter (\<lambda>x. x \<noteq> [] \<and> x \<noteq> ''.'') (split_sep rel)"

text \<open>\<open>Path(s)\<close>.\<close>

definition path_of :: "string \<Rightarrow> path" where
  "path_of s = (case splitroot s of (r, rel) \<Rightarrow> PurePath r (parse_parts rel))"

text \<open>\<open>str(p)\<close>.\<close>

definition path_str :: "path \<Rightarrow> string" where
  "path_str p =
     (if root p = [] \<and> parts p = [] then ''.'' else root p @ str_join ''/'' (parts p))"

text \<open>\<open>p / s\<close>: an absolute right operand replaces the left one.\<close>

definition path_join :: "path \<Rightarrow> string \<Rightarrow> path" where
  "path_join p s =
     (case splitroot s of (r, rel) \<Rightarrow>
        if r \<noteq> [] then PurePath r (parse_parts rel)
        else PurePath (root p) (parts p @ parse_parts rel))"

text \<open>\<open>p.parent\<close> (a path without components is its own parent) and \<open>p.name\<close>.\<close>

definition path_parent :: "path \<Rightarrow> path" where
  "path_parent p = PurePath (root p) (butlast (parts p))"


section \<open>Exceptions\<close>

text \<open>
  An exception has a class, the text \<open>str(e)\<close>, and the exception that was being handled
  when it was raised (\<open>__context__\<close>), which is how Python chains a \<open>raise\<close> inside an
  \<open>except\<close> block to the original error. Only exceptions derived from \<open>Exception\<close>
  are values of this type: they are the ones an \<open>except Exception\<close> clause catches.
\<close>

datatype exn_class =
    FileNotFoundError
  | FileExistsError
  | NotADirectoryError
  | RuntimeError
  | NameError
  | AttributeError
  | OtherError string

datatype exn = Exn (exn_class: exn_class) (exn_msg: string) (exn_context: "exn option")

section \<open>The filesystem\<close>

text \<open>
  The filesystem is a table from path strings (as \<open>str(Path(s))\<close> prints them) to the
  kind of object found there, in the order a directory listing enumerates them.
  Symbolic links, permissions and the working directory are not modelled.
\<close>

datatype node = File | Dir

type_synonym filesystem = "(string \<times> node) list"

definition path_exists :: "filesystem \<Rightarrow> path \<Rightarrow> bool" where
  "path_exists fsys p = (map_of fsys (path_str p) \<noteq> None)"

definition path_is_dir :: "filesystem \<Rightarrow> path \<Rightarrow> bool" where
  "path_is_dir fsys p = (map_of fsys (path_str p) = Some Dir)"

text \<open>
  \<open>os.mkdir\<close>: fails when the path exists, when its parent does not, or when the parent
  is not a directory. The message quotes the path plainly (escapes are not modelled).
\<close>

definition os_error :: "exn_class \<Rightarrow> string \<Rightarrow> string \<Rightarrow> exn" where
  "os_error c what p = Exn c (what @ '': '' @ [CHR 0x27] @ p @ [CHR 0x27]) None"

definition os_mkdir :: "path \<Rightarrow> filesystem \<Rightarrow> exn + filesystem" where
  "os_mkdir p fsys =
     (if map_of fsys (path_str p) \<noteq> None
      then Inl (os_error FileExistsError ''[Errno 17] File exists'' (path_str p))
      else (case map_of fsys (path_str (path_parent p)) of
              None \<Rightarrow> Inl (os_error FileNotFoundError ''[Errno 2] No such file or directory'' (path_str p))
            | Some File \<Rightarrow> Inl (os_error NotADirectoryError ''[Errno 20] Not a directory'' (path_str p))
            | Some Dir \<Rightarrow> Inr (fsys @ [(path_str p, Dir)])))"

text \<open>
  \<open>p.mkdir(parents=False, exist_ok=True)\<close>: an error of \<open>os.mkdir\<close> other than a missing
  parent is dropped when the path is a directory already.
\<close>

definition mkdir_exist_ok :: "path \<Rightarrow> filesystem \<Rightarrow> exn + filesystem" where
  "mkdir_exist_ok p fsys =
     (case os_mkdir p fsys of
        Inr fsys' \<Rightarrow> Inr fsys'
      | Inl e \<Rightarrow>
          if exn_class e = FileNotFoundError then Inl e
          else if \<not> path_is_dir fsys p then Inl e
          else Inr fsys)"

text \<open>
  \<open>p.mkdir(parents=True, exist_ok=True)\<close>: on a missing parent, the parent is created
  the same way and the directory is then made without \<open>parents\<close>. The recursion is on the
  components of the path, last one first.
\<close>

fun mkdir_parents :: "string \<Rightarrow> string list \<Rightarrow> filesystem \<Rightarrow> exn + filesystem" where
  "mkdir_parents r [] fsys =
     (case os_mkdir (PurePath r []) fsys of
        Inr fsys' \<Rightarrow> Inr fsys'
      | Inl e \<Rightarrow>
          if exn_class e = FileNotFoundError then Inl e
          else if \<not> path_is_dir fsys (PurePath r []) then Inl e
          else Inr fsys)"
| "mkdir_parents r (x # rev_rest) fsys =
     (case os_mkdir (PurePath r (rev (x # rev_rest))) fsys of
        Inr fsys' \<Rightarrow> Inr fsys'
      | Inl e \<Rightarrow>
          if exn_class e = FileNotFoundError then
            (case mkdir_parents r rev_rest fsys of
               Inl e' \<Rightarrow> Inl e'
             | Inr fsys1 \<Rightarrow> mkdir_exist_ok (PurePath r (rev (x # rev_rest))) fsys1)
          else if \<not> path_is_dir fsys (PurePath r (rev (x # rev_rest))) then Inl e
          else Inr fsys)"

definition path_mkdir :: "path \<Rightarrow> filesystem \<Rightarrow> exn + filesystem" where
  "path_mkdir p fsys = mkdir_parents (root p) (rev (parts p)) fsys"


section \<open>The world: filesystem and observable events\<close>

text \<open>
  A call runs against a world: the filesystem and the sequence of events it has caused.
  An invocation of the external tool wrapper is recorded with the callable's name, the
  keyword arguments, and the filesystem it was issued against.
\<close>

datatype event =
    CtxInfo string
  | CtxError string
  | Print string
  | Invoke string pydict filesystem

record world =
  fs :: filesystem
  trace :: "event list"

type_synonym 'a action = "world \<Rightarrow> (exn + 'a) \<times> world"

definition ctx_info :: "string \<Rightarrow> world \<Rightarrow> world" where
  "ctx_info msg w = w\<lparr>trace := trace w @ [CtxInfo msg]\<rparr>"

definition ctx_error :: "string \<Rightarrow> world \<Rightarrow> world" where
  "ctx_error msg w = w\<lparr>trace := trace w @ [CtxError msg]\<rparr>"

definition print :: "string \<Rightarrow> world \<Rightarrow> world" where
  "print msg w = w\<lparr>trace := trace w @ [Print msg]\<rparr>"

text \<open>The events a call added, and the invocations among them.\<close>

definition new_events :: "world \<Rightarrow> world \<Rightarrow> event list" where
  "new_events w w' = drop (length (trace w)) (trace w')"

fun invocations :: "event list \<Rightarrow> (string \<times> pydict \<times> filesystem) list" where
  "invocations [] = []"
| "invocations (Invoke n p f # es) = (n, p, f) # invocations es"
| "invocations (e # es) = invocations es"

section \<open>The external tool wrapper\<close>

text \<open>
  The object a wrapper call returns: its class name and its attributes. Reading an
  attribute it does not have raises \<open>AttributeError\<close>.
\<close>

record robj =
  cls_name :: string
  attrs :: pydict

definition hasattr :: "robj \<Rightarrow> string \<Rightarrow> bool" where
  "hasattr r a = (map_of (attrs r) a \<noteq> None)"

definition getattr :: "robj \<Rightarrow> string \<Rightarrow> exn + pyval" where
  "getattr r a =
     (case map_of (attrs r) a of
        Some v \<Rightarrow> Inr v
      | None \<Rightarrow> Inl (Exn AttributeError
          ([CHR 0x27] @ cls_name r @ [CHR 0x27] @ '' object has no attribute '' @
           [CHR 0x27] @ a @ [CHR 0x27]) None))"

definition getattr_default :: "robj \<Rightarrow> string \<Rightarrow> pyval \<Rightarrow> pyval" where
  "getattr_default r a d = (case map_of (attrs r) a of Some v \<Rightarrow> v | None \<Rightarrow> d)"

text \<open>
  The collaborators are parameters of the model: the wrapper library (any function from
  a callable's name, its keyword arguments and the filesystem to an exception or a result
  object, and a new filesystem) and Python's printing of a float.
\<close>

record env =
  niwrap :: "string \<Rightarrow> pydict \<Rightarrow> filesystem \<Rightarrow> (exn + robj) \<times> filesystem"
  str_float :: "pyfloat \<Rightarrow> string"

definition call_niwrap :: "env \<Rightarrow> string \<Rightarrow> pydict \<Rightarrow> robj action" where
  "call_niwrap en name params w =
     (case niwrap en name params (fs w) of
        (r, fsys') \<Rightarrow> (r, w\<lparr>fs := fsys', trace := trace w @ [Invoke name params (fs w)]\<rparr>))"

text \<open>\<open>try: body  except Exception as e: handler\<close>.\<close>

definition try_except :: "'a action \<Rightarrow> (exn \<Rightarrow> 'a action) \<Rightarrow> 'a action" where
  "try_except body handler w =
     (case body w of
        (Inl e, w') \<Rightarrow> handler e w'
      | (Inr v, w') \<Rightarrow> (Inr v, w'))"

text \<open>
  The handler of the server's tools: report \<open>prefix + str(e)\<close> to the client and raise a
  \<open>RuntimeError\<close> with that text while \<open>e\<close> is being handled.
\<close>

definition reraise_ctx :: "string \<Rightarrow> exn \<Rightarrow> 'a action" where
  "reraise_ctx prefix e w =
     (Inl (Exn RuntimeError (prefix @ exn_msg e) (Some e)), ctx_error (prefix @ exn_msg e) w)"

text \<open>The same handler in the raw functions, which print instead.\<close>

definition reraise_print :: "string \<Rightarrow> exn \<Rightarrow> 'a action" where
  "reraise_print prefix e w =
     (Inl (Exn RuntimeError (prefix @ exn_msg e) (Some e)), print (prefix @ exn_msg e) w)"

section \<open>The server's tools\<close>

text \<open>
  Each tool takes its defaulted parameters as options (\<open>None\<close> selects the default of the
  signature). The \<open>Context\<close> argument is the client-visible log of the world. The body
  of each \<open>try\<close> block is a definition of its own.
\<close>

definition OUTPUTS_DIR :: string where
  "OUTPUTS_DIR = ''/Users/hp/Desktop/neurodesk/data/outputs''"

definition SUBJECTS_DIR :: string where
  "SUBJECTS_DIR = ''/Users/hp/Desktop/neurodesk/data/freesurfer_subjects''"

text \<open>The float \<open>0.5\<close>.\<close>

definition float_half :: pyfloat where
  "float_half = Float64 0x3FE0000000000000"

subsection \<open>FSL BET\<close>

definition fsl_bet_try :: "env \<Rightarrow> string \<Rightarrow> string \<Rightarrow> pyfloat \<Rightarrow> bool \<Rightarrow> pydict action" where
  "fsl_bet_try en input_file output_prefix fractional_intensity generate_binary_mask w =
     (let output_dir = path_of OUTPUTS_DIR in
      case path_mkdir output_dir (fs w) of
        Inl e \<Rightarrow> (Inl e, w)
      | Inr fsys1 \<Rightarrow>
          (let w1 = w\<lparr>fs := fsys1\<rparr>;
               brain_image = path_str (path_join output_dir (output_prefix @ ''.nii.gz''));
               w2 = ctx_info (''Running FSL BET with fractional intensity: '' @
                      str_float en fractional_intensity) w1;
               bet_params0 = [(''infile'', PStr input_file),
                              (''maskfile'', PStr brain_image),
                              (''fractional_intensity'', PFloat fractional_intensity)];
               bet_params = (if generate_binary_mask
                             then dict_set bet_params0 ''binary_mask'' (PBool True)
                             else bet_params0)
           in case call_niwrap en ''niwrap.fsl.bet'' bet_params w2 of
                (Inl e, w3) \<Rightarrow> (Inl e, w3)
              | (Inr result, w3) \<Rightarrow>
                  (case getattr result ''outfile'' of
                     Inl e \<Rightarrow> (Inl e, w3)
                   | Inr outfile \<Rightarrow>
                       (let output_data0 =
                              [(''brain_image'', outfile),
                               (''metadata'', PDict [(''tool'', PStr ''FSL BET''),
                                                    (''parameters'', PDict bet_params),
                                                    (''container'', PStr ''FSL Docker container'')])]
                        in if generate_binary_mask \<and> hasattr result ''binary_mask''
                           then (case getattr result ''binary_mask'' of
                                   Inl e \<Rightarrow> (Inl e, w3)
                                 | Inr bmask \<Rightarrow>
                                     (Inr (dict_set output_data0 ''brain_mask'' bmask),
                                      ctx_info ''Brain extraction completed successfully'' w3))
                           else (Inr output_data0,
                                 ctx_info ''Brain extraction completed successfully'' w3)))))"

definition fsl_bet_brain_extraction ::
  "env \<Rightarrow> string \<Rightarrow> string option \<Rightarrow> pyfloat option \<Rightarrow> bool option \<Rightarrow> pydict action" where
  "fsl_bet_brain_extraction en input_file output_prefix_arg fractional_intensity_arg
       generate_binary_mask_arg w =
     (let output_prefix = (case output_prefix_arg of None \<Rightarrow> ''brain_extracted'' | Some v \<Rightarrow> v);
          fractional_intensity =
            (case fractional_intensity_arg of None \<Rightarrow> float_half | Some v \<Rightarrow> v);
          generate_binary_mask = (case generate_binary_mask_arg of None \<Rightarrow> True | Some v \<Rightarrow> v);
          w1 = ctx_info (''Starting brain extraction with BET on '' @ input_file) w;
          input_path = path_of input_file
      in if \<not> path_exists (fs w1) input_path
         then (Inl (Exn FileNotFoundError (''Input file not found: '' @ input_file) None), w1)
         else try_except
                (fsl_bet_try en input_file output_prefix fractional_intensity generate_binary_mask)
                (reraise_ctx ''BET processing failed: '') w1)"

subsection \<open>FSL FAST\<close>

definition fsl_fast_try :: "env \<Rightarrow> string \<Rightarrow> string \<Rightarrow> int \<Rightarrow> pydict action" where
  "fsl_fast_try en input_file output_prefix tissue_classes w =
     (let output_dir = path_of OUTPUTS_DIR in
      case path_mkdir output_dir (fs w) of
        Inl e \<Rightarrow> (Inl e, w)
      | Inr fsys1 \<Rightarrow>
          (let w1 = w\<lparr>fs := fsys1\<rparr>;
               w2 = ctx_info (''Running FSL FAST with '' @ str_int tissue_classes @
                      '' tissue classes'') w1;
               fast_params = [(''infile'', PStr input_file),
                              (''basename'', PStr (path_str (path_join output_dir output_prefix))),
                              (''classes'', PInt tissue_classes),
                              (''bias_field'', PBool True),
                              (''probability_maps'', PBool True)]
           in case call_niwrap en ''niwrap.fsl.fast'' fast_params w2 of
                (Inl e, w3) \<Rightarrow> (Inl e, w3)
              | (Inr result, w3) \<Rightarrow>
                  (case getattr result ''outfile'' of
                     Inl e \<Rightarrow> (Inl e, w3)
                   | Inr outfile \<Rightarrow>
                       (Inr [(''segmented_image'', outfile),
                             (''tissue_maps'', getattr_default result ''tissue_maps'' (PList [])),
                             (''bias_field'', getattr_default result ''bias_field'' PNone),
                             (''metadata'', PDict [(''tool'', PStr ''FSL FAST''),
                                                  (''parameters'', PDict fast_params),
                                                  (''tissue_classes'', PInt tissue_classes)])],
                        ctx_info ''Tissue segmentation completed successfully'' w3))))"

definition fsl_fast_segmentation ::
  "env \<Rightarrow> string \<Rightarrow> string option \<Rightarrow> int option \<Rightarrow> pydict action" where
  "fsl_fast_segmentation en input_file output_prefix_arg tissue_classes_arg w =
     (let output_prefix = (case output_prefix_arg of None \<Rightarrow> ''segmented'' | Some v \<Rightarrow> v);
          tissue_classes = (case tissue_classes_arg of None \<Rightarrow> 3 | Some v \<Rightarrow> v);
          w1 = ctx_info (''Starting tissue segmentation with FAST on '' @ input_file) w;
          input_path = path_of input_file
      in if \<not> path_exists (fs w1) input_path
         then (Inl (Exn FileNotFoundError (''Input file not found: '' @ input_file) None), w1)
         else try_except
                (fsl_fast_try en input_file output_prefix tissue_classes)
                (reraise_ctx ''FAST processing failed: '') w1)"

subsection \<open>FSL FLIRT\<close>

definition fsl_flirt_try :: "env \<Rightarrow> string \<Rightarrow> string \<Rightarrow> string \<Rightarrow> int \<Rightarrow> pydict action" where
  "fsl_flirt_try en input_file reference_file output_file dof w =
     (let w1 = ctx_info (''Running FSL FLIRT with '' @ str_int dof @ '' degrees of freedom'') w;
          flirt_params = [(''infile'', PStr input_file),
                          (''reference'', PStr reference_file),
                          (''outfile'', PStr output_file),
                          (''dof'', PInt dof),
                          (''cost'', PStr ''corratio'')]
      in case call_niwrap en ''niwrap.fsl.flirt'' flirt_params w1 of
           (Inl e, w2) \<Rightarrow> (Inl e, w2)
         | (Inr result, w2) \<Rightarrow>
             (case getattr result ''outfile'' of
                Inl e \<Rightarrow> (Inl e, w2)
              | Inr outfile \<Rightarrow>
                  (Inr [(''registered_image'', outfile),
                        (''transformation_matrix'', getattr_default result ''omat'' PNone),
                        (''metadata'', PDict [(''tool'', PStr ''FSL FLIRT''),
                                             (''parameters'', PDict flirt_params),
                                             (''dof'', PInt dof)])],
                   ctx_info ''Registration completed successfully'' w2)))"

definition fsl_flirt_registration ::
  "env \<Rightarrow> string \<Rightarrow> string \<Rightarrow> string option \<Rightarrow> int option \<Rightarrow> pydict action" where
  "fsl_flirt_registration en input_file reference_file output_file_arg dof_arg w =
     (let output_file = (case output_file_arg of None \<Rightarrow> ''registered.nii.gz'' | Some v \<Rightarrow> v);
          dof = (case dof_arg of None \<Rightarrow> 12 | Some v \<Rightarrow> v);
          w1 = ctx_info (''Starting registration with FLIRT: '' @ input_file @ '' -> '' @
                 reference_file) w;
          input_path = path_of input_file;
          ref_path = path_of reference_file
      in if \<not> path_exists (fs w1) input_path
         then (Inl (Exn FileNotFoundError (''Input file not found: '' @ input_file) None), w1)
         else if \<not> path_exists (fs w1) ref_path
         then (Inl (Exn FileNotFoundError (''Reference file not found: '' @ reference_file) None),
               w1)
         else try_except
                (fsl_flirt_try en input_file reference_file output_file dof)
                (reraise_ctx ''FLIRT processing failed: '') w1)"

subsection \<open>MRTrix3 dwi2fod\<close>

definition mrtrix_dwi2fod_try :: "env \<Rightarrow> string \<Rightarrow> string \<Rightarrow> string \<Rightarrow> string \<Rightarrow> pydict action" where
  "mrtrix_dwi2fod_try en dwi_file response_file output_fod algorithm w =
     (let w1 = ctx_info (''Running MRTrix3 dwi2fod with '' @ algorithm @ '' algorithm'') w;
          dwi2fod_params = [(''algorithm'', PStr algorithm),
                            (''dwi'', PStr dwi_file),
                            (''response'', PStr response_file),
                            (''fod'', PStr output_fod)]
      in case call_niwrap en ''niwrap.mrtrix3.dwi2fod'' dwi2fod_params w1 of
           (Inl e, w2) \<Rightarrow> (Inl e, w2)
         | (Inr result, w2) \<Rightarrow>
             (case getattr result ''fod'' of
                Inl e \<Rightarrow> (Inl e, w2)
              | Inr fod \<Rightarrow>
                  (Inr [(''fod_image'', fod),
                        (''metadata'', PDict [(''tool'', PStr ''MRTrix3 dwi2fod''),
                                             (''parameters'', PDict dwi2fod_params),
                                             (''algorithm'', PStr algorithm)])],
                   ctx_info ''FOD estimation completed successfully'' w2)))"

definition mrtrix_dwi2fod ::
  "env \<Rightarrow> string \<Rightarrow> string \<Rightarrow> string option \<Rightarrow> string option \<Rightarrow> pydict action" where
  "mrtrix_dwi2fod en dwi_file response_file output_fod_arg algorithm_arg w =
     (let output_fod = (case output_fod_arg of None \<Rightarrow> ''wmfod.mif'' | Some v \<Rightarrow> v);
          algorithm = (case algorithm_arg of None \<Rightarrow> ''csd'' | Some v \<Rightarrow> v);
          w1 = ctx_info (''Starting FOD estimation with dwi2fod on '' @ dwi_file) w;
          dwi_path = path_of dwi_file;
          response_path = path_of response_file
      in if \<not> path_exists (fs w1) dwi_path
         then (Inl (Exn FileNotFoundError (''DWI file not found: '' @ dwi_file) None), w1)
         else if \<not> path_exists (fs w1) response_path
         then (Inl (Exn FileNotFoundError (''Response file not found: '' @ response_file) None),
               w1)
         else try_except
                (mrtrix_dwi2fod_try en dwi_file response_file output_fod algorithm)
                (reraise_ctx ''dwi2fod processing failed: '') w1)"

subsection \<open>FreeSurfer recon-all\<close>

text \<open>
  The subjects directory is created before the \<open>try\<close> block. The returned paths are built
  from \<open>subjects_path / subject_id\<close>; the result object of the wrapper is not read.
\<close>

definition freesurfer_recon_all_try ::
  "env \<Rightarrow> string \<Rightarrow> string \<Rightarrow> string \<Rightarrow> path \<Rightarrow> pydict action" where
  "freesurfer_recon_all_try en input_file subject_id subjects_dir subjects_path w =
     (let w1 = ctx_info ''Running FreeSurfer recon-all (this may take several hours)'' w;
          recon_params = [(''input_file'', PStr input_file),
                          (''subject_id'', PStr subject_id),
                          (''subjects_dir'', PStr subjects_dir),
                          (''all'', PBool True)]
      in case call_niwrap en ''niwrap.freesurfer.recon_all'' recon_params w1 of
           (Inl e, w2) \<Rightarrow> (Inl e, w2)
         | (Inr result, w2) \<Rightarrow>
             (let subject_dir = path_join subjects_path subject_id;
                  surf = path_join subject_dir ''surf'';
                  mri = path_join subject_dir ''mri''
              in (Inr [(''subject_directory'', PStr (path_str subject_dir)),
                       (''surfaces'', PDict
                          [(''left_pial'', PStr (path_str (path_join surf ''lh.pial''))),
                           (''right_pial'', PStr (path_str (path_join surf ''rh.pial''))),
                           (''left_white'', PStr (path_str (path_join surf ''lh.white''))),
                           (''right_white'', PStr (path_str (path_join surf ''rh.white'')))]),
                       (''volumes'', PDict
                          [(''brain'', PStr (path_str (path_join mri ''brain.mgz''))),
                           (''aseg'', PStr (path_str (path_join mri ''aseg.mgz''))),
                           (''aparc'', PStr (path_str (path_join mri ''aparc+aseg.mgz'')))]),
                       (''metadata'', PDict [(''tool'', PStr ''FreeSurfer recon-all''),
                                            (''subject_id'', PStr subject_id),
                                            (''subjects_dir'', PStr subjects_dir)])],
                  ctx_info ''FreeSurfer recon-all completed successfully'' w2)))"

definition freesurfer_recon_all ::
  "env \<Rightarrow> string \<Rightarrow> string \<Rightarrow> string option \<Rightarrow> pydict action" where
  "freesurfer_recon_all en input_file subject_id subjects_dir_arg w =
     (let subjects_dir = (case subjects_dir_arg of None \<Rightarrow> SUBJECTS_DIR | Some v \<Rightarrow> v);
          w1 = ctx_info (''Starting FreeSurfer recon-all for subject '' @ subject_id) w;
          input_path = path_of input_file
      in if \<not> path_exists (fs w1) input_path
         then (Inl (Exn FileNotFoundError (''Input file not found: '' @ input_file) None), w1)
         else (let subjects_path = path_of subjects_dir in
               case path_mkdir subjects_path (fs w1) of
                 Inl e \<Rightarrow> (Inl e, w1)
               | Inr fsys1 \<Rightarrow>
                   try_except
                     (freesurfer_recon_all_try en input_file subject_id subjects_dir subjects_path)
                     (reraise_ctx ''FreeSurfer recon-all failed: '') (w1\<lparr>fs := fsys1\<rparr>)))"

subsection \<open>The workspace resource\<close>


subsection \<open>The analysis guide\<close>

text \<open>The three guide texts, line by line; the lines are joined by newlines.\<close>

definition guide_brain_extraction :: string where
  "guide_brain_extraction = str_join [CHR 0x0A]
     ['''',
      ''        Brain extraction is the first step in most neuroimaging analyses. Here's a typical workflow:'',
      '''',
      ''        1. Start with a T1-weighted anatomical image'',
      ''        2. Use FSL BET with appropriate fractional intensity (0.3-0.7)'',
      ''        3. Visual quality control of extraction results'',
      ''        4. Proceed with further analysis on brain-extracted image'',
      '''',
      ''        Parameters to consider:'',
      ''        - Lower fractional intensity (0.3) for more conservative extraction'',
      ''        - Higher fractional intensity (0.7) for more aggressive extraction'',
      ''        - Default (0.5) works well for most cases'',
      ''        '']"

definition guide_preprocessing :: string where
  "guide_preprocessing = str_join [CHR 0x0A]
     ['''',
      ''        Standard T1 preprocessing pipeline:'',
      '''',
      ''        1. Brain extraction (BET)'',
      ''        2. Tissue segmentation (FAST)'',
      ''        3. Spatial normalization (FLIRT to MNI space)'',
      ''        4. Quality control at each step'',
      '''',
      ''        This pipeline prepares data for group-level statistical analysis.'',
      ''        '']"

definition guide_diffusion :: string where
  "guide_diffusion = str_join [CHR 0x0A]
     ['''',
      ''        Diffusion MRI analysis workflow:'',
      '''',
      ''        1. Preprocessing: denoising, motion correction, eddy current correction'',
      ''        2. Response function estimation'',
      ''        3. Fiber orientation distribution estimation (dwi2fod)'',
      ''        4. Tractography generation'',
      ''        5. Connectome construction'',
      '''',
      ''        Requires DWI data with b-values and gradient directions.'',
      ''        '']"

definition guides :: "(string \<times> string) list" where
  "guides = [(''brain_extraction'', guide_brain_extraction),
             (''preprocessing'', guide_preprocessing),
             (''diffusion'', guide_diffusion)]"

definition neuroimaging_analysis_guide :: "string \<Rightarrow> string" where
  "neuroimaging_analysis_guide analysis_type =
     (case dict_get guides analysis_type of
        Some g \<Rightarrow> g
      | None \<Rightarrow>
          ''Unknown analysis type. Available types: brain_extraction, preprocessing, diffusion'')"

section \<open>The raw functions\<close>

text \<open>
  The raw functions print instead of logging to a context and pass the keyword arguments
  directly. In the three below, the dictionary display that builds the response reads the
  result's attributes and then a name (\<open>bet_params\<close>, \<open>fast_params\<close>, \<open>flirt_params\<close>)
  that is bound nowhere in the module, which raises \<open>NameError\<close>.
\<close>

definition name_error :: "string \<Rightarrow> exn" where
  "name_error n = Exn NameError (''name '' @ [CHR 0x27] @ n @ [CHR 0x27] @ '' is not defined'') None"

definition fsl_bet_raw_try :: "env \<Rightarrow> string \<Rightarrow> string \<Rightarrow> pyfloat \<Rightarrow> bool \<Rightarrow> pydict action" where
  "fsl_bet_raw_try en input_file output_prefix fractional_intensity generate_binary_mask w =
     (let output_dir = path_of OUTPUTS_DIR in
      case path_mkdir output_dir (fs w) of
        Inl e \<Rightarrow> (Inl e, w)
      | Inr fsys1 \<Rightarrow>
          (let w1 = w\<lparr>fs := fsys1\<rparr>;
               brain_image = path_str (path_join output_dir (output_prefix @ ''.nii.gz''));
               w2 = print (''Running FSL BET with fractional intensity: '' @
                      str_float en fractional_intensity) w1
           in case call_niwrap en ''niwrap.fsl.bet''
                     [(''infile'', PStr input_file),
                      (''maskfile'', PStr brain_image),
                      (''fractional_intensity'', PFloat fractional_intensity),
                      (''binary_mask'', PBool generate_binary_mask)] w2 of
                (Inl e, w3) \<Rightarrow> (Inl e, w3)
              | (Inr result, w3) \<Rightarrow>
                  (case getattr result ''outfile'' of
                     Inl e \<Rightarrow> (Inl e, w3)
                   | Inr outfile \<Rightarrow> (Inl (name_error ''bet_params''), w3))))"

definition fsl_bet_brain_extraction_raw ::
  "env \<Rightarrow> string \<Rightarrow> string option \<Rightarrow> pyfloat option \<Rightarrow> bool option \<Rightarrow> pydict action" where
  "fsl_bet_brain_extraction_raw en input_file output_prefix_arg fractional_intensity_arg
       generate_binary_mask_arg w =
     (let output_prefix = (case output_prefix_arg of None \<Rightarrow> ''brain_extracted'' | Some v \<Rightarrow> v);
          fractional_intensity =
            (case fractional_intensity_arg of None \<Rightarrow> float_half | Some v \<Rightarrow> v);
          generate_binary_mask = (case generate_binary_mask_arg of None \<Rightarrow> True | Some v \<Rightarrow> v);
          w1 = print (''Starting brain extraction with BET on '' @ input_file) w;
          input_path = path_of input_file
      in if \<not> path_exists (fs w1) input_path
         then (Inl (Exn FileNotFoundError (''Input file not found: '' @ input_file) None), w1)
         else try_except
                (fsl_bet_raw_try en input_file output_prefix fractional_intensity
                   generate_binary_mask)
                (reraise_print ''BET processing failed: '') w1)"

definition fsl_fast_raw_try :: "env \<Rightarrow> string \<Rightarrow> string \<Rightarrow> int \<Rightarrow> pydict action" where
  "fsl_fast_raw_try en input_file output_prefix tissue_classes w =
     (let output_dir = path_of OUTPUTS_DIR in
      case path_mkdir output_dir (fs w) of
        Inl e \<Rightarrow> (Inl e, w)
      | Inr fsys1 \<Rightarrow>
          (let w1 = w\<lparr>fs := fsys1\<rparr>;
               w2 = print (''Running FSL FAST with '' @ str_int tissue_classes @
                      '' tissue classes'') w1
           in case call_niwrap en ''niwrap.fsl.fast''
                     [(''in_files'', PList [PStr input_file]),
                      (''number_classes'', PInt tissue_classes),
                      (''out_basename'', PStr (path_str (path_join output_dir output_prefix))),
                      (''output_biasfield'', PBool True),
                      (''segments'', PBool True)] w2 of
                (Inl e, w3) \<Rightarrow> (Inl e, w3)
              | (Inr result, w3) \<Rightarrow>
                  (case getattr result ''outfile'' of
                     Inl e \<Rightarrow> (Inl e, w3)
                   | Inr outfile \<Rightarrow> (Inl (name_error ''fast_params''), w3))))"

definition fsl_fast_segmentation_raw ::
  "env \<Rightarrow> string \<Rightarrow> string option \<Rightarrow> int option \<Rightarrow> pydict action" where
  "fsl_fast_segmentation_raw en input_file output_prefix_arg tissue_classes_arg w =
     (let output_prefix = (case output_prefix_arg of None \<Rightarrow> ''segmented'' | Some v \<Rightarrow> v);
          tissue_classes = (case tissue_classes_arg of None \<Rightarrow> 3 | Some v \<Rightarrow> v);
          w1 = print (''Starting tissue segmentation with FAST on '' @ input_file) w;
          input_path = path_of input_file
      in if \<not> path_exists (fs w1) input_path
         then (Inl (Exn FileNotFoundError (''Input file not found: '' @ input_file) None), w1)
         else try_except
                (fsl_fast_raw_try en input_file output_prefix tissue_classes)
                (reraise_print ''FAST processing failed: '') w1)"

definition fsl_flirt_raw_try :: "env \<Rightarrow> string \<Rightarrow> string \<Rightarrow> string \<Rightarrow> int \<Rightarrow> pydict action" where
  "fsl_flirt_raw_try en input_file reference_file output_file dof w =
     (let w1 = print (''Running FSL FLIRT with '' @ str_int dof @ '' degrees of freedom'') w
      in case call_niwrap en ''niwrap.fsl.flirt''
                [(''in_file'', PStr input_file),
                 (''reference'', PStr reference_file),
                 (''out_file'', PStr output_file),
                 (''out_matrix_file'', PStr (str_replace output_file ''.nii.gz'' ''.mat'')),
                 (''dof'', PInt dof),
                 (''cost'', PStr ''corratio'')] w1 of
           (Inl e, w2) \<Rightarrow> (Inl e, w2)
         | (Inr result, w2) \<Rightarrow>
             (case getattr result ''outfile'' of
                Inl e \<Rightarrow> (Inl e, w2)
              | Inr outfile \<Rightarrow> (Inl (name_error ''flirt_params''), w2)))"

definition fsl_flirt_registration_raw ::
  "env \<Rightarrow> string \<Rightarrow> string \<Rightarrow> string option \<Rightarrow> int option \<Rightarrow> pydict action" where
  "fsl_flirt_registration_raw en input_file reference_file output_file_arg dof_arg w =
     (let output_file = (case output_file_arg of None \<Rightarrow> ''registered.nii.gz'' | Some v \<Rightarrow> v);
          dof = (case dof_arg of None \<Rightarrow> 12 | Some v \<Rightarrow> v);
          w1 = print (''Starting registration with FLIRT: '' @ input_file @ '' -> '' @
                 reference_file) w;
          input_path = path_of input_file;
          ref_path = path_of reference_file
      in if \<not> path_exists (fs w1) input_path
         then (Inl (Exn FileNotFoundError (''Input file not found: '' @ input_file) None), w1)
         else if \<not> path_exists (fs w1) ref_path
         then (Inl (Exn FileNotFoundError (''Reference file not found: '' @ reference_file) None),
               w1)
         else try_except
                (fsl_flirt_raw_try en input_file reference_file output_file dof)
                (reraise_print ''FLIRT processing failed: '') w1)"

section \<open>Sample collaborators and worlds\<close>

text \<open>
  A wrapper that succeeds and leaves the filesystem alone, one that always fails, and a
  small filesystem holding two images.
\<close>

definition sample_result :: robj where
  "sample_result = \<lparr>cls_name = ''Outputs'',
     attrs = [(''outfile'', PStr ''out.nii.gz''), (''fod'', PStr ''wmfod.mif'')]\<rparr>"

definition ok_env :: env where
  "ok_env = \<lparr>niwrap = (\<lambda>name params fsys. (Inr sample_result, fsys)),
             str_float = (\<lambda>x. ''0.5'')\<rparr>"



definition sample_world :: world where
  "sample_world = \<lparr>fs = [(''/'', Dir), (''.'', Dir), (''t1.nii.gz'', File),
                          (''mni.nii.gz'', File)],
                    trace = []\<rparr>"

section \<open>Properties of a call\<close>


text \<open>
  Between worlds \<open>w\<close> and \<open>w'\<close> the wrapper was invoked exactly once, as \<open>callee\<close>, and
  the response's metadata names \<open>tool\<close> and holds, under \<open>parameters\<close>, the keyword
  arguments of that invocation.
\<close>

definition metadata_records_call :: "string \<Rightarrow> string \<Rightarrow> world \<Rightarrow> world \<Rightarrow> pydict \<Rightarrow> bool" where
  "metadata_records_call callee tool w w' out =
     (case invocations (new_events w w') of
        [(n, p, f)] \<Rightarrow>
          n = callee \<and>
          (case sub_dict out ''metadata'' of
             Some md \<Rightarrow> dict_get md ''tool'' = Some (PStr tool) \<and>
                        dict_get md ''parameters'' = Some (PDict p)
           | None \<Rightarrow> False)
      | _ \<Rightarrow> False)"

text \<open>
  Between worlds \<open>w\<close> and \<open>w'\<close> the wrapper was invoked exactly once, as \<open>callee\<close>,
  against the filesystem \<open>fsys\<close>.
\<close>

definition invoked_once_on :: "string \<Rightarrow> filesystem \<Rightarrow> world \<Rightarrow> world \<Rightarrow> bool" where
  "invoked_once_on callee fsys w w' =
     (case invocations (new_events w w') of
        [(n, p, f)] \<Rightarrow> n = callee \<and> f = fsys
      | _ \<Rightarrow> False)"

text \<open>
  A call that got past validation and directory creation ran as follows: the events it
  added contain exactly one invocation, of \<open>callee\<close> with keyword arguments \<open>p\<close> against
  the filesystem \<open>fsys\<close>; an exception of that invocation surfaces as \<open>wrap\<close> of it; every
  exception that surfaces is \<open>wrap\<close> of some exception; and a returned response satisfies
  \<open>good\<close>. (A proof device: the statements of the development below do not use it.)
\<close>

definition runs_as ::
  "env \<Rightarrow> string \<Rightarrow> pydict \<Rightarrow> filesystem \<Rightarrow> world \<Rightarrow> (exn + pydict) \<times> world \<Rightarrow>
   (exn \<Rightarrow> exn) \<Rightarrow> (pydict \<Rightarrow> bool) \<Rightarrow> bool" where
  "runs_as en callee p fsys w res wrap good =
     ((\<exists>evs. trace (snd res) = trace w @ evs \<and> invocations evs = [(callee, p, fsys)]) \<and>
      (\<forall>e0. fst (niwrap en callee p fsys) = Inl e0 \<longrightarrow> fst res = Inl (wrap e0)) \<and>
      (\<forall>e. fst res = Inl e \<longrightarrow> (\<exists>e0. e = wrap e0)) \<and>
      (\<forall>out. fst res = Inr out \<longrightarrow> good out))"

section \<open>Basic facts about the world\<close>

lemma ctx_info_simps [simp]:
  "fs (ctx_info m w) = fs w" "trace (ctx_info m w) = trace w @ [CtxInfo m]"
  by (simp_all add: ctx_info_def)

lemma ctx_error_simps [simp]:
  "fs (ctx_error m w) = fs w" "trace (ctx_error m w) = trace w @ [CtxError m]"
  by (simp_all add: ctx_error_def)

lemma print_simps [simp]:
  "fs (print m w) = fs w" "trace (print m w) = trace w @ [Print m]"
  by (simp_all add: print_def)

lemma new_events_append:
  "trace w' = trace w @ evs \<Longrightarrow> new_events w w' = evs"
  by (simp add: new_events_def)

lemma invocations_append [simp]:
  "invocations (xs @ ys) = invocations xs @ invocations ys"
  by (induction xs rule: invocations.induct) simp_all

section \<open>Directory creation\<close>

text \<open>Whenever \<open>mkdir(parents=True, exist_ok=True)\<close> returns, the path is a directory.\<close>

lemma os_mkdir_is_dir: "os_mkdir p fsys = Inr fsys' \<Longrightarrow> path_is_dir fsys' p"
  by (auto simp: os_mkdir_def path_is_dir_def map_add_def
      split: if_splits option.splits node.splits)

lemma mkdir_exist_ok_is_dir: "mkdir_exist_ok p fsys = Inr fsys' \<Longrightarrow> path_is_dir fsys' p"
  by (auto simp: mkdir_exist_ok_def split: sum.splits if_splits dest: os_mkdir_is_dir)

lemma mkdir_parents_is_dir:
  "mkdir_parents r ps fsys = Inr fsys' \<Longrightarrow> path_is_dir fsys' (PurePath r (rev ps))"
  by (cases ps) (auto split: sum.splits if_splits dest: os_mkdir_is_dir mkdir_exist_ok_is_dir)

lemma path_mkdir_is_dir: "path_mkdir p fsys = Inr fsys' \<Longrightarrow> path_is_dir fsys' p"
  using mkdir_parents_is_dir [of "root p" "rev (parts p)" fsys fsys']
  by (simp add: path_mkdir_def)

section \<open>Running a guarded call\<close>

lemma call_niwrap_eq:
  "call_niwrap en name params w =
     (fst (niwrap en name params (fs w)),
      w\<lparr>fs := snd (niwrap en name params (fs w)),
        trace := trace w @ [Invoke name params (fs w)]\<rparr>)"
  by (simp add: call_niwrap_def split: prod.splits)

lemma try_except_ctx_fst:
  "fst (try_except b (reraise_ctx prefix) w) =
     (case fst (b w) of
        Inl e \<Rightarrow> Inl (Exn RuntimeError (prefix @ exn_msg e) (Some e))
      | Inr v \<Rightarrow> Inr v)"
  by (simp add: try_except_def reraise_ctx_def split: prod.splits sum.splits)

lemma try_except_print_fst:
  "fst (try_except b (reraise_print prefix) w) =
     (case fst (b w) of
        Inl e \<Rightarrow> Inl (Exn RuntimeError (prefix @ exn_msg e) (Some e))
      | Inr v \<Rightarrow> Inr v)"
  by (simp add: try_except_def reraise_print_def split: prod.splits sum.splits)

lemma runs_as_try_except:
  assumes "runs_as en callee p fsys w1 (b w1) (\<lambda>e. e) good"
    and "trace w1 = trace w @ pre" and "invocations pre = []"
  shows "runs_as en callee p fsys w (try_except b (reraise_ctx prefix) w1)
           (\<lambda>e. Exn RuntimeError (prefix @ exn_msg e) (Some e)) good"
proof -
  obtain r w2 where b: "b w1 = (r, w2)" by (cases "b w1")
  from assms(1) b obtain evs where
    evs: "trace w2 = trace w1 @ evs" "invocations evs = [(callee, p, fsys)]"
    by (auto simp: runs_as_def)
  show ?thesis
  proof (cases r)
    case (Inl e)
    with assms b evs show ?thesis
      by (auto simp: runs_as_def try_except_def reraise_ctx_def)
  next
    case (Inr v)
    with assms b evs show ?thesis
      by (auto simp: runs_as_def try_except_def reraise_ctx_def)
  qed
qed

lemma runs_as_try_except_print:
  assumes "runs_as en callee p fsys w1 (b w1) (\<lambda>e. e) good"
    and "trace w1 = trace w @ pre" and "invocations pre = []"
  shows "runs_as en callee p fsys w (try_except b (reraise_print prefix) w1)
           (\<lambda>e. Exn RuntimeError (prefix @ exn_msg e) (Some e)) good"
proof -
  obtain r w2 where b: "b w1 = (r, w2)" by (cases "b w1")
  from assms(1) b obtain evs where
    evs: "trace w2 = trace w1 @ evs" "invocations evs = [(callee, p, fsys)]"
    by (auto simp: runs_as_def)
  show ?thesis
  proof (cases r)
    case (Inl e)
    with assms b evs show ?thesis
      by (auto simp: runs_as_def try_except_def reraise_print_def)
  next
    case (Inr v)
    with assms b evs show ?thesis
      by (auto simp: runs_as_def try_except_def reraise_print_def)
  qed
qed

lemma runs_as_invocations:
  "runs_as en callee p fsys w res wrap good \<Longrightarrow>
   invocations (new_events w (snd res)) = [(callee, p, fsys)]"
  by (auto simp: runs_as_def new_events_def)

lemma runs_as_invoked_once:
  "runs_as en callee p fsys w res wrap good \<Longrightarrow> invoked_once_on callee fsys w (snd res)"
  by (simp add: invoked_once_on_def runs_as_invocations)

lemma runs_as_raises:
  assumes "runs_as en callee p fsys w res wrap good"
    and "(n, p', f) \<in> set (invocations (new_events w (snd res)))"
    and "fst (niwrap en n p' f) = Inl e0"
  shows "fst res = Inl (wrap e0)"
proof -
  from assms(1,2) have "n = callee" "p' = p" "f = fsys"
    by (simp_all add: runs_as_invocations)
  with assms(1,3) show ?thesis by (simp add: runs_as_def)
qed

lemma runs_as_failure:
  "runs_as en callee p fsys w res wrap good \<Longrightarrow> fst res = Inl e \<Longrightarrow> \<exists>e0. e = wrap e0"
  by (simp add: runs_as_def)

lemma runs_as_success:
  "runs_as en callee p fsys w res wrap good \<Longrightarrow> fst res = Inr out \<Longrightarrow> good out"
  by (simp add: runs_as_def)

lemma runs_as_metadata:
  assumes "runs_as en callee p fsys w res wrap
             (\<lambda>out. \<exists>md. sub_dict out ''metadata'' = Some md \<and>
                dict_get md ''tool'' = Some (PStr tool) \<and>
                dict_get md ''parameters'' = Some (PDict p))"
    and "fst res = Inr out"
  shows "metadata_records_call callee tool w (snd res) out"
proof -
  from assms have "\<exists>md. sub_dict out ''metadata'' = Some md \<and>
      dict_get md ''tool'' = Some (PStr tool) \<and> dict_get md ''parameters'' = Some (PDict p)"
    by (simp add: runs_as_def)
  moreover from assms(1) have "invocations (new_events w (snd res)) = [(callee, p, fsys)]"
    by (rule runs_as_invocations)
  ultimately show ?thesis by (auto simp: metadata_records_call_def)
qed


section \<open>The tools, step by step\<close>

subsection \<open>fsl bet brain extraction\<close>

lemma bet_invalid_0:
  "\<not> path_exists (fs w) (path_of i) \<Longrightarrow>
   fsl_bet_brain_extraction en i pa fa ga w =
     (Inl (Exn FileNotFoundError (''Input file not found: '' @ i) None),
      ctx_info (''Starting brain extraction with BET on '' @ i) w)"
  by (simp add: fsl_bet_brain_extraction_def Let_def)

lemma bet_valid:
  "path_exists (fs w) (path_of i) \<Longrightarrow>
   fsl_bet_brain_extraction en i pa fa ga w =
     try_except (fsl_bet_try en i (case pa of None \<Rightarrow> ''brain_extracted'' | Some v \<Rightarrow> v) (case fa of None \<Rightarrow> float_half | Some v \<Rightarrow> v) (case ga of None \<Rightarrow> True | Some v \<Rightarrow> v))
       (reraise_ctx ''BET processing failed: '') (ctx_info (''Starting brain extraction with BET on '' @ i) w)"
  by (simp add: fsl_bet_brain_extraction_def Let_def)

lemma bet_mkdir_fails:
  "path_exists (fs w) (path_of i) \<Longrightarrow> path_mkdir (path_of OUTPUTS_DIR) (fs w) = Inl e \<Longrightarrow>
   fsl_bet_brain_extraction en i pa fa ga w =
     (Inl (Exn RuntimeError (''BET processing failed: '' @ exn_msg e) (Some e)),
      ctx_error (''BET processing failed: '' @ exn_msg e) (ctx_info (''Starting brain extraction with BET on '' @ i) w))"
  by (simp add: bet_valid fsl_bet_try_def try_except_def reraise_ctx_def)

lemma bet_try_run:
  "path_mkdir (path_of OUTPUTS_DIR) (fs w) = Inr fsys1 \<Longrightarrow>
   runs_as en ''niwrap.fsl.bet''
     (if gbm
      then [(''infile'', PStr i),
        (''maskfile'', PStr (path_str (path_join (path_of OUTPUTS_DIR) (pre @ ''.nii.gz'')))),
        (''fractional_intensity'', PFloat fi), (''binary_mask'', PBool True)]
      else [(''infile'', PStr i),
        (''maskfile'', PStr (path_str (path_join (path_of OUTPUTS_DIR) (pre @ ''.nii.gz'')))),
        (''fractional_intensity'', PFloat fi)])
     fsys1 w (fsl_bet_try en i pre fi gbm w) (\<lambda>e. e)
     (\<lambda>out. \<exists>md. sub_dict out ''metadata'' = Some md \<and>
        dict_get md ''tool'' = Some (PStr ''FSL BET'') \<and>
        dict_get md ''parameters'' = Some (PDict
     (if gbm
      then [(''infile'', PStr i),
        (''maskfile'', PStr (path_str (path_join (path_of OUTPUTS_DIR) (pre @ ''.nii.gz'')))),
        (''fractional_intensity'', PFloat fi), (''binary_mask'', PBool True)]
      else [(''infile'', PStr i),
        (''maskfile'', PStr (path_str (path_join (path_of OUTPUTS_DIR) (pre @ ''.nii.gz'')))),
        (''fractional_intensity'', PFloat fi)])))"
  by (cases gbm)
     (simp_all add: runs_as_def fsl_bet_try_def call_niwrap_eq Let_def sub_dict_def dict_get_def
       split: sum.splits)

lemma bet_run:
  assumes "path_exists (fs w) (path_of i)"
    and "path_mkdir (path_of OUTPUTS_DIR) (fs w) = Inr fsys1"
  shows "runs_as en ''niwrap.fsl.bet''
     (if (case ga of None \<Rightarrow> True | Some v \<Rightarrow> v)
      then [(''infile'', PStr i),
        (''maskfile'', PStr (path_str (path_join (path_of OUTPUTS_DIR) ((case pa of None \<Rightarrow> ''brain_extracted'' | Some v \<Rightarrow> v) @ ''.nii.gz'')))),
        (''fractional_intensity'', PFloat (case fa of None \<Rightarrow> float_half | Some v \<Rightarrow> v)), (''binary_mask'', PBool True)]
      else [(''infile'', PStr i),
        (''maskfile'', PStr (path_str (path_join (path_of OUTPUTS_DIR) ((case pa of None \<Rightarrow> ''brain_extracted'' | Some v \<Rightarrow> v) @ ''.nii.gz'')))),
        (''fractional_intensity'', PFloat (case fa of None \<Rightarrow> float_half | Some v \<Rightarrow> v))])
     fsys1 w (fsl_bet_brain_extraction en i pa fa ga w) (\<lambda>e. Exn RuntimeError (''BET processing failed: '' @ exn_msg e) (Some e))
     (\<lambda>out. \<exists>md. sub_dict out ''metadata'' = Some md \<and>
        dict_get md ''tool'' = Some (PStr ''FSL BET'') \<and>
        dict_get md ''parameters'' = Some (PDict
     (if (case ga of None \<Rightarrow> True | Some v \<Rightarrow> v)
      then [(''infile'', PStr i),
        (''maskfile'', PStr (path_str (path_join (path_of OUTPUTS_DIR) ((case pa of None \<Rightarrow> ''brain_extracted'' | Some v \<Rightarrow> v) @ ''.nii.gz'')))),
        (''fractional_intensity'', PFloat (case fa of None \<Rightarrow> float_half | Some v \<Rightarrow> v)), (''binary_mask'', PBool True)]
      else [(''infile'', PStr i),
        (''maskfile'', PStr (path_str (path_join (path_of OUTPUTS_DIR) ((case pa of None \<Rightarrow> ''brain_extracted'' | Some v \<Rightarrow> v) @ ''.nii.gz'')))),
        (''fractional_intensity'', PFloat (case fa of None \<Rightarrow> float_half | Some v \<Rightarrow> v))])))"
proof -
  from assms(2) have "path_mkdir (path_of OUTPUTS_DIR) (fs (ctx_info (''Starting brain extraction with BET on '' @ i) w)) = Inr fsys1" by simp
  then have "runs_as en ''niwrap.fsl.bet''
     (if (case ga of None \<Rightarrow> True | Some v \<Rightarrow> v)
      then [(''infile'', PStr i),
        (''maskfile'', PStr (path_str (path_join (path_of OUTPUTS_DIR) ((case pa of None \<Rightarrow> ''brain_extracted'' | Some v \<Rightarrow> v) @ ''.nii.gz'')))),
        (''fractional_intensity'', PFloat (case fa of None \<Rightarrow> float_half | Some v \<Rightarrow> v)), (''binary_mask'', PBool True)]
      else [(''infile'', PStr i),
        (''maskfile'', PStr (path_str (path_join (path_of OUTPUTS_DIR) ((case pa of None \<Rightarrow> ''brain_extracted'' | Some v \<Rightarrow> v) @ ''.nii.gz'')))),
        (''fractional_intensity'', PFloat (case fa of None \<Rightarrow> float_half | Some v \<Rightarrow> v))])
     fsys1 (ctx_info (''Starting brain extraction with BET on '' @ i) w) (fsl_bet_try en i (case pa of None \<Rightarrow> ''brain_extracted'' | Some v \<Rightarrow> v) (case fa of None \<Rightarrow> float_half | Some v \<Rightarrow> v) (case ga of None \<Rightarrow> True | Some v \<Rightarrow> v) (ctx_info (''Starting brain extraction with BET on '' @ i) w)) (\<lambda>e. e)
     (\<lambda>out. \<exists>md. sub_dict out ''metadata'' = Some md \<and>
        dict_get md ''tool'' = Some (PStr ''FSL BET'') \<and>
        dict_get md ''parameters'' = Some (PDict
     (if (case ga of None \<Rightarrow> True | Some v \<Rightarrow> v)
      then [(''infile'', PStr i),
        (''maskfile'', PStr (path_str (path_join (path_of OUTPUTS_DIR) ((case pa of None \<Rightarrow> ''brain_extracted'' | Some v \<Rightarrow> v) @ ''.nii.gz'')))),
        (''fractional_intensity'', PFloat (case fa of None \<Rightarrow> float_half | Some v \<Rightarrow> v)), (''binary_mask'', PBool True)]
      else [(''infile'', PStr i),
        (''maskfile'', PStr (path_str (path_join (path_of OUTPUTS_DIR) ((case pa of None \<Rightarrow> ''brain_extracted'' | Some v \<Rightarrow> v) @ ''.nii.gz'')))),
        (''fractional_intensity'', PFloat (case fa of None \<Rightarrow> float_half | Some v \<Rightarrow> v))])))"
    by (rule bet_try_run)
  then have "runs_as en ''niwrap.fsl.bet''
     (if (case ga of None \<Rightarrow> True | Some v \<Rightarrow> v)
      then [(''infile'', PStr i),
        (''maskfile'', PStr (path_str (path_join (path_of OUTPUTS_DIR) ((case pa of None \<Rightarrow> ''brain_extracted'' | Some v \<Rightarrow> v) @ ''.nii.gz'')))),
        (''fractional_intensity'', PFloat (case fa of None \<Rightarrow> float_half | Some v \<Rightarrow> v)), (''binary_mask'', PBool True)]
      else [(''infile'', PStr i),
        (''maskfile'', PStr (path_str (path_join (path_of OUTPUTS_DIR) ((case pa of None \<Rightarrow> ''brain_extracted'' | Some v \<Rightarrow> v) @ ''.nii.gz'')))),
        (''fractional_intensity'', PFloat (case fa of None \<Rightarrow> float_half | Some v \<Rightarrow> v))])
     fsys1 w (try_except (fsl_bet_try en i (case pa of None \<Rightarrow> ''brain_extracted'' | Some v \<Rightarrow> v) (case fa of None \<Rightarrow> float_half | Some v \<Rightarrow> v) (case ga of None \<Rightarrow> True | Some v \<Rightarrow> v)) (reraise_ctx ''BET processing failed: '') (ctx_info (''Starting brain extraction with BET on '' @ i) w)) (\<lambda>e. Exn RuntimeError (''BET processing failed: '' @ exn_msg e) (Some e))
     (\<lambda>out. \<exists>md. sub_dict out ''metadata'' = Some md \<and>
        dict_get md ''tool'' = Some (PStr ''FSL BET'') \<and>
        dict_get md ''parameters'' = Some (PDict
     (if (case ga of None \<Rightarrow> True | Some v \<Rightarrow> v)
      then [(''infile'', PStr i),
        (''maskfile'', PStr (path_str (path_join (path_of OUTPUTS_DIR) ((case pa of None \<Rightarrow> ''brain_extracted'' | Some v \<Rightarrow> v) @ ''.nii.gz'')))),
        (''fractional_intensity'', PFloat (case fa of None \<Rightarrow> float_half | Some v \<Rightarrow> v)), (''binary_mask'', PBool True)]
      else [(''infile'', PStr i),
        (''maskfile'', PStr (path_str (path_join (path_of OUTPUTS_DIR) ((case pa of None \<Rightarrow> ''brain_extracted'' | Some v \<Rightarrow> v) @ ''.nii.gz'')))),
        (''fractional_intensity'', PFloat (case fa of None \<Rightarrow> float_half | Some v \<Rightarrow> v))])))"
    by (rule runs_as_try_except [where pre = "[CtxInfo (''Starting brain extraction with BET on '' @ i)]"]) simp_all
  then show ?thesis by (simp only: bet_valid [OF assms(1)])
qed

subsection \<open>fsl fast segmentation\<close>

lemma fast_invalid_0:
  "\<not> path_exists (fs w) (path_of i) \<Longrightarrow>
   fsl_fast_segmentation en i pa ta w =
     (Inl (Exn FileNotFoundError (''Input file not found: '' @ i) None),
      ctx_info (''Starting tissue segmentation with FAST on '' @ i) w)"
  by (simp add: fsl_fast_segmentation_def Let_def)

lemma fast_valid:
  "path_exists (fs w) (path_of i) \<Longrightarrow>
   fsl_fast_segmentation en i pa ta w =
     try_except (fsl_fast_try en i (case pa of None \<Rightarrow> ''segmented'' | Some v \<Rightarrow> v) (case ta of None \<Rightarrow> 3 | Some v \<Rightarrow> v))
       (reraise_ctx ''FAST processing failed: '') (ctx_info (''Starting tissue segmentation with FAST on '' @ i) w)"
  by (simp add: fsl_fast_segmentation_def Let_def)

lemma fast_mkdir_fails:
  "path_exists (fs w) (path_of i) \<Longrightarrow> path_mkdir (path_of OUTPUTS_DIR) (fs w) = Inl e \<Longrightarrow>
   fsl_fast_segmentation en i pa ta w =
     (Inl (Exn RuntimeError (''FAST processing failed: '' @ exn_msg e) (Some e)),
      ctx_error (''FAST processing failed: '' @ exn_msg e) (ctx_info (''Starting tissue segmentation with FAST on '' @ i) w))"
  by (simp add: fast_valid fsl_fast_try_def try_except_def reraise_ctx_def)

lemma fast_try_run:
  "path_mkdir (path_of OUTPUTS_DIR) (fs w) = Inr fsys1 \<Longrightarrow>
   runs_as en ''niwrap.fsl.fast''
     [(''infile'', PStr i),
      (''basename'', PStr (path_str (path_join (path_of OUTPUTS_DIR) (pre)))),
      (''classes'', PInt tc),
      (''bias_field'', PBool True),
      (''probability_maps'', PBool True)]
     fsys1 w (fsl_fast_try en i pre tc w) (\<lambda>e. e)
     (\<lambda>out. \<exists>md. sub_dict out ''metadata'' = Some md \<and>
        dict_get md ''tool'' = Some (PStr ''FSL FAST'') \<and>
        dict_get md ''parameters'' = Some (PDict
     [(''infile'', PStr i),
      (''basename'', PStr (path_str (path_join (path_of OUTPUTS_DIR) (pre)))),
      (''classes'', PInt tc),
      (''bias_field'', PBool True),
      (''probability_maps'', PBool True)]))"
  by (simp add: runs_as_def fsl_fast_try_def call_niwrap_eq Let_def sub_dict_def dict_get_def
       split: sum.splits)

lemma fast_run:
  assumes "path_exists (fs w) (path_of i)"
    and "path_mkdir (path_of OUTPUTS_DIR) (fs w) = Inr fsys1"
  shows "runs_as en ''niwrap.fsl.fast''
     [(''infile'', PStr i),
      (''basename'', PStr (path_str (path_join (path_of OUTPUTS_DIR) ((case pa of None \<Rightarrow> ''segmented'' | Some v \<Rightarrow> v))))),
      (''classes'', PInt (case ta of None \<Rightarrow> 3 | Some v \<Rightarrow> v)),
      (''bias_field'', PBool True),
      (''probability_maps'', PBool True)]
     fsys1 w (fsl_fast_segmentation en i pa ta w) (\<lambda>e. Exn RuntimeError (''FAST processing failed: '' @ exn_msg e) (Some e))
     (\<lambda>out. \<exists>md. sub_dict out ''metadata'' = Some md \<and>
        dict_get md ''tool'' = Some (PStr ''FSL FAST'') \<and>
        dict_get md ''parameters'' = Some (PDict
     [(''infile'', PStr i),
      (''basename'', PStr (path_str (path_join (path_of OUTPUTS_DIR) ((case pa of None \<Rightarrow> ''segmented'' | Some v \<Rightarrow> v))))),
      (''classes'', PInt (case ta of None \<Rightarrow> 3 | Some v \<Rightarrow> v)),
      (''bias_field'', PBool True),
      (''probability_maps'', PBool True)]))"
proof -
  from assms(2) have "path_mkdir (path_of OUTPUTS_DIR) (fs (ctx_info (''Starting tissue segmentation with FAST on '' @ i) w)) = Inr fsys1" by simp
  then have "runs_as en ''niwrap.fsl.fast''
     [(''infile'', PStr i),
      (''basename'', PStr (path_str (path_join (path_of OUTPUTS_DIR) ((case pa of None \<Rightarrow> ''segmented'' | Some v \<Rightarrow> v))))),
      (''classes'', PInt (case ta of None \<Rightarrow> 3 | Some v \<Rightarrow> v)),
      (''bias_field'', PBool True),
      (''probability_maps'', PBool True)]
     fsys1 (ctx_info (''Starting tissue segmentation with FAST on '' @ i) w) (fsl_fast_try en i (case pa of None \<Rightarrow> ''segmented'' | Some v \<Rightarrow> v) (case ta of None \<Rightarrow> 3 | Some v \<Rightarrow> v) (ctx_info (''Starting tissue segmentation with FAST on '' @ i) w)) (\<lambda>e. e)
     (\<lambda>out. \<exists>md. sub_dict out ''metadata'' = Some md \<and>
        dict_get md ''tool'' = Some (PStr ''FSL FAST'') \<and>
        dict_get md ''parameters'' = Some (PDict
     [(''infile'', PStr i),
      (''basename'', PStr (path_str (path_join (path_of OUTPUTS_DIR) ((case pa of None \<Rightarrow> ''segmented'' | Some v \<Rightarrow> v))))),
      (''classes'', PInt (case ta of None \<Rightarrow> 3 | Some v \<Rightarrow> v)),
      (''bias_field'', PBool True),
      (''probability_maps'', PBool True)]))"
    by (rule fast_try_run)
  then have "runs_as en ''niwrap.fsl.fast''
     [(''infile'', PStr i),
      (''basename'', PStr (path_str (path_join (path_of OUTPUTS_DIR) ((case pa of None \<Rightarrow> ''segmented'' | Some v \<Rightarrow> v))))),
      (''classes'', PInt (case ta of None \<Rightarrow> 3 | Some v \<Rightarrow> v)),
      (''bias_field'', PBool True),
      (''probability_maps'', PBool True)]
     fsys1 w (try_except (fsl_fast_try en i (case pa of None \<Rightarrow> ''segmented'' | Some v \<Rightarrow> v) (case ta of None \<Rightarrow> 3 | Some v \<Rightarrow> v)) (reraise_ctx ''FAST processing failed: '') (ctx_info (''Starting tissue segmentation with FAST on '' @ i) w)) (\<lambda>e. Exn RuntimeError (''FAST processing failed: '' @ exn_msg e) (Some e))
     (\<lambda>out. \<exists>md. sub_dict out ''metadata'' = Some md \<and>
        dict_get md ''tool'' = Some (PStr ''FSL FAST'') \<and>
        dict_get md ''parameters'' = Some (PDict
     [(''infile'', PStr i),
      (''basename'', PStr (path_str (path_join (path_of OUTPUTS_DIR) ((case pa of None \<Rightarrow> ''segmented'' | Some v \<Rightarrow> v))))),
      (''classes'', PInt (case ta of None \<Rightarrow> 3 | Some v \<Rightarrow> v)),
      (''bias_field'', PBool True),
      (''probability_maps'', PBool True)]))"
    by (rule runs_as_try_except [where pre = "[CtxInfo (''Starting tissue segmentation with FAST on '' @ i)]"]) simp_all
  then show ?thesis by (simp only: fast_valid [OF assms(1)])
qed

subsection \<open>fsl flirt registration\<close>

lemma flirt_invalid_0:
  "\<not> path_exists (fs w) (path_of i) \<Longrightarrow>
   fsl_flirt_registration en i r oa da w =
     (Inl (Exn FileNotFoundError (''Input file not found: '' @ i) None),
      ctx_info (''Starting registration with FLIRT: '' @ i @ '' -> '' @ r) w)"
  by (simp add: fsl_flirt_registration_def Let_def)

lemma flirt_invalid_1:
  "path_exists (fs w) (path_of i) \<Longrightarrow> \<not> path_exists (fs w) (path_of r) \<Longrightarrow>
   fsl_flirt_registration en i r oa da w =
     (Inl (Exn FileNotFoundError (''Reference file not found: '' @ r) None),
      ctx_info (''Starting registration with FLIRT: '' @ i @ '' -> '' @ r) w)"
  by (simp add: fsl_flirt_registration_def Let_def)

lemma flirt_valid:
  "path_exists (fs w) (path_of i) \<Longrightarrow> path_exists (fs w) (path_of r) \<Longrightarrow>
   fsl_flirt_registration en i r oa da w =
     try_except (fsl_flirt_try en i r (case oa of None \<Rightarrow> ''registered.nii.gz'' | Some v \<Rightarrow> v) (case da of None \<Rightarrow> 12 | Some v \<Rightarrow> v))
       (reraise_ctx ''FLIRT processing failed: '') (ctx_info (''Starting registration with FLIRT: '' @ i @ '' -> '' @ r) w)"
  by (simp add: fsl_flirt_registration_def Let_def)

lemma flirt_try_run:
  "runs_as en ''niwrap.fsl.flirt''
     [(''infile'', PStr i), (''reference'', PStr r),
      (''outfile'', PStr ou),
      (''dof'', PInt d),
      (''cost'', PStr ''corratio'')]
     (fs w) w (fsl_flirt_try en i r ou d w) (\<lambda>e. e)
     (\<lambda>out. \<exists>md. sub_dict out ''metadata'' = Some md \<and>
        dict_get md ''tool'' = Some (PStr ''FSL FLIRT'') \<and>
        dict_get md ''parameters'' = Some (PDict
     [(''infile'', PStr i), (''reference'', PStr r),
      (''outfile'', PStr ou),
      (''dof'', PInt d),
      (''cost'', PStr ''corratio'')]))"
  by (simp add: runs_as_def fsl_flirt_try_def call_niwrap_eq Let_def sub_dict_def dict_get_def
       split: sum.splits)

lemma flirt_run:
  assumes "path_exists (fs w) (path_of i)"
    and "path_exists (fs w) (path_of r)"
  shows "runs_as en ''niwrap.fsl.flirt''
     [(''infile'', PStr i), (''reference'', PStr r),
      (''outfile'', PStr (case oa of None \<Rightarrow> ''registered.nii.gz'' | Some v \<Rightarrow> v)),
      (''dof'', PInt (case da of None \<Rightarrow> 12 | Some v \<Rightarrow> v)),
      (''cost'', PStr ''corratio'')]
     (fs w) w (fsl_flirt_registration en i r oa da w) (\<lambda>e. Exn RuntimeError (''FLIRT processing failed: '' @ exn_msg e) (Some e))
     (\<lambda>out. \<exists>md. sub_dict out ''metadata'' = Some md \<and>
        dict_get md ''tool'' = Some (PStr ''FSL FLIRT'') \<and>
        dict_get md ''parameters'' = Some (PDict
     [(''infile'', PStr i), (''reference'', PStr r),
      (''outfile'', PStr (case oa of None \<Rightarrow> ''registered.nii.gz'' | Some v \<Rightarrow> v)),
      (''dof'', PInt (case da of None \<Rightarrow> 12 | Some v \<Rightarrow> v)),
      (''cost'', PStr ''corratio'')]))"
proof -
  have "runs_as en ''niwrap.fsl.flirt''
     [(''infile'', PStr i), (''reference'', PStr r),
      (''outfile'', PStr (case oa of None \<Rightarrow> ''registered.nii.gz'' | Some v \<Rightarrow> v)),
      (''dof'', PInt (case da of None \<Rightarrow> 12 | Some v \<Rightarrow> v)),
      (''cost'', PStr ''corratio'')]
     (fs (ctx_info (''Starting registration with FLIRT: '' @ i @ '' -> '' @ r) w)) (ctx_info (''Starting registration with FLIRT: '' @ i @ '' -> '' @ r) w) (fsl_flirt_try en i r (case oa of None \<Rightarrow> ''registered.nii.gz'' | Some v \<Rightarrow> v) (case da of None \<Rightarrow> 12 | Some v \<Rightarrow> v) (ctx_info (''Starting registration with FLIRT: '' @ i @ '' -> '' @ r) w)) (\<lambda>e. e)
     (\<lambda>out. \<exists>md. sub_dict out ''metadata'' = Some md \<and>
        dict_get md ''tool'' = Some (PStr ''FSL FLIRT'') \<and>
        dict_get md ''parameters'' = Some (PDict
     [(''infile'', PStr i), (''reference'', PStr r),
      (''outfile'', PStr (case oa of None \<Rightarrow> ''registered.nii.gz'' | Some v \<Rightarrow> v)),
      (''dof'', PInt (case da of None \<Rightarrow> 12 | Some v \<Rightarrow> v)),
      (''cost'', PStr ''corratio'')]))"
    by (rule flirt_try_run)
  then have "runs_as en ''niwrap.fsl.flirt''
     [(''infile'', PStr i), (''reference'', PStr r),
      (''outfile'', PStr (case oa of None \<Rightarrow> ''registered.nii.gz'' | Some v \<Rightarrow> v)),
      (''dof'', PInt (case da of None \<Rightarrow> 12 | Some v \<Rightarrow> v)),
      (''cost'', PStr ''corratio'')]
     (fs w) (ctx_info (''Starting registration with FLIRT: '' @ i @ '' -> '' @ r) w) (fsl_flirt_try en i r (case oa of None \<Rightarrow> ''registered.nii.gz'' | Some v \<Rightarrow> v) (case da of None \<Rightarrow> 12 | Some v \<Rightarrow> v) (ctx_info (''Starting registration with FLIRT: '' @ i @ '' -> '' @ r) w)) (\<lambda>e. e)
     (\<lambda>out. \<exists>md. sub_dict out ''metadata'' = Some md \<and>
        dict_get md ''tool'' = Some (PStr ''FSL FLIRT'') \<and>
        dict_get md ''parameters'' = Some (PDict
     [(''infile'', PStr i), (''reference'', PStr r),
      (''outfile'', PStr (case oa of None \<Rightarrow> ''registered.nii.gz'' | Some v \<Rightarrow> v)),
      (''dof'', PInt (case da of None \<Rightarrow> 12 | Some v \<Rightarrow> v)),
      (''cost'', PStr ''corratio'')]))"
    by simp
  then have "runs_as en ''niwrap.fsl.flirt''
     [(''infile'', PStr i), (''reference'', PStr r),
      (''outfile'', PStr (case oa of None \<Rightarrow> ''registered.nii.gz'' | Some v \<Rightarrow> v)),
      (''dof'', PInt (case da of None \<Rightarrow> 12 | Some v \<Rightarrow> v)),
      (''cost'', PStr ''corratio'')]
     (fs w) w (try_except (fsl_flirt_try en i r (case oa of None \<Rightarrow> ''registered.nii.gz'' | Some v \<Rightarrow> v) (case da of None \<Rightarrow> 12 | Some v \<Rightarrow> v)) (reraise_ctx ''FLIRT processing failed: '') (ctx_info (''Starting registration with FLIRT: '' @ i @ '' -> '' @ r) w)) (\<lambda>e. Exn RuntimeError (''FLIRT processing failed: '' @ exn_msg e) (Some e))
     (\<lambda>out. \<exists>md. sub_dict out ''metadata'' = Some md \<and>
        dict_get md ''tool'' = Some (PStr ''FSL FLIRT'') \<and>
        dict_get md ''parameters'' = Some (PDict
     [(''infile'', PStr i), (''reference'', PStr r),
      (''outfile'', PStr (case oa of None \<Rightarrow> ''registered.nii.gz'' | Some v \<Rightarrow> v)),
      (''dof'', PInt (case da of None \<Rightarrow> 12 | Some v \<Rightarrow> v)),
      (''cost'', PStr ''corratio'')]))"
    by (rule runs_as_try_except [where pre = "[CtxInfo (''Starting registration with FLIRT: '' @ i @ '' -> '' @ r)]"]) simp_all
  then show ?thesis by (simp only: flirt_valid [OF assms(1) assms(2)])
qed

subsection \<open>mrtrix dwi2fod\<close>

lemma dwi2fod_invalid_0:
  "\<not> path_exists (fs w) (path_of i) \<Longrightarrow>
   mrtrix_dwi2fod en i r oa aa w =
     (Inl (Exn FileNotFoundError (''DWI file not found: '' @ i) None),
      ctx_info (''Starting FOD estimation with dwi2fod on '' @ i) w)"
  by (simp add: mrtrix_dwi2fod_def Let_def)

lemma dwi2fod_invalid_1:
  "path_exists (fs w) (path_of i) \<Longrightarrow> \<not> path_exists (fs w) (path_of r) \<Longrightarrow>
   mrtrix_dwi2fod en i r oa aa w =
     (Inl (Exn FileNotFoundError (''Response file not found: '' @ r) None),
      ctx_info (''Starting FOD estimation with dwi2fod on '' @ i) w)"
  by (simp add: mrtrix_dwi2fod_def Let_def)

lemma dwi2fod_valid:
  "path_exists (fs w) (path_of i) \<Longrightarrow> path_exists (fs w) (path_of r) \<Longrightarrow>
   mrtrix_dwi2fod en i r oa aa w =
     try_except (mrtrix_dwi2fod_try en i r (case oa of None \<Rightarrow> ''wmfod.mif'' | Some v \<Rightarrow> v) (case aa of None \<Rightarrow> ''csd'' | Some v \<Rightarrow> v))
       (reraise_ctx ''dwi2fod processing failed: '') (ctx_info (''Starting FOD estimation with dwi2fod on '' @ i) w)"
  by (simp add: mrtrix_dwi2fod_def Let_def)

lemma dwi2fod_try_run:
  "runs_as en ''niwrap.mrtrix3.dwi2fod''
     [(''algorithm'', PStr al), (''dwi'', PStr i),
      (''response'', PStr r),
      (''fod'', PStr ou)]
     (fs w) w (mrtrix_dwi2fod_try en i r ou al w) (\<lambda>e. e)
     (\<lambda>out. \<exists>md. sub_dict out ''metadata'' = Some md \<and>
        dict_get md ''tool'' = Some (PStr ''MRTrix3 dwi2fod'') \<and>
        dict_get md ''parameters'' = Some (PDict
     [(''algorithm'', PStr al), (''dwi'', PStr i),
      (''response'', PStr r),
      (''fod'', PStr ou)]))"
  by (simp add: runs_as_def mrtrix_dwi2fod_try_def call_niwrap_eq Let_def sub_dict_def dict_get_def
       split: sum.splits)

lemma dwi2fod_run:
  assumes "path_exists (fs w) (path_of i)"
    and "path_exists (fs w) (path_of r)"
  shows "runs_as en ''niwrap.mrtrix3.dwi2fod''
     [(''algorithm'', PStr (case aa of None \<Rightarrow> ''csd'' | Some v \<Rightarrow> v)), (''dwi'', PStr i),
      (''response'', PStr r),
      (''fod'', PStr (case oa of None \<Rightarrow> ''wmfod.mif'' | Some v \<Rightarrow> v))]
     (fs w) w (mrtrix_dwi2fod en i r oa aa w) (\<lambda>e. Exn RuntimeError (''dwi2fod processing failed: '' @ exn_msg e) (Some e))
     (\<lambda>out. \<exists>md. sub_dict out ''metadata'' = Some md \<and>
        dict_get md ''tool'' = Some (PStr ''MRTrix3 dwi2fod'') \<and>
        dict_get md ''parameters'' = Some (PDict
     [(''algorithm'', PStr (case aa of None \<Rightarrow> ''csd'' | Some v \<Rightarrow> v)), (''dwi'', PStr i),
      (''response'', PStr r),
      (''fod'', PStr (case oa of None \<Rightarrow> ''wmfod.mif'' | Some v \<Rightarrow> v))]))"
proof -
  have "runs_as en ''niwrap.mrtrix3.dwi2fod''
     [(''algorithm'', PStr (case aa of None \<Rightarrow> ''csd'' | Some v \<Rightarrow> v)), (''dwi'', PStr i),
      (''response'', PStr r),
      (''fod'', PStr (case oa of None \<Rightarrow> ''wmfod.mif'' | Some v \<Rightarrow> v))]
     (fs (ctx_info (''Starting FOD estimation with dwi2fod on '' @ i) w)) (ctx_info (''Starting FOD estimation with dwi2fod on '' @ i) w) (mrtrix_dwi2fod_try en i r (case oa of None \<Rightarrow> ''wmfod.mif'' | Some v \<Rightarrow> v) (case aa of None \<Rightarrow> ''csd'' | Some v \<Rightarrow> v) (ctx_info (''Starting FOD estimation with dwi2fod on '' @ i) w)) (\<lambda>e. e)
     (\<lambda>out. \<exists>md. sub_dict out ''metadata'' = Some md \<and>
        dict_get md ''tool'' = Some (PStr ''MRTrix3 dwi2fod'') \<and>
        dict_get md ''parameters'' = Some (PDict
     [(''algorithm'', PStr (case aa of None \<Rightarrow> ''csd'' | Some v \<Rightarrow> v)), (''dwi'', PStr i),
      (''response'', PStr r),
      (''fod'', PStr (case oa of None \<Rightarrow> ''wmfod.mif'' | Some v \<Rightarrow> v))]))"
    by (rule dwi2fod_try_run)
  then have "runs_as en ''niwrap.mrtrix3.dwi2fod''
     [(''algorithm'', PStr (case aa of None \<Rightarrow> ''csd'' | Some v \<Rightarrow> v)), (''dwi'', PStr i),
      (''response'', PStr r),
      (''fod'', PStr (case oa of None \<Rightarrow> ''wmfod.mif'' | Some v \<Rightarrow> v))]
     (fs w) (ctx_info (''Starting FOD estimation with dwi2fod on '' @ i) w) (mrtrix_dwi2fod_try en i r (case oa of None \<Rightarrow> ''wmfod.mif'' | Some v \<Rightarrow> v) (case aa of None \<Rightarrow> ''csd'' | Some v \<Rightarrow> v) (ctx_info (''Starting FOD estimation with dwi2fod on '' @ i) w)) (\<lambda>e. e)
     (\<lambda>out. \<exists>md. sub_dict out ''metadata'' = Some md \<and>
        dict_get md ''tool'' = Some (PStr ''MRTrix3 dwi2fod'') \<and>
        dict_get md ''parameters'' = Some (PDict
     [(''algorithm'', PStr (case aa of None \<Rightarrow> ''csd'' | Some v \<Rightarrow> v)), (''dwi'', PStr i),
      (''response'', PStr r),
      (''fod'', PStr (case oa of None \<Rightarrow> ''wmfod.mif'' | Some v \<Rightarrow> v))]))"
    by simp
  then have "runs_as en ''niwrap.mrtrix3.dwi2fod''
     [(''algorithm'', PStr (case aa of None \<Rightarrow> ''csd'' | Some v \<Rightarrow> v)), (''dwi'', PStr i),
      (''response'', PStr r),
      (''fod'', PStr (case oa of None \<Rightarrow> ''wmfod.mif'' | Some v \<Rightarrow> v))]
     (fs w) w (try_except (mrtrix_dwi2fod_try en i r (case oa of None \<Rightarrow> ''wmfod.mif'' | Some v \<Rightarrow> v) (case aa of None \<Rightarrow> ''csd'' | Some v \<Rightarrow> v)) (reraise_ctx ''dwi2fod processing failed: '') (ctx_info (''Starting FOD estimation with dwi2fod on '' @ i) w)) (\<lambda>e. Exn RuntimeError (''dwi2fod processing failed: '' @ exn_msg e) (Some e))
     (\<lambda>out. \<exists>md. sub_dict out ''metadata'' = Some md \<and>
        dict_get md ''tool'' = Some (PStr ''MRTrix3 dwi2fod'') \<and>
        dict_get md ''parameters'' = Some (PDict
     [(''algorithm'', PStr (case aa of None \<Rightarrow> ''csd'' | Some v \<Rightarrow> v)), (''dwi'', PStr i),
      (''response'', PStr r),
      (''fod'', PStr (case oa of None \<Rightarrow> ''wmfod.mif'' | Some v \<Rightarrow> v))]))"
    by (rule runs_as_try_except [where pre = "[CtxInfo (''Starting FOD estimation with dwi2fod on '' @ i)]"]) simp_all
  then show ?thesis by (simp only: dwi2fod_valid [OF assms(1) assms(2)])
qed

subsection \<open>freesurfer recon all\<close>

lemma recon_invalid_0:
  "\<not> path_exists (fs w) (path_of i) \<Longrightarrow>
   freesurfer_recon_all en i sid sa w =
     (Inl (Exn FileNotFoundError (''Input file not found: '' @ i) None),
      ctx_info (''Starting FreeSurfer recon-all for subject '' @ sid) w)"
  by (simp add: freesurfer_recon_all_def Let_def)

lemma recon_valid:
  "path_exists (fs w) (path_of i) \<Longrightarrow> path_mkdir (path_of (case sa of None \<Rightarrow> SUBJECTS_DIR | Some v \<Rightarrow> v)) (fs w) = Inr fsys1 \<Longrightarrow>
   freesurfer_recon_all en i sid sa w =
     try_except (freesurfer_recon_all_try en i sid (case sa of None \<Rightarrow> SUBJECTS_DIR | Some v \<Rightarrow> v) (path_of (case sa of None \<Rightarrow> SUBJECTS_DIR | Some v \<Rightarrow> v)))
       (reraise_ctx ''FreeSurfer recon-all failed: '') ((ctx_info (''Starting FreeSurfer recon-all for subject '' @ sid) w)\<lparr>fs := fsys1\<rparr>)"
  by (simp add: freesurfer_recon_all_def Let_def)

lemma recon_mkdir_fails:
  "path_exists (fs w) (path_of i) \<Longrightarrow> path_mkdir (path_of (case sa of None \<Rightarrow> SUBJECTS_DIR | Some v \<Rightarrow> v)) (fs w) = Inl e \<Longrightarrow>
   freesurfer_recon_all en i sid sa w = (Inl e, ctx_info (''Starting FreeSurfer recon-all for subject '' @ sid) w)"
  by (simp add: freesurfer_recon_all_def Let_def)

lemma recon_try_run:
  "runs_as en ''niwrap.freesurfer.recon_all''
     [(''input_file'', PStr i), (''subject_id'', PStr sid),
      (''subjects_dir'', PStr sd), (''all'', PBool True)]
     (fs w) w (freesurfer_recon_all_try en i sid sd sp w) (\<lambda>e. e)
     (\<lambda>out. out =
      [(''subject_directory'', PStr (path_str (path_join (sp) sid))),
       (''surfaces'', PDict
          [(''left_pial'', PStr (path_str (path_join (path_join (path_join (sp) sid) ''surf'') ''lh.pial''))),
           (''right_pial'', PStr (path_str (path_join (path_join (path_join (sp) sid) ''surf'') ''rh.pial''))),
           (''left_white'', PStr (path_str (path_join (path_join (path_join (sp) sid) ''surf'') ''lh.white''))),
           (''right_white'', PStr (path_str (path_join (path_join (path_join (sp) sid) ''surf'') ''rh.white'')))]),
       (''volumes'', PDict
          [(''brain'', PStr (path_str (path_join (path_join (path_join (sp) sid) ''mri'') ''brain.mgz''))),
           (''aseg'', PStr (path_str (path_join (path_join (path_join (sp) sid) ''mri'') ''aseg.mgz''))),
           (''aparc'', PStr (path_str (path_join (path_join (path_join (sp) sid) ''mri'') ''aparc+aseg.mgz'')))]),
       (''metadata'', PDict [(''tool'', PStr ''FreeSurfer recon-all''),
                            (''subject_id'', PStr sid),
                            (''subjects_dir'', PStr sd)])])"
  by (simp add: runs_as_def freesurfer_recon_all_try_def call_niwrap_eq Let_def sub_dict_def dict_get_def
       split: sum.splits)

lemma recon_run:
  assumes "path_exists (fs w) (path_of i)"
    and "path_mkdir (path_of (case sa of None \<Rightarrow> SUBJECTS_DIR | Some v \<Rightarrow> v)) (fs w) = Inr fsys1"
  shows "runs_as en ''niwrap.freesurfer.recon_all''
     [(''input_file'', PStr i), (''subject_id'', PStr sid),
      (''subjects_dir'', PStr (case sa of None \<Rightarrow> SUBJECTS_DIR | Some v \<Rightarrow> v)), (''all'', PBool True)]
     fsys1 w (freesurfer_recon_all en i sid sa w) (\<lambda>e. Exn RuntimeError (''FreeSurfer recon-all failed: '' @ exn_msg e) (Some e))
     (\<lambda>out. out =
      [(''subject_directory'', PStr (path_str (path_join (path_of (case sa of None \<Rightarrow> SUBJECTS_DIR | Some v \<Rightarrow> v)) sid))),
       (''surfaces'', PDict
          [(''left_pial'', PStr (path_str (path_join (path_join (path_join (path_of (case sa of None \<Rightarrow> SUBJECTS_DIR | Some v \<Rightarrow> v)) sid) ''surf'') ''lh.pial''))),
           (''right_pial'', PStr (path_str (path_join (path_join (path_join (path_of (case sa of None \<Rightarrow> SUBJECTS_DIR | Some v \<Rightarrow> v)) sid) ''surf'') ''rh.pial''))),
           (''left_white'', PStr (path_str (path_join (path_join (path_join (path_of (case sa of None \<Rightarrow> SUBJECTS_DIR | Some v \<Rightarrow> v)) sid) ''surf'') ''lh.white''))),
           (''right_white'', PStr (path_str (path_join (path_join (path_join (path_of (case sa of None \<Rightarrow> SUBJECTS_DIR | Some v \<Rightarrow> v)) sid) ''surf'') ''rh.white'')))]),
       (''volumes'', PDict
          [(''brain'', PStr (path_str (path_join (path_join (path_join (path_of (case sa of None \<Rightarrow> SUBJECTS_DIR | Some v \<Rightarrow> v)) sid) ''mri'') ''brain.mgz''))),
           (''aseg'', PStr (path_str (path_join (path_join (path_join (path_of (case sa of None \<Rightarrow> SUBJECTS_DIR | Some v \<Rightarrow> v)) sid) ''mri'') ''aseg.mgz''))),
           (''aparc'', PStr (path_str (path_join (path_join (path_join (path_of (case sa of None \<Rightarrow> SUBJECTS_DIR | Some v \<Rightarrow> v)) sid) ''mri'') ''aparc+aseg.mgz'')))]),
       (''metadata'', PDict [(''tool'', PStr ''FreeSurfer recon-all''),
                            (''subject_id'', PStr sid),
                            (''subjects_dir'', PStr (case sa of None \<Rightarrow> SUBJECTS_DIR | Some v \<Rightarrow> v))])])"
proof -
  have "runs_as en ''niwrap.freesurfer.recon_all''
     [(''input_file'', PStr i), (''subject_id'', PStr sid),
      (''subjects_dir'', PStr (case sa of None \<Rightarrow> SUBJECTS_DIR | Some v \<Rightarrow> v)), (''all'', PBool True)]
     (fs ((ctx_info (''Starting FreeSurfer recon-all for subject '' @ sid) w)\<lparr>fs := fsys1\<rparr>)) ((ctx_info (''Starting FreeSurfer recon-all for subject '' @ sid) w)\<lparr>fs := fsys1\<rparr>) (freesurfer_recon_all_try en i sid (case sa of None \<Rightarrow> SUBJECTS_DIR | Some v \<Rightarrow> v) (path_of (case sa of None \<Rightarrow> SUBJECTS_DIR | Some v \<Rightarrow> v)) ((ctx_info (''Starting FreeSurfer recon-all for subject '' @ sid) w)\<lparr>fs := fsys1\<rparr>)) (\<lambda>e. e)
     (\<lambda>out. out =
      [(''subject_directory'', PStr (path_str (path_join (path_of (case sa of None \<Rightarrow> SUBJECTS_DIR | Some v \<Rightarrow> v)) sid))),
       (''surfaces'', PDict
          [(''left_pial'', PStr (path_str (path_join (path_join (path_join (path_of (case sa of None \<Rightarrow> SUBJECTS_DIR | Some v \<Rightarrow> v)) sid) ''surf'') ''lh.pial''))),
           (''right_pial'', PStr (path_str (path_join (path_join (path_join (path_of (case sa of None \<Rightarrow> SUBJECTS_DIR | Some v \<Rightarrow> v)) sid) ''surf'') ''rh.pial''))),
           (''left_white'', PStr (path_str (path_join (path_join (path_join (path_of (case sa of None \<Rightarrow> SUBJECTS_DIR | Some v \<Rightarrow> v)) sid) ''surf'') ''lh.white''))),
           (''right_white'', PStr (path_str (path_join (path_join (path_join (path_of (case sa of None \<Rightarrow> SUBJECTS_DIR | Some v \<Rightarrow> v)) sid) ''surf'') ''rh.white'')))]),
       (''volumes'', PDict
          [(''brain'', PStr (path_str (path_join (path_join (path_join (path_of (case sa of None \<Rightarrow> SUBJECTS_DIR | Some v \<Rightarrow> v)) sid) ''mri'') ''brain.mgz''))),
           (''aseg'', PStr (path_str (path_join (path_join (path_join (path_of (case sa of None \<Rightarrow> SUBJECTS_DIR | Some v \<Rightarrow> v)) sid) ''mri'') ''aseg.mgz''))),
           (''aparc'', PStr (path_str (path_join (path_join (path_join (path_of (case sa of None \<Rightarrow> SUBJECTS_DIR | Some v \<Rightarrow> v)) sid) ''mri'') ''aparc+aseg.mgz'')))]),
       (''metadata'', PDict [(''tool'', PStr ''FreeSurfer recon-all''),
                            (''subject_id'', PStr sid),
                            (''subjects_dir'', PStr (case sa of None \<Rightarrow> SUBJECTS_DIR | Some v \<Rightarrow> v))])])"
    by (rule recon_try_run)
  then have "runs_as en ''niwrap.freesurfer.recon_all''
     [(''input_file'', PStr i), (''subject_id'', PStr sid),
      (''subjects_dir'', PStr (case sa of None \<Rightarrow> SUBJECTS_DIR | Some v \<Rightarrow> v)), (''all'', PBool True)]
     fsys1 ((ctx_info (''Starting FreeSurfer recon-all for subject '' @ sid) w)\<lparr>fs := fsys1\<rparr>) (freesurfer_recon_all_try en i sid (case sa of None \<Rightarrow> SUBJECTS_DIR | Some v \<Rightarrow> v) (path_of (case sa of None \<Rightarrow> SUBJECTS_DIR | Some v \<Rightarrow> v)) ((ctx_info (''Starting FreeSurfer recon-all for subject '' @ sid) w)\<lparr>fs := fsys1\<rparr>)) (\<lambda>e. e)
     (\<lambda>out. out =
      [(''subject_directory'', PStr (path_str (path_join (path_of (case sa of None \<Rightarrow> SUBJECTS_DIR | Some v \<Rightarrow> v)) sid))),
       (''surfaces'', PDict
          [(''left_pial'', PStr (path_str (path_join (path_join (path_join (path_of (case sa of None \<Rightarrow> SUBJECTS_DIR | Some v \<Rightarrow> v)) sid) ''surf'') ''lh.pial''))),
           (''right_pial'', PStr (path_str (path_join (path_join (path_join (path_of (case sa of None \<Rightarrow> SUBJECTS_DIR | Some v \<Rightarrow> v)) sid) ''surf'') ''rh.pial''))),
           (''left_white'', PStr (path_str (path_join (path_join (path_join (path_of (case sa of None \<Rightarrow> SUBJECTS_DIR | Some v \<Rightarrow> v)) sid) ''surf'') ''lh.white''))),
           (''right_white'', PStr (path_str (path_join (path_join (path_join (path_of (case sa of None \<Rightarrow> SUBJECTS_DIR | Some v \<Rightarrow> v)) sid) ''surf'') ''rh.white'')))]),
       (''volumes'', PDict
          [(''brain'', PStr (path_str (path_join (path_join (path_join (path_of (case sa of None \<Rightarrow> SUBJECTS_DIR | Some v \<Rightarrow> v)) sid) ''mri'') ''brain.mgz''))),
           (''aseg'', PStr (path_str (path_join (path_join (path_join (path_of (case sa of None \<Rightarrow> SUBJECTS_DIR | Some v \<Rightarrow> v)) sid) ''mri'') ''aseg.mgz''))),
           (''aparc'', PStr (path_str (path_join (path_join (path_join (path_of (case sa of None \<Rightarrow> SUBJECTS_DIR | Some v \<Rightarrow> v)) sid) ''mri'') ''aparc+aseg.mgz'')))]),
       (''metadata'', PDict [(''tool'', PStr ''FreeSurfer recon-all''),
                            (''subject_id'', PStr sid),
                            (''subjects_dir'', PStr (case sa of None \<Rightarrow> SUBJECTS_DIR | Some v \<Rightarrow> v))])])"
    by simp
  then have "runs_as en ''niwrap.freesurfer.recon_all''
     [(''input_file'', PStr i), (''subject_id'', PStr sid),
      (''subjects_dir'', PStr (case sa of None \<Rightarrow> SUBJECTS_DIR | Some v \<Rightarrow> v)), (''all'', PBool True)]
     fsys1 w (try_except (freesurfer_recon_all_try en i sid (case sa of None \<Rightarrow> SUBJECTS_DIR | Some v \<Rightarrow> v) (path_of (case sa of None \<Rightarrow> SUBJECTS_DIR | Some v \<Rightarrow> v))) (reraise_ctx ''FreeSurfer recon-all failed: '') ((ctx_info (''Starting FreeSurfer recon-all for subject '' @ sid) w)\<lparr>fs := fsys1\<rparr>)) (\<lambda>e. Exn RuntimeError (''FreeSurfer recon-all failed: '' @ exn_msg e) (Some e))
     (\<lambda>out. out =
      [(''subject_directory'', PStr (path_str (path_join (path_of (case sa of None \<Rightarrow> SUBJECTS_DIR | Some v \<Rightarrow> v)) sid))),
       (''surfaces'', PDict
          [(''left_pial'', PStr (path_str (path_join (path_join (path_join (path_of (case sa of None \<Rightarrow> SUBJECTS_DIR | Some v \<Rightarrow> v)) sid) ''surf'') ''lh.pial''))),
           (''right_pial'', PStr (path_str (path_join (path_join (path_join (path_of (case sa of None \<Rightarrow> SUBJECTS_DIR | Some v \<Rightarrow> v)) sid) ''surf'') ''rh.pial''))),
           (''left_white'', PStr (path_str (path_join (path_join (path_join (path_of (case sa of None \<Rightarrow> SUBJECTS_DIR | Some v \<Rightarrow> v)) sid) ''surf'') ''lh.white''))),
           (''right_white'', PStr (path_str (path_join (path_join (path_join (path_of (case sa of None \<Rightarrow> SUBJECTS_DIR | Some v \<Rightarrow> v)) sid) ''surf'') ''rh.white'')))]),
       (''volumes'', PDict
          [(''brain'', PStr (path_str (path_join (path_join (path_join (path_of (case sa of None \<Rightarrow> SUBJECTS_DIR | Some v \<Rightarrow> v)) sid) ''mri'') ''brain.mgz''))),
           (''aseg'', PStr (path_str (path_join (path_join (path_join (path_of (case sa of None \<Rightarrow> SUBJECTS_DIR | Some v \<Rightarrow> v)) sid) ''mri'') ''aseg.mgz''))),
           (''aparc'', PStr (path_str (path_join (path_join (path_join (path_of (case sa of None \<Rightarrow> SUBJECTS_DIR | Some v \<Rightarrow> v)) sid) ''mri'') ''aparc+aseg.mgz'')))]),
       (''metadata'', PDict [(''tool'', PStr ''FreeSurfer recon-all''),
                            (''subject_id'', PStr sid),
                            (''subjects_dir'', PStr (case sa of None \<Rightarrow> SUBJECTS_DIR | Some v \<Rightarrow> v))])])"
    by (rule runs_as_try_except [where pre = "[CtxInfo (''Starting FreeSurfer recon-all for subject '' @ sid)]"]) simp_all
  then show ?thesis by (simp only: recon_valid [OF assms(1) assms(2)])
qed

subsection \<open>fsl bet brain extraction raw\<close>

lemma bet_raw_invalid_0:
  "\<not> path_exists (fs w) (path_of i) \<Longrightarrow>
   fsl_bet_brain_extraction_raw en i pa fa ga w =
     (Inl (Exn FileNotFoundError (''Input file not found: '' @ i) None),
      print (''Starting brain extraction with BET on '' @ i) w)"
  by (simp add: fsl_bet_brain_extraction_raw_def Let_def)

lemma bet_raw_valid:
  "path_exists (fs w) (path_of i) \<Longrightarrow>
   fsl_bet_brain_extraction_raw en i pa fa ga w =
     try_except (fsl_bet_raw_try en i (case pa of None \<Rightarrow> ''brain_extracted'' | Some v \<Rightarrow> v) (case fa of None \<Rightarrow> float_half | Some v \<Rightarrow> v) (case ga of None \<Rightarrow> True | Some v \<Rightarrow> v))
       (reraise_print ''BET processing failed: '') (print (''Starting brain extraction with BET on '' @ i) w)"
  by (simp add: fsl_bet_brain_extraction_raw_def Let_def)

lemma bet_raw_mkdir_fails:
  "path_exists (fs w) (path_of i) \<Longrightarrow> path_mkdir (path_of OUTPUTS_DIR) (fs w) = Inl e \<Longrightarrow>
   fsl_bet_brain_extraction_raw en i pa fa ga w =
     (Inl (Exn RuntimeError (''BET processing failed: '' @ exn_msg e) (Some e)),
      print (''BET processing failed: '' @ exn_msg e) (print (''Starting brain extraction with BET on '' @ i) w))"
  by (simp add: bet_raw_valid fsl_bet_raw_try_def try_except_def reraise_print_def)

lemma bet_raw_try_run:
  "path_mkdir (path_of OUTPUTS_DIR) (fs w) = Inr fsys1 \<Longrightarrow>
   runs_as en ''niwrap.fsl.bet''
     [(''infile'', PStr i),
      (''maskfile'', PStr (path_str (path_join (path_of OUTPUTS_DIR) (pre @ ''.nii.gz'')))),
      (''fractional_intensity'', PFloat fi),
      (''binary_mask'', PBool gbm)]
     fsys1 w (fsl_bet_raw_try en i pre fi gbm w) (\<lambda>e. e)
     (\<lambda>out. False)"
  by (simp add: runs_as_def fsl_bet_raw_try_def call_niwrap_eq Let_def sub_dict_def dict_get_def
       split: sum.splits)

lemma bet_raw_run:
  assumes "path_exists (fs w) (path_of i)"
    and "path_mkdir (path_of OUTPUTS_DIR) (fs w) = Inr fsys1"
  shows "runs_as en ''niwrap.fsl.bet''
     [(''infile'', PStr i),
      (''maskfile'', PStr (path_str (path_join (path_of OUTPUTS_DIR) ((case pa of None \<Rightarrow> ''brain_extracted'' | Some v \<Rightarrow> v) @ ''.nii.gz'')))),
      (''fractional_intensity'', PFloat (case fa of None \<Rightarrow> float_half | Some v \<Rightarrow> v)),
      (''binary_mask'', PBool (case ga of None \<Rightarrow> True | Some v \<Rightarrow> v))]
     fsys1 w (fsl_bet_brain_extraction_raw en i pa fa ga w) (\<lambda>e. Exn RuntimeError (''BET processing failed: '' @ exn_msg e) (Some e))
     (\<lambda>out. False)"
proof -
  from assms(2) have "path_mkdir (path_of OUTPUTS_DIR) (fs (print (''Starting brain extraction with BET on '' @ i) w)) = Inr fsys1" by simp
  then have "runs_as en ''niwrap.fsl.bet''
     [(''infile'', PStr i),
      (''maskfile'', PStr (path_str (path_join (path_of OUTPUTS_DIR) ((case pa of None \<Rightarrow> ''brain_extracted'' | Some v \<Rightarrow> v) @ ''.nii.gz'')))),
      (''fractional_intensity'', PFloat (case fa of None \<Rightarrow> float_half | Some v \<Rightarrow> v)),
      (''binary_mask'', PBool (case ga of None \<Rightarrow> True | Some v \<Rightarrow> v))]
     fsys1 (print (''Starting brain extraction with BET on '' @ i) w) (fsl_bet_raw_try en i (case pa of None \<Rightarrow> ''brain_extracted'' | Some v \<Rightarrow> v) (case fa of None \<Rightarrow> float_half | Some v \<Rightarrow> v) (case ga of None \<Rightarrow> True | Some v \<Rightarrow> v) (print (''Starting brain extraction with BET on '' @ i) w)) (\<lambda>e. e)
     (\<lambda>out. False)"
    by (rule bet_raw_try_run)
  then have "runs_as en ''niwrap.fsl.bet''
     [(''infile'', PStr i),
      (''maskfile'', PStr (path_str (path_join (path_of OUTPUTS_DIR) ((case pa of None \<Rightarrow> ''brain_extracted'' | Some v \<Rightarrow> v) @ ''.nii.gz'')))),
      (''fractional_intensity'', PFloat (case fa of None \<Rightarrow> float_half | Some v \<Rightarrow> v)),
      (''binary_mask'', PBool (case ga of None \<Rightarrow> True | Some v \<Rightarrow> v))]
     fsys1 w (try_except (fsl_bet_raw_try en i (case pa of None \<Rightarrow> ''brain_extracted'' | Some v \<Rightarrow> v) (case fa of None \<Rightarrow> float_half | Some v \<Rightarrow> v) (case ga of None \<Rightarrow> True | Some v \<Rightarrow> v)) (reraise_print ''BET processing failed: '') (print (''Starting brain extraction with BET on '' @ i) w)) (\<lambda>e. Exn RuntimeError (''BET processing failed: '' @ exn_msg e) (Some e))
     (\<lambda>out. False)"
    by (rule runs_as_try_except_print [where pre = "[Print (''Starting brain extraction with BET on '' @ i)]"]) simp_all
  then show ?thesis by (simp only: bet_raw_valid [OF assms(1)])
qed

subsection \<open>fsl fast segmentation raw\<close>

lemma fast_raw_invalid_0:
  "\<not> path_exists (fs w) (path_of i) \<Longrightarrow>
   fsl_fast_segmentation_raw en i pa ta w =
     (Inl (Exn FileNotFoundError (''Input file not found: '' @ i) None),
      print (''Starting tissue segmentation with FAST on '' @ i) w)"
  by (simp add: fsl_fast_segmentation_raw_def Let_def)

lemma fast_raw_valid:
  "path_exists (fs w) (path_of i) \<Longrightarrow>
   fsl_fast_segmentation_raw en i pa ta w =
     try_except (fsl_fast_raw_try en i (case pa of None \<Rightarrow> ''segmented'' | Some v \<Rightarrow> v) (case ta of None \<Rightarrow> 3 | Some v \<Rightarrow> v))
       (reraise_print ''FAST processing failed: '') (print (''Starting tissue segmentation with FAST on '' @ i) w)"
  by (simp add: fsl_fast_segmentation_raw_def Let_def)

lemma fast_raw_mkdir_fails:
  "path_exists (fs w) (path_of i) \<Longrightarrow> path_mkdir (path_of OUTPUTS_DIR) (fs w) = Inl e \<Longrightarrow>
   fsl_fast_segmentation_raw en i pa ta w =
     (Inl (Exn RuntimeError (''FAST processing failed: '' @ exn_msg e) (Some e)),
      print (''FAST processing failed: '' @ exn_msg e) (print (''Starting tissue segmentation with FAST on '' @ i) w))"
  by (simp add: fast_raw_valid fsl_fast_raw_try_def try_except_def reraise_print_def)

lemma fast_raw_try_run:
  "path_mkdir (path_of OUTPUTS_DIR) (fs w) = Inr fsys1 \<Longrightarrow>
   runs_as en ''niwrap.fsl.fast''
     [(''in_files'', PList [PStr i]),
      (''number_classes'', PInt tc),
      (''out_basename'', PStr (path_str (path_join (path_of OUTPUTS_DIR) (pre)))),
      (''output_biasfield'', PBool True),
      (''segments'', PBool True)]
     fsys1 w (fsl_fast_raw_try en i pre tc w) (\<lambda>e. e)
     (\<lambda>out. False)"
  by (simp add: runs_as_def fsl_fast_raw_try_def call_niwrap_eq Let_def sub_dict_def dict_get_def
       split: sum.splits)

lemma fast_raw_run:
  assumes "path_exists (fs w) (path_of i)"
    and "path_mkdir (path_of OUTPUTS_DIR) (fs w) = Inr fsys1"
  shows "runs_as en ''niwrap.fsl.fast''
     [(''in_files'', PList [PStr i]),
      (''number_classes'', PInt (case ta of None \<Rightarrow> 3 | Some v \<Rightarrow> v)),
      (''out_basename'', PStr (path_str (path_join (path_of OUTPUTS_DIR) ((case pa of None \<Rightarrow> ''segmented'' | Some v \<Rightarrow> v))))),
      (''output_biasfield'', PBool True),
      (''segments'', PBool True)]
     fsys1 w (fsl_fast_segmentation_raw en i pa ta w) (\<lambda>e. Exn RuntimeError (''FAST processing failed: '' @ exn_msg e) (Some e))
     (\<lambda>out. False)"
proof -
  from assms(2) have "path_mkdir (path_of OUTPUTS_DIR) (fs (print (''Starting tissue segmentation with FAST on '' @ i) w)) = Inr fsys1" by simp
  then have "runs_as en ''niwrap.fsl.fast''
     [(''in_files'', PList [PStr i]),
      (''number_classes'', PInt (case ta of None \<Rightarrow> 3 | Some v \<Rightarrow> v)),
      (''out_basename'', PStr (path_str (path_join (path_of OUTPUTS_DIR) ((case pa of None \<Rightarrow> ''segmented'' | Some v \<Rightarrow> v))))),
      (''output_biasfield'', PBool True),
      (''segments'', PBool True)]
     fsys1 (print (''Starting tissue segmentation with FAST on '' @ i) w) (fsl_fast_raw_try en i (case pa of None \<Rightarrow> ''segmented'' | Some v \<Rightarrow> v) (case ta of None \<Rightarrow> 3 | Some v \<Rightarrow> v) (print (''Starting tissue segmentation with FAST on '' @ i) w)) (\<lambda>e. e)
     (\<lambda>out. False)"
    by (rule fast_raw_try_run)
  then have "runs_as en ''niwrap.fsl.fast''
     [(''in_files'', PList [PStr i]),
      (''number_classes'', PInt (case ta of None \<Rightarrow> 3 | Some v \<Rightarrow> v)),
      (''out_basename'', PStr (path_str (path_join (path_of OUTPUTS_DIR) ((case pa of None \<Rightarrow> ''segmented'' | Some v \<Rightarrow> v))))),
      (''output_biasfield'', PBool True),
      (''segments'', PBool True)]
     fsys1 w (try_except (fsl_fast_raw_try en i (case pa of None \<Rightarrow> ''segmented'' | Some v \<Rightarrow> v) (case ta of None \<Rightarrow> 3 | Some v \<Rightarrow> v)) (reraise_print ''FAST processing failed: '') (print (''Starting tissue segmentation with FAST on '' @ i) w)) (\<lambda>e. Exn RuntimeError (''FAST processing failed: '' @ exn_msg e) (Some e))
     (\<lambda>out. False)"
    by (rule runs_as_try_except_print [where pre = "[Print (''Starting tissue segmentation with FAST on '' @ i)]"]) simp_all
  then show ?thesis by (simp only: fast_raw_valid [OF assms(1)])
qed

subsection \<open>fsl flirt registration raw\<close>

lemma flirt_raw_invalid_0:
  "\<not> path_exists (fs w) (path_of i) \<Longrightarrow>
   fsl_flirt_registration_raw en i r oa da w =
     (Inl (Exn FileNotFoundError (''Input file not found: '' @ i) None),
      print (''Starting registration with FLIRT: '' @ i @ '' -> '' @ r) w)"
  by (simp add: fsl_flirt_registration_raw_def Let_def)

lemma flirt_raw_invalid_1:
  "path_exists (fs w) (path_of i) \<Longrightarrow> \<not> path_exists (fs w) (path_of r) \<Longrightarrow>
   fsl_flirt_registration_raw en i r oa da w =
     (Inl (Exn FileNotFoundError (''Reference file not found: '' @ r) None),
      print (''Starting registration with FLIRT: '' @ i @ '' -> '' @ r) w)"
  by (simp add: fsl_flirt_registration_raw_def Let_def)

lemma flirt_raw_valid:
  "path_exists (fs w) (path_of i) \<Longrightarrow> path_exists (fs w) (path_of r) \<Longrightarrow>
   fsl_flirt_registration_raw en i r oa da w =
     try_except (fsl_flirt_raw_try en i r (case oa of None \<Rightarrow> ''registered.nii.gz'' | Some v \<Rightarrow> v) (case da of None \<Rightarrow> 12 | Some v \<Rightarrow> v))
       (reraise_print ''FLIRT processing failed: '') (print (''Starting registration with FLIRT: '' @ i @ '' -> '' @ r) w)"
  by (simp add: fsl_flirt_registration_raw_def Let_def)

lemma flirt_raw_try_run:
  "runs_as en ''niwrap.fsl.flirt''
     [(''in_file'', PStr i), (''reference'', PStr r),
      (''out_file'', PStr ou),
      (''out_matrix_file'', PStr (str_replace ou ''.nii.gz'' ''.mat'')),
      (''dof'', PInt d),
      (''cost'', PStr ''corratio'')]
     (fs w) w (fsl_flirt_raw_try en i r ou d w) (\<lambda>e. e)
     (\<lambda>out. False)"
  by (simp add: runs_as_def fsl_flirt_raw_try_def call_niwrap_eq Let_def sub_dict_def dict_get_def
       split: sum.splits)

lemma flirt_raw_run:
  assumes "path_exists (fs w) (path_of i)"
    and "path_exists (fs w) (path_of r)"
  shows "runs_as en ''niwrap.fsl.flirt''
     [(''in_file'', PStr i), (''reference'', PStr r),
      (''out_file'', PStr (case oa of None \<Rightarrow> ''registered.nii.gz'' | Some v \<Rightarrow> v)),
      (''out_matrix_file'', PStr (str_replace (case oa of None \<Rightarrow> ''registered.nii.gz'' | Some v \<Rightarrow> v) ''.nii.gz'' ''.mat'')),
      (''dof'', PInt (case da of None \<Rightarrow> 12 | Some v \<Rightarrow> v)),
      (''cost'', PStr ''corratio'')]
     (fs w) w (fsl_flirt_registration_raw en i r oa da w) (\<lambda>e. Exn RuntimeError (''FLIRT processing failed: '' @ exn_msg e) (Some e))
     (\<lambda>out. False)"
proof -
  have "runs_as en ''niwrap.fsl.flirt''
     [(''in_file'', PStr i), (''reference'', PStr r),
      (''out_file'', PStr (case oa of None \<Rightarrow> ''registered.nii.gz'' | Some v \<Rightarrow> v)),
      (''out_matrix_file'', PStr (str_replace (case oa of None \<Rightarrow> ''registered.nii.gz'' | Some v \<Rightarrow> v) ''.nii.gz'' ''.mat'')),
      (''dof'', PInt (case da of None \<Rightarrow> 12 | Some v \<Rightarrow> v)),
      (''cost'', PStr ''corratio'')]
     (fs (print (''Starting registration with FLIRT: '' @ i @ '' -> '' @ r) w)) (print (''Starting registration with FLIRT: '' @ i @ '' -> '' @ r) w) (fsl_flirt_raw_try en i r (case oa of None \<Rightarrow> ''registered.nii.gz'' | Some v \<Rightarrow> v) (case da of None \<Rightarrow> 12 | Some v \<Rightarrow> v) (print (''Starting registration with FLIRT: '' @ i @ '' -> '' @ r) w)) (\<lambda>e. e)
     (\<lambda>out. False)"
    by (rule flirt_raw_try_run)
  then have "runs_as en ''niwrap.fsl.flirt''
     [(''in_file'', PStr i), (''reference'', PStr r),
      (''out_file'', PStr (case oa of None \<Rightarrow> ''registered.nii.gz'' | Some v \<Rightarrow> v)),
      (''out_matrix_file'', PStr (str_replace (case oa of None \<Rightarrow> ''registered.nii.gz'' | Some v \<Rightarrow> v) ''.nii.gz'' ''.mat'')),
      (''dof'', PInt (case da of None \<Rightarrow> 12 | Some v \<Rightarrow> v)),
      (''cost'', PStr ''corratio'')]
     (fs w) (print (''Starting registration with FLIRT: '' @ i @ '' -> '' @ r) w) (fsl_flirt_raw_try en i r (case oa of None \<Rightarrow> ''registered.nii.gz'' | Some v \<Rightarrow> v) (case da of None \<Rightarrow> 12 | Some v \<Rightarrow> v) (print (''Starting registration with FLIRT: '' @ i @ '' -> '' @ r) w)) (\<lambda>e. e)
     (\<lambda>out. False)"
    by simp
  then have "runs_as en ''niwrap.fsl.flirt''
     [(''in_file'', PStr i), (''reference'', PStr r),
      (''out_file'', PStr (case oa of None \<Rightarrow> ''registered.nii.gz'' | Some v \<Rightarrow> v)),
      (''out_matrix_file'', PStr (str_replace (case oa of None \<Rightarrow> ''registered.nii.gz'' | Some v \<Rightarrow> v) ''.nii.gz'' ''.mat'')),
      (''dof'', PInt (case da of None \<Rightarrow> 12 | Some v \<Rightarrow> v)),
      (''cost'', PStr ''corratio'')]
     (fs w) w (try_except (fsl_flirt_raw_try en i r (case oa of None \<Rightarrow> ''registered.nii.gz'' | Some v \<Rightarrow> v) (case da of None \<Rightarrow> 12 | Some v \<Rightarrow> v)) (reraise_print ''FLIRT processing failed: '') (print (''Starting registration with FLIRT: '' @ i @ '' -> '' @ r) w)) (\<lambda>e. Exn RuntimeError (''FLIRT processing failed: '' @ exn_msg e) (Some e))
     (\<lambda>out. False)"
    by (rule runs_as_try_except_print [where pre = "[Print (''Starting registration with FLIRT: '' @ i @ '' -> '' @ r)]"]) simp_all
  then show ?thesis by (simp only: flirt_raw_valid [OF assms(1) assms(2)])
qed


section \<open>Outcomes of the tools\<close>

subsection \<open>fsl bet brain extraction: outcomes\<close>





lemma bet_success:
  assumes "fst (fsl_bet_brain_extraction en i pa fa ga w) = Inr out"
  shows "metadata_records_call ''niwrap.fsl.bet'' ''FSL BET'' w
     (snd (fsl_bet_brain_extraction en i pa fa ga w)) out"
proof (cases "path_exists (fs w) (path_of i)")
  case False
  from bet_invalid_0 [OF False] assms show ?thesis by simp
next
  case v0: True
  show ?thesis
  proof (cases "path_mkdir (path_of OUTPUTS_DIR) (fs w)")
    case (Inl e')
    from bet_mkdir_fails [OF v0 Inl] assms show ?thesis by simp
  next
    case (Inr fsys1)
    from runs_as_metadata [OF bet_run [OF v0 Inr] assms] show ?thesis .
  qed
qed


subsection \<open>fsl fast segmentation: outcomes\<close>





lemma fast_success:
  assumes "fst (fsl_fast_segmentation en i pa ta w) = Inr out"
  shows "metadata_records_call ''niwrap.fsl.fast'' ''FSL FAST'' w
     (snd (fsl_fast_segmentation en i pa ta w)) out"
proof (cases "path_exists (fs w) (path_of i)")
  case False
  from fast_invalid_0 [OF False] assms show ?thesis by simp
next
  case v0: True
  show ?thesis
  proof (cases "path_mkdir (path_of OUTPUTS_DIR) (fs w)")
    case (Inl e')
    from fast_mkdir_fails [OF v0 Inl] assms show ?thesis by simp
  next
    case (Inr fsys1)
    from runs_as_metadata [OF fast_run [OF v0 Inr] assms] show ?thesis .
  qed
qed


subsection \<open>fsl flirt registration: outcomes\<close>





lemma flirt_success:
  assumes "fst (fsl_flirt_registration en i r oa da w) = Inr out"
  shows "metadata_records_call ''niwrap.fsl.flirt'' ''FSL FLIRT'' w
     (snd (fsl_flirt_registration en i r oa da w)) out"
proof (cases "path_exists (fs w) (path_of i)")
  case False
  from flirt_invalid_0 [OF False] assms show ?thesis by simp
next
  case v0: True
  show ?thesis
  proof (cases "path_exists (fs w) (path_of r)")
    case False
    from flirt_invalid_1 [OF v0 False] assms show ?thesis by simp
  next
    case v1: True
    show ?thesis
    proof -
      from runs_as_metadata [OF flirt_run [OF v0 v1] assms] show ?thesis .
    qed
  qed
qed


subsection \<open>mrtrix dwi2fod: outcomes\<close>





lemma dwi2fod_success:
  assumes "fst (mrtrix_dwi2fod en i r oa aa w) = Inr out"
  shows "metadata_records_call ''niwrap.mrtrix3.dwi2fod'' ''MRTrix3 dwi2fod'' w
     (snd (mrtrix_dwi2fod en i r oa aa w)) out"
proof (cases "path_exists (fs w) (path_of i)")
  case False
  from dwi2fod_invalid_0 [OF False] assms show ?thesis by simp
next
  case v0: True
  show ?thesis
  proof (cases "path_exists (fs w) (path_of r)")
    case False
    from dwi2fod_invalid_1 [OF v0 False] assms show ?thesis by simp
  next
    case v1: True
    show ?thesis
    proof -
      from runs_as_metadata [OF dwi2fod_run [OF v0 v1] assms] show ?thesis .
    qed
  qed
qed


subsection \<open>freesurfer recon all: outcomes\<close>





lemma recon_success:
  assumes "fst (freesurfer_recon_all en i sid sa w) = Inr out"
  shows "out =
      [(''subject_directory'', PStr (path_str (path_join (path_of (case sa of None \<Rightarrow> SUBJECTS_DIR | Some v \<Rightarrow> v)) sid))),
       (''surfaces'', PDict
          [(''left_pial'', PStr (path_str (path_join (path_join (path_join (path_of (case sa of None \<Rightarrow> SUBJECTS_DIR | Some v \<Rightarrow> v)) sid) ''surf'') ''lh.pial''))),
           (''right_pial'', PStr (path_str (path_join (path_join (path_join (path_of (case sa of None \<Rightarrow> SUBJECTS_DIR | Some v \<Rightarrow> v)) sid) ''surf'') ''rh.pial''))),
           (''left_white'', PStr (path_str (path_join (path_join (path_join (path_of (case sa of None \<Rightarrow> SUBJECTS_DIR | Some v \<Rightarrow> v)) sid) ''surf'') ''lh.white''))),
           (''right_white'', PStr (path_str (path_join (path_join (path_join (path_of (case sa of None \<Rightarrow> SUBJECTS_DIR | Some v \<Rightarrow> v)) sid) ''surf'') ''rh.white'')))]),
       (''volumes'', PDict
          [(''brain'', PStr (path_str (path_join (path_join (path_join (path_of (case sa of None \<Rightarrow> SUBJECTS_DIR | Some v \<Rightarrow> v)) sid) ''mri'') ''brain.mgz''))),
           (''aseg'', PStr (path_str (path_join (path_join (path_join (path_of (case sa of None \<Rightarrow> SUBJECTS_DIR | Some v \<Rightarrow> v)) sid) ''mri'') ''aseg.mgz''))),
           (''aparc'', PStr (path_str (path_join (path_join (path_join (path_of (case sa of None \<Rightarrow> SUBJECTS_DIR | Some v \<Rightarrow> v)) sid) ''mri'') ''aparc+aseg.mgz'')))]),
       (''metadata'', PDict [(''tool'', PStr ''FreeSurfer recon-all''),
                            (''subject_id'', PStr sid),
                            (''subjects_dir'', PStr (case sa of None \<Rightarrow> SUBJECTS_DIR | Some v \<Rightarrow> v))])]"
proof (cases "path_exists (fs w) (path_of i)")
  case False
  from recon_invalid_0 [OF False] assms show ?thesis by simp
next
  case v0: True
  show ?thesis
  proof (cases "path_mkdir (path_of (case sa of None \<Rightarrow> SUBJECTS_DIR | Some v \<Rightarrow> v)) (fs w)")
    case (Inl e')
    from recon_mkdir_fails [OF v0 Inl] assms show ?thesis by simp
  next
    case (Inr fsys1)
    from runs_as_success [OF recon_run [OF v0 Inr] assms] show ?thesis .
  qed
qed


subsection \<open>fsl bet brain extraction raw: outcomes\<close>

lemma bet_raw_invalid_0_quiet:
  "\<not> path_exists (fs w) (path_of i) \<Longrightarrow>
   invocations (new_events w (snd (fsl_bet_brain_extraction_raw en i pa fa ga w))) = [] \<and>
   fs (snd (fsl_bet_brain_extraction_raw en i pa fa ga w)) = fs w"
  by (simp add: bet_raw_invalid_0 new_events_def)

lemma bet_raw_mkdir_fails_quiet:
  "path_exists (fs w) (path_of i) \<Longrightarrow> path_mkdir (path_of OUTPUTS_DIR) (fs w) = Inl e \<Longrightarrow>
   invocations (new_events w (snd (fsl_bet_brain_extraction_raw en i pa fa ga w))) = []"
  by (simp add: bet_raw_mkdir_fails new_events_def)

lemma bet_raw_collaborator_raises:
  assumes "(n, p, f) \<in> set (invocations (new_events w (snd (fsl_bet_brain_extraction_raw en i pa fa ga w))))"
    and "fst (niwrap en n p f) = Inl e0"
  shows "fst (fsl_bet_brain_extraction_raw en i pa fa ga w) =
     Inl (Exn RuntimeError (''BET processing failed: '' @ exn_msg e0) (Some e0))"
proof (cases "path_exists (fs w) (path_of i)")
  case False
  from bet_raw_invalid_0_quiet [OF False] assms(1) show ?thesis by simp
next
  case v0: True
  show ?thesis
  proof (cases "path_mkdir (path_of OUTPUTS_DIR) (fs w)")
    case (Inl e')
    from bet_raw_mkdir_fails_quiet [OF v0 Inl] assms(1) show ?thesis by simp
  next
    case (Inr fsys1)
    from runs_as_raises [OF bet_raw_run [OF v0 Inr] assms] show ?thesis .
  qed
qed

lemma bet_raw_failure:
  assumes "path_exists (fs w) (path_of i)"
    and "fst (fsl_bet_brain_extraction_raw en i pa fa ga w) = Inl e"
  shows "\<exists>e0. e = Exn RuntimeError (''BET processing failed: '' @ exn_msg e0) (Some e0)"
proof (cases "path_mkdir (path_of OUTPUTS_DIR) (fs w)")
  case (Inl e')
  have "fst (fsl_bet_brain_extraction_raw en i pa fa ga w) =
     Inl (Exn RuntimeError (''BET processing failed: '' @ exn_msg e') (Some e'))"
    by (simp add: bet_raw_mkdir_fails [OF assms(1) Inl])
  with assms(2) show ?thesis by auto
next
  case (Inr fsys1)
  from runs_as_failure [OF bet_raw_run [OF assms(1) Inr] assms(2)] show ?thesis .
qed

lemma bet_raw_invoked:
  assumes "path_exists (fs w) (path_of i)"
  shows "case path_mkdir (path_of OUTPUTS_DIR) (fs w) of
           Inl e \<Rightarrow> invocations (new_events w (snd (fsl_bet_brain_extraction_raw en i pa fa ga w))) = []
         | Inr fsys1 \<Rightarrow> path_is_dir fsys1 (path_of OUTPUTS_DIR) \<and>
             invoked_once_on ''niwrap.fsl.bet'' fsys1 w (snd (fsl_bet_brain_extraction_raw en i pa fa ga w))"
proof (cases "path_mkdir (path_of OUTPUTS_DIR) (fs w)")
  case (Inl e')
  with bet_raw_mkdir_fails_quiet [OF assms Inl] show ?thesis by simp
next
  case (Inr fsys1)
  with path_mkdir_is_dir [OF Inr] runs_as_invoked_once [OF bet_raw_run [OF assms Inr]]
  show ?thesis by simp
qed

lemma bet_raw_never_returns:
  "\<exists>e. fst (fsl_bet_brain_extraction_raw en i pa fa ga w) = Inl e"
proof (cases "path_exists (fs w) (path_of i)")
  case False
  show ?thesis by (simp add: bet_raw_invalid_0 [OF False])
next
  case v0: True
  show ?thesis
  proof (cases "path_mkdir (path_of OUTPUTS_DIR) (fs w)")
    case (Inl e')
    show ?thesis by (simp add: bet_raw_mkdir_fails [OF v0 Inl])
  next
    case (Inr fsys1)
    from runs_as_success [OF bet_raw_run [OF v0 Inr]] have nr: "\<And>out. fst (fsl_bet_brain_extraction_raw en i pa fa ga w) \<noteq> Inr out"
      by blast
    show ?thesis
    proof (cases "fst (fsl_bet_brain_extraction_raw en i pa fa ga w)")
      case (Inl e)
      then show ?thesis by simp
    next
      case (Inr out)
      with nr [of out] show ?thesis by simp
    qed
  qed
qed

lemma bet_raw_try_name_error:
  "path_mkdir (path_of OUTPUTS_DIR) (fs w) = Inr fsys1 \<Longrightarrow>
   fst (niwrap en ''niwrap.fsl.bet''
     [(''infile'', PStr i),
      (''maskfile'', PStr (path_str (path_join (path_of OUTPUTS_DIR) (pre @ ''.nii.gz'')))),
      (''fractional_intensity'', PFloat fi),
      (''binary_mask'', PBool gbm)]
     fsys1) = Inr res \<Longrightarrow>
   hasattr res ''outfile'' \<Longrightarrow>
   fst (fsl_bet_raw_try en i pre fi gbm w) = Inl (name_error ''bet_params'')"
  by (auto simp: fsl_bet_raw_try_def call_niwrap_eq Let_def getattr_def hasattr_def split: option.splits)

lemma bet_raw_name_error:
  assumes "path_exists (fs w) (path_of i)"
    and "path_mkdir (path_of OUTPUTS_DIR) (fs w) = Inr fsys1"
    and "fst (niwrap en ''niwrap.fsl.bet''
     [(''infile'', PStr i),
      (''maskfile'', PStr (path_str (path_join (path_of OUTPUTS_DIR) ((case pa of None \<Rightarrow> ''brain_extracted'' | Some v \<Rightarrow> v) @ ''.nii.gz'')))),
      (''fractional_intensity'', PFloat (case fa of None \<Rightarrow> float_half | Some v \<Rightarrow> v)),
      (''binary_mask'', PBool (case ga of None \<Rightarrow> True | Some v \<Rightarrow> v))]
     fsys1) = Inr res"
    and "hasattr res ''outfile''"
  shows "fst (fsl_bet_brain_extraction_raw en i pa fa ga w) =
     Inl (Exn RuntimeError (''BET processing failed: '' @ exn_msg (name_error ''bet_params'')) (Some (name_error ''bet_params'')))"
proof -
  from assms(2) have "path_mkdir (path_of OUTPUTS_DIR) (fs (print (''Starting brain extraction with BET on '' @ i) w)) = Inr fsys1" by simp
  from bet_raw_try_name_error [OF this] assms(3,4)
  have "fst (fsl_bet_raw_try en i (case pa of None \<Rightarrow> ''brain_extracted'' | Some v \<Rightarrow> v) (case fa of None \<Rightarrow> float_half | Some v \<Rightarrow> v) (case ga of None \<Rightarrow> True | Some v \<Rightarrow> v) (print (''Starting brain extraction with BET on '' @ i) w)) = Inl (name_error ''bet_params'')"
    by simp
  then show ?thesis
    by (simp add: bet_raw_valid [OF assms(1)] try_except_print_fst)
qed

lemma bet_raw_collaborator_returns:
  assumes "(n, p, f) \<in> set (invocations (new_events w (snd (fsl_bet_brain_extraction_raw en i pa fa ga w))))"
    and "fst (niwrap en n p f) = Inr res"
  shows "\<exists>e0. fst (fsl_bet_brain_extraction_raw en i pa fa ga w) =
       Inl (Exn RuntimeError (''BET processing failed: '' @ exn_msg e0) (Some e0)) \<and>
     (hasattr res ''outfile'' \<longrightarrow> e0 = name_error ''bet_params'')"
proof (cases "path_exists (fs w) (path_of i)")
  case False
  from bet_raw_invalid_0_quiet [OF False] assms(1) show ?thesis by simp
next
  case v0: True
  show ?thesis
  proof (cases "path_mkdir (path_of OUTPUTS_DIR) (fs w)")
    case (Inl e')
    from bet_raw_mkdir_fails_quiet [OF v0 Inl] assms(1) show ?thesis by simp
  next
    case (Inr fsys1)
    from runs_as_invocations [OF bet_raw_run [OF v0 Inr]] assms(1)
    have np: "n = ''niwrap.fsl.bet''" "f = fsys1" "p =
     [(''infile'', PStr i),
      (''maskfile'', PStr (path_str (path_join (path_of OUTPUTS_DIR) ((case pa of None \<Rightarrow> ''brain_extracted'' | Some v \<Rightarrow> v) @ ''.nii.gz'')))),
      (''fractional_intensity'', PFloat (case fa of None \<Rightarrow> float_half | Some v \<Rightarrow> v)),
      (''binary_mask'', PBool (case ga of None \<Rightarrow> True | Some v \<Rightarrow> v))]"
      by simp_all
    from bet_raw_never_returns obtain e where e: "fst (fsl_bet_brain_extraction_raw en i pa fa ga w) = Inl e" ..
    from runs_as_failure [OF bet_raw_run [OF v0 Inr] e] obtain e0 where e0: "e = Exn RuntimeError (''BET processing failed: '' @ exn_msg e0) (Some e0)" ..
    show ?thesis
    proof (cases "hasattr res ''outfile''")
      case True
      from bet_raw_name_error [OF v0 Inr assms(2) [unfolded np] True] show ?thesis by simp
    next
      case False
      with e e0 show ?thesis by simp
    qed
  qed
qed

subsection \<open>fsl fast segmentation raw: outcomes\<close>

lemma fast_raw_invalid_0_quiet:
  "\<not> path_exists (fs w) (path_of i) \<Longrightarrow>
   invocations (new_events w (snd (fsl_fast_segmentation_raw en i pa ta w))) = [] \<and>
   fs (snd (fsl_fast_segmentation_raw en i pa ta w)) = fs w"
  by (simp add: fast_raw_invalid_0 new_events_def)

lemma fast_raw_mkdir_fails_quiet:
  "path_exists (fs w) (path_of i) \<Longrightarrow> path_mkdir (path_of OUTPUTS_DIR) (fs w) = Inl e \<Longrightarrow>
   invocations (new_events w (snd (fsl_fast_segmentation_raw en i pa ta w))) = []"
  by (simp add: fast_raw_mkdir_fails new_events_def)

lemma fast_raw_collaborator_raises:
  assumes "(n, p, f) \<in> set (invocations (new_events w (snd (fsl_fast_segmentation_raw en i pa ta w))))"
    and "fst (niwrap en n p f) = Inl e0"
  shows "fst (fsl_fast_segmentation_raw en i pa ta w) =
     Inl (Exn RuntimeError (''FAST processing failed: '' @ exn_msg e0) (Some e0))"
proof (cases "path_exists (fs w) (path_of i)")
  case False
  from fast_raw_invalid_0_quiet [OF False] assms(1) show ?thesis by simp
next
  case v0: True
  show ?thesis
  proof (cases "path_mkdir (path_of OUTPUTS_DIR) (fs w)")
    case (Inl e')
    from fast_raw_mkdir_fails_quiet [OF v0 Inl] assms(1) show ?thesis by simp
  next
    case (Inr fsys1)
    from runs_as_raises [OF fast_raw_run [OF v0 Inr] assms] show ?thesis .
  qed
qed

lemma fast_raw_failure:
  assumes "path_exists (fs w) (path_of i)"
    and "fst (fsl_fast_segmentation_raw en i pa ta w) = Inl e"
  shows "\<exists>e0. e = Exn RuntimeError (''FAST processing failed: '' @ exn_msg e0) (Some e0)"
proof (cases "path_mkdir (path_of OUTPUTS_DIR) (fs w)")
  case (Inl e')
  have "fst (fsl_fast_segmentation_raw en i pa ta w) =
     Inl (Exn RuntimeError (''FAST processing failed: '' @ exn_msg e') (Some e'))"
    by (simp add: fast_raw_mkdir_fails [OF assms(1) Inl])
  with assms(2) show ?thesis by auto
next
  case (Inr fsys1)
  from runs_as_failure [OF fast_raw_run [OF assms(1) Inr] assms(2)] show ?thesis .
qed

lemma fast_raw_invoked:
  assumes "path_exists (fs w) (path_of i)"
  shows "case path_mkdir (path_of OUTPUTS_DIR) (fs w) of
           Inl e \<Rightarrow> invocations (new_events w (snd (fsl_fast_segmentation_raw en i pa ta w))) = []
         | Inr fsys1 \<Rightarrow> path_is_dir fsys1 (path_of OUTPUTS_DIR) \<and>
             invoked_once_on ''niwrap.fsl.fast'' fsys1 w (snd (fsl_fast_segmentation_raw en i pa ta w))"
proof (cases "path_mkdir (path_of OUTPUTS_DIR) (fs w)")
  case (Inl e')
  with fast_raw_mkdir_fails_quiet [OF assms Inl] show ?thesis by simp
next
  case (Inr fsys1)
  with path_mkdir_is_dir [OF Inr] runs_as_invoked_once [OF fast_raw_run [OF assms Inr]]
  show ?thesis by simp
qed

lemma fast_raw_never_returns:
  "\<exists>e. fst (fsl_fast_segmentation_raw en i pa ta w) = Inl e"
proof (cases "path_exists (fs w) (path_of i)")
  case False
  show ?thesis by (simp add: fast_raw_invalid_0 [OF False])
next
  case v0: True
  show ?thesis
  proof (cases "path_mkdir (path_of OUTPUTS_DIR) (fs w)")
    case (Inl e')
    show ?thesis by (simp add: fast_raw_mkdir_fails [OF v0 Inl])
  next
    case (Inr fsys1)
    from runs_as_success [OF fast_raw_run [OF v0 Inr]] have nr: "\<And>out. fst (fsl_fast_segmentation_raw en i pa ta w) \<noteq> Inr out"
      by blast
    show ?thesis
    proof (cases "fst (fsl_fast_segmentation_raw en i pa ta w)")
      case (Inl e)
      then show ?thesis by simp
    next
      case (Inr out)
      with nr [of out] show ?thesis by simp
    qed
  qed
qed

lemma fast_raw_try_name_error:
  "path_mkdir (path_of OUTPUTS_DIR) (fs w) = Inr fsys1 \<Longrightarrow>
   fst (niwrap en ''niwrap.fsl.fast''
     [(''in_files'', PList [PStr i]),
      (''number_classes'', PInt tc),
      (''out_basename'', PStr (path_str (path_join (path_of OUTPUTS_DIR) (pre)))),
      (''output_biasfield'', PBool True),
      (''segments'', PBool True)]
     fsys1) = Inr res \<Longrightarrow>
   hasattr res ''outfile'' \<Longrightarrow>
   fst (fsl_fast_raw_try en i pre tc w) = Inl (name_error ''fast_params'')"
  by (auto simp: fsl_fast_raw_try_def call_niwrap_eq Let_def getattr_def hasattr_def split: option.splits)

lemma fast_raw_name_error:
  assumes "path_exists (fs w) (path_of i)"
    and "path_mkdir (path_of OUTPUTS_DIR) (fs w) = Inr fsys1"
    and "fst (niwrap en ''niwrap.fsl.fast''
     [(''in_files'', PList [PStr i]),
      (''number_classes'', PInt (case ta of None \<Rightarrow> 3 | Some v \<Rightarrow> v)),
      (''out_basename'', PStr (path_str (path_join (path_of OUTPUTS_DIR) ((case pa of None \<Rightarrow> ''segmented'' | Some v \<Rightarrow> v))))),
      (''output_biasfield'', PBool True),
      (''segments'', PBool True)]
     fsys1) = Inr res"
    and "hasattr res ''outfile''"
  shows "fst (fsl_fast_segmentation_raw en i pa ta w) =
     Inl (Exn RuntimeError (''FAST processing failed: '' @ exn_msg (name_error ''fast_params'')) (Some (name_error ''fast_params'')))"
proof -
  from assms(2) have "path_mkdir (path_of OUTPUTS_DIR) (fs (print (''Starting tissue segmentation with FAST on '' @ i) w)) = Inr fsys1" by simp
  from fast_raw_try_name_error [OF this] assms(3,4)
  have "fst (fsl_fast_raw_try en i (case pa of None \<Rightarrow> ''segmented'' | Some v \<Rightarrow> v) (case ta of None \<Rightarrow> 3 | Some v \<Rightarrow> v) (print (''Starting tissue segmentation with FAST on '' @ i) w)) = Inl (name_error ''fast_params'')"
    by simp
  then show ?thesis
    by (simp add: fast_raw_valid [OF assms(1)] try_except_print_fst)
qed

lemma fast_raw_collaborator_returns:
  assumes "(n, p, f) \<in> set (invocations (new_events w (snd (fsl_fast_segmentation_raw en i pa ta w))))"
    and "fst (niwrap en n p f) = Inr res"
  shows "\<exists>e0. fst (fsl_fast_segmentation_raw en i pa ta w) =
       Inl (Exn RuntimeError (''FAST processing failed: '' @ exn_msg e0) (Some e0)) \<and>
     (hasattr res ''outfile'' \<longrightarrow> e0 = name_error ''fast_params'')"
proof (cases "path_exists (fs w) (path_of i)")
  case False
  from fast_raw_invalid_0_quiet [OF False] assms(1) show ?thesis by simp
next
  case v0: True
  show ?thesis
  proof (cases "path_mkdir (path_of OUTPUTS_DIR) (fs w)")
    case (Inl e')
    from fast_raw_mkdir_fails_quiet [OF v0 Inl] assms(1) show ?thesis by simp
  next
    case (Inr fsys1)
    from runs_as_invocations [OF fast_raw_run [OF v0 Inr]] assms(1)
    have np: "n = ''niwrap.fsl.fast''" "f = fsys1" "p =
     [(''in_files'', PList [PStr i]),
      (''number_classes'', PInt (case ta of None \<Rightarrow> 3 | Some v \<Rightarrow> v)),
      (''out_basename'', PStr (path_str (path_join (path_of OUTPUTS_DIR) ((case pa of None \<Rightarrow> ''segmented'' | Some v \<Rightarrow> v))))),
      (''output_biasfield'', PBool True),
      (''segments'', PBool True)]"
      by simp_all
    from fast_raw_never_returns obtain e where e: "fst (fsl_fast_segmentation_raw en i pa ta w) = Inl e" ..
    from runs_as_failure [OF fast_raw_run [OF v0 Inr] e] obtain e0 where e0: "e = Exn RuntimeError (''FAST processing failed: '' @ exn_msg e0) (Some e0)" ..
    show ?thesis
    proof (cases "hasattr res ''outfile''")
      case True
      from fast_raw_name_error [OF v0 Inr assms(2) [unfolded np] True] show ?thesis by simp
    next
      case False
      with e e0 show ?thesis by simp
    qed
  qed
qed

subsection \<open>fsl flirt registration raw: outcomes\<close>

lemma flirt_raw_invalid_0_quiet:
  "\<not> path_exists (fs w) (path_of i) \<Longrightarrow>
   invocations (new_events w (snd (fsl_flirt_registration_raw en i r oa da w))) = [] \<and>
   fs (snd (fsl_flirt_registration_raw en i r oa da w)) = fs w"
  by (simp add: flirt_raw_invalid_0 new_events_def)

lemma flirt_raw_invalid_1_quiet:
  "path_exists (fs w) (path_of i) \<Longrightarrow> \<not> path_exists (fs w) (path_of r) \<Longrightarrow>
   invocations (new_events w (snd (fsl_flirt_registration_raw en i r oa da w))) = [] \<and>
   fs (snd (fsl_flirt_registration_raw en i r oa da w)) = fs w"
  by (simp add: flirt_raw_invalid_1 new_events_def)

lemma flirt_raw_collaborator_raises:
  assumes "(n, p, f) \<in> set (invocations (new_events w (snd (fsl_flirt_registration_raw en i r oa da w))))"
    and "fst (niwrap en n p f) = Inl e0"
  shows "fst (fsl_flirt_registration_raw en i r oa da w) =
     Inl (Exn RuntimeError (''FLIRT processing failed: '' @ exn_msg e0) (Some e0))"
proof (cases "path_exists (fs w) (path_of i)")
  case False
  from flirt_raw_invalid_0_quiet [OF False] assms(1) show ?thesis by simp
next
  case v0: True
  show ?thesis
  proof (cases "path_exists (fs w) (path_of r)")
    case False
    from flirt_raw_invalid_1_quiet [OF v0 False] assms(1) show ?thesis by simp
  next
    case v1: True
    show ?thesis
    proof -
      from runs_as_raises [OF flirt_raw_run [OF v0 v1] assms] show ?thesis .
    qed
  qed
qed

lemma flirt_raw_failure:
  assumes "path_exists (fs w) (path_of i)"
    and "path_exists (fs w) (path_of r)"
    and "fst (fsl_flirt_registration_raw en i r oa da w) = Inl e"
  shows "\<exists>e0. e = Exn RuntimeError (''FLIRT processing failed: '' @ exn_msg e0) (Some e0)"
  using runs_as_failure [OF flirt_raw_run [OF assms(1) assms(2)] assms(3)] .

lemma flirt_raw_invoked:
  assumes "path_exists (fs w) (path_of i)"
    and "path_exists (fs w) (path_of r)"
  shows "invoked_once_on ''niwrap.fsl.flirt'' (fs w) w (snd (fsl_flirt_registration_raw en i r oa da w))"
  by (rule runs_as_invoked_once [OF flirt_raw_run [OF assms]])

lemma flirt_raw_never_returns:
  "\<exists>e. fst (fsl_flirt_registration_raw en i r oa da w) = Inl e"
proof (cases "path_exists (fs w) (path_of i)")
  case False
  show ?thesis by (simp add: flirt_raw_invalid_0 [OF False])
next
  case v0: True
  show ?thesis
  proof (cases "path_exists (fs w) (path_of r)")
    case False
    show ?thesis by (simp add: flirt_raw_invalid_1 [OF v0 False])
  next
    case v1: True
    show ?thesis
    proof -
      from runs_as_success [OF flirt_raw_run [OF v0 v1]] have nr: "\<And>out. fst (fsl_flirt_registration_raw en i r oa da w) \<noteq> Inr out"
        by blast
      show ?thesis
      proof (cases "fst (fsl_flirt_registration_raw en i r oa da w)")
        case (Inl e)
        then show ?thesis by simp
      next
        case (Inr out)
        with nr [of out] show ?thesis by simp
      qed
    qed
  qed
qed

lemma flirt_raw_try_name_error:
  "fst (niwrap en ''niwrap.fsl.flirt''
     [(''in_file'', PStr i), (''reference'', PStr r),
      (''out_file'', PStr ou),
      (''out_matrix_file'', PStr (str_replace ou ''.nii.gz'' ''.mat'')),
      (''dof'', PInt d),
      (''cost'', PStr ''corratio'')]
     (fs w)) = Inr res \<Longrightarrow>
   hasattr res ''outfile'' \<Longrightarrow>
   fst (fsl_flirt_raw_try en i r ou d w) = Inl (name_error ''flirt_params'')"
  by (auto simp: fsl_flirt_raw_try_def call_niwrap_eq Let_def getattr_def hasattr_def split: option.splits)

lemma flirt_raw_name_error:
  assumes "path_exists (fs w) (path_of i)"
    and "path_exists (fs w) (path_of r)"
    and "fst (niwrap en ''niwrap.fsl.flirt''
     [(''in_file'', PStr i), (''reference'', PStr r),
      (''out_file'', PStr (case oa of None \<Rightarrow> ''registered.nii.gz'' | Some v \<Rightarrow> v)),
      (''out_matrix_file'', PStr (str_replace (case oa of None \<Rightarrow> ''registered.nii.gz'' | Some v \<Rightarrow> v) ''.nii.gz'' ''.mat'')),
      (''dof'', PInt (case da of None \<Rightarrow> 12 | Some v \<Rightarrow> v)),
      (''cost'', PStr ''corratio'')]
     (fs w)) = Inr res"
    and "hasattr res ''outfile''"
  shows "fst (fsl_flirt_registration_raw en i r oa da w) =
     Inl (Exn RuntimeError (''FLIRT processing failed: '' @ exn_msg (name_error ''flirt_params'')) (Some (name_error ''flirt_params'')))"
proof -
  from flirt_raw_try_name_error [where w = "print (''Starting registration with FLIRT: '' @ i @ '' -> '' @ r) w"] assms(3,4)
  have "fst (fsl_flirt_raw_try en i r (case oa of None \<Rightarrow> ''registered.nii.gz'' | Some v \<Rightarrow> v) (case da of None \<Rightarrow> 12 | Some v \<Rightarrow> v) (print (''Starting registration with FLIRT: '' @ i @ '' -> '' @ r) w)) = Inl (name_error ''flirt_params'')"
    by simp
  then show ?thesis
    by (simp add: flirt_raw_valid [OF assms(1) assms(2)] try_except_print_fst)
qed

lemma flirt_raw_collaborator_returns:
  assumes "(n, p, f) \<in> set (invocations (new_events w (snd (fsl_flirt_registration_raw en i r oa da w))))"
    and "fst (niwrap en n p f) = Inr res"
  shows "\<exists>e0. fst (fsl_flirt_registration_raw en i r oa da w) =
       Inl (Exn RuntimeError (''FLIRT processing failed: '' @ exn_msg e0) (Some e0)) \<and>
     (hasattr res ''outfile'' \<longrightarrow> e0 = name_error ''flirt_params'')"
proof (cases "path_exists (fs w) (path_of i)")
  case False
  from flirt_raw_invalid_0_quiet [OF False] assms(1) show ?thesis by simp
next
  case v0: True
  show ?thesis
  proof (cases "path_exists (fs w) (path_of r)")
    case False
    from flirt_raw_invalid_1_quiet [OF v0 False] assms(1) show ?thesis by simp
  next
    case v1: True
    show ?thesis
    proof -
      from runs_as_invocations [OF flirt_raw_run [OF v0 v1]] assms(1)
      have np: "n = ''niwrap.fsl.flirt''" "f = (fs w)" "p =
     [(''in_file'', PStr i), (''reference'', PStr r),
      (''out_file'', PStr (case oa of None \<Rightarrow> ''registered.nii.gz'' | Some v \<Rightarrow> v)),
      (''out_matrix_file'', PStr (str_replace (case oa of None \<Rightarrow> ''registered.nii.gz'' | Some v \<Rightarrow> v) ''.nii.gz'' ''.mat'')),
      (''dof'', PInt (case da of None \<Rightarrow> 12 | Some v \<Rightarrow> v)),
      (''cost'', PStr ''corratio'')]"
        by simp_all
      from flirt_raw_never_returns obtain e where e: "fst (fsl_flirt_registration_raw en i r oa da w) = Inl e" ..
      from runs_as_failure [OF flirt_raw_run [OF v0 v1] e] obtain e0 where e0: "e = Exn RuntimeError (''FLIRT processing failed: '' @ exn_msg e0) (Some e0)" ..
      show ?thesis
      proof (cases "hasattr res ''outfile''")
        case True
        from flirt_raw_name_error [OF v0 v1 assms(2) [unfolded np] True] show ?thesis by simp
      next
        case False
        with e e0 show ?thesis by simp
      qed
    qed
  qed
qed

section \<open>The analysis guide and the workspace resource\<close>

text \<open>
  C9. The analysis guide is a lookup with a default: each of the three keys
  \<open>brain_extraction\<close>, \<open>preprocessing\<close> and \<open>diffusion\<close> gives its fixed, non-empty guide
  text, and every other string gives the fixed "Unknown analysis type" message that lists
  the available types. The function has no failing branch.
\<close>

theorem analysis_guide_total:
  "neuroimaging_analysis_guide ''brain_extraction'' = guide_brain_extraction \<and>
   neuroimaging_analysis_guide ''preprocessing'' = guide_preprocessing \<and>
   neuroimaging_analysis_guide ''diffusion'' = guide_diffusion \<and>
   guide_brain_extraction \<noteq> [] \<and> guide_preprocessing \<noteq> [] \<and> guide_diffusion \<noteq> [] \<and>
   (\<forall>s. s \<notin> {''brain_extraction'', ''preprocessing'', ''diffusion''} \<longrightarrow>
        neuroimaging_analysis_guide s =
          ''Unknown analysis type. Available types: brain_extraction, preprocessing, diffusion'')"
  by (simp add: neuroimaging_analysis_guide_def guides_def dict_get_def
      guide_brain_extraction_def guide_preprocessing_def guide_diffusion_def)

theorem analysis_guide_total_witness:
  "''fmri'' \<notin> {''brain_extraction'', ''preprocessing'', ''diffusion''} \<and>
   neuroimaging_analysis_guide ''fmri'' =
     ''Unknown analysis type. Available types: brain_extraction, preprocessing, diffusion''"
  using analysis_guide_total [THEN conjunct2, THEN conjunct2, THEN conjunct2, THEN conjunct2,
      THEN conjunct2, THEN conjunct2, THEN spec, of "''fmri''"]
  by simp



section \<open>Validation of inputs\<close>



section \<open>Response metadata\<close>

text \<open>
  C2, as the claim states it, fails for the cortical reconstruction: a successful
  recon-all call invokes the wrapper with four keyword arguments, and its metadata holds
  the tool name, \<open>subject_id\<close> and \<open>subjects_dir\<close>, with no \<open>parameters\<close> entry.
\<close>

theorem recon_metadata_without_parameters_counterexample:
  "fst (freesurfer_recon_all ok_env ''t1.nii.gz'' ''sub01'' (Some ''subjects'') sample_world) =
     Inr [(''subject_directory'', PStr ''subjects/sub01''),
          (''surfaces'', PDict
             [(''left_pial'', PStr ''subjects/sub01/surf/lh.pial''),
              (''right_pial'', PStr ''subjects/sub01/surf/rh.pial''),
              (''left_white'', PStr ''subjects/sub01/surf/lh.white''),
              (''right_white'', PStr ''subjects/sub01/surf/rh.white'')]),
          (''volumes'', PDict
             [(''brain'', PStr ''subjects/sub01/mri/brain.mgz''),
              (''aseg'', PStr ''subjects/sub01/mri/aseg.mgz''),
              (''aparc'', PStr ''subjects/sub01/mri/aparc+aseg.mgz'')]),
          (''metadata'', PDict
             [(''tool'', PStr ''FreeSurfer recon-all''),
              (''subject_id'', PStr ''sub01''),
              (''subjects_dir'', PStr ''subjects'')])] \<and>
   invocations (new_events sample_world
      (snd (freesurfer_recon_all ok_env ''t1.nii.gz'' ''sub01'' (Some ''subjects'')
         sample_world))) =
     [(''niwrap.freesurfer.recon_all'',
       [(''input_file'', PStr ''t1.nii.gz''), (''subject_id'', PStr ''sub01''),
        (''subjects_dir'', PStr ''subjects''), (''all'', PBool True)],
       [(''/'', Dir), (''.'', Dir), (''t1.nii.gz'', File), (''mni.nii.gz'', File),
        (''subjects'', Dir)])] \<and>
   dict_get [(''tool'', PStr ''FreeSurfer recon-all''),
             (''subject_id'', PStr ''sub01''),
             (''subjects_dir'', PStr ''subjects'')] ''parameters'' = None"
proof -
  have a: "fst (freesurfer_recon_all ok_env ''t1.nii.gz'' ''sub01'' (Some ''subjects'') sample_world) =
     Inr [(''subject_directory'', PStr ''subjects/sub01''),
          (''surfaces'', PDict
             [(''left_pial'', PStr ''subjects/sub01/surf/lh.pial''),
              (''right_pial'', PStr ''subjects/sub01/surf/rh.pial''),
              (''left_white'', PStr ''subjects/sub01/surf/lh.white''),
              (''right_white'', PStr ''subjects/sub01/surf/rh.white'')]),
          (''volumes'', PDict
             [(''brain'', PStr ''subjects/sub01/mri/brain.mgz''),
              (''aseg'', PStr ''subjects/sub01/mri/aseg.mgz''),
              (''aparc'', PStr ''subjects/sub01/mri/aparc+aseg.mgz'')]),
          (''metadata'', PDict
             [(''tool'', PStr ''FreeSurfer recon-all''),
              (''subject_id'', PStr ''sub01''),
              (''subjects_dir'', PStr ''subjects'')])]"
    by code_simp
  have b: "invocations (new_events sample_world
      (snd (freesurfer_recon_all ok_env ''t1.nii.gz'' ''sub01'' (Some ''subjects'')
         sample_world))) =
     [(''niwrap.freesurfer.recon_all'',
       [(''input_file'', PStr ''t1.nii.gz''), (''subject_id'', PStr ''sub01''),
        (''subjects_dir'', PStr ''subjects''), (''all'', PBool True)],
       [(''/'', Dir), (''.'', Dir), (''t1.nii.gz'', File), (''mni.nii.gz'', File),
        (''subjects'', Dir)])]"
    by code_simp
  have c: "dict_get [(''tool'', PStr ''FreeSurfer recon-all''),
             (''subject_id'', PStr ''sub01''),
             (''subjects_dir'', PStr ''subjects'')] ''parameters'' = None"
    by (simp add: dict_get_def)
  show ?thesis by (rule conjI [OF a conjI [OF b c]])
qed

text \<open>
  C2 (amended). For every successful BET, FAST, FLIRT and dwi2fod call, the wrapper was
  invoked exactly once, the metadata's \<open>tool\<close> entry is the tool's name and its
  \<open>parameters\<close> entry is exactly the keyword-argument mapping of that invocation. For
  every successful recon-all call the metadata's \<open>tool\<close> entry is "FreeSurfer
  recon-all", it records \<open>subject_id\<close> and \<open>subjects_dir\<close>, and it has no
  \<open>parameters\<close> entry.
\<close>

theorem metadata_matches_invocation:
  "(fst (fsl_bet_brain_extraction en bet_file output_prefix fractional_intensity binary_mask w) =
      Inr bet_out \<longrightarrow>
    metadata_records_call ''niwrap.fsl.bet'' ''FSL BET'' w
      (snd (fsl_bet_brain_extraction en bet_file output_prefix fractional_intensity
         binary_mask w)) bet_out) \<and>
   (fst (fsl_fast_segmentation en fast_file fast_prefix tissue_classes w) = Inr fast_out \<longrightarrow>
    metadata_records_call ''niwrap.fsl.fast'' ''FSL FAST'' w
      (snd (fsl_fast_segmentation en fast_file fast_prefix tissue_classes w)) fast_out) \<and>
   (fst (fsl_flirt_registration en flirt_file reference_file output_file dof w) =
      Inr flirt_out \<longrightarrow>
    metadata_records_call ''niwrap.fsl.flirt'' ''FSL FLIRT'' w
      (snd (fsl_flirt_registration en flirt_file reference_file output_file dof w))
      flirt_out) \<and>
   (fst (mrtrix_dwi2fod en dwi_file response_file output_fod algorithm w) = Inr dwi_out \<longrightarrow>
    metadata_records_call ''niwrap.mrtrix3.dwi2fod'' ''MRTrix3 dwi2fod'' w
      (snd (mrtrix_dwi2fod en dwi_file response_file output_fod algorithm w)) dwi_out) \<and>
   (fst (freesurfer_recon_all en recon_file subject_id subjects_dir w) = Inr recon_out \<longrightarrow>
    (case sub_dict recon_out ''metadata'' of
       Some md \<Rightarrow>
         dict_get md ''tool'' = Some (PStr ''FreeSurfer recon-all'') \<and>
         dict_get md ''parameters'' = None \<and>
         dict_get md ''subject_id'' = Some (PStr subject_id) \<and>
         dict_get md ''subjects_dir'' =
           Some (PStr (case subjects_dir of None \<Rightarrow> SUBJECTS_DIR | Some v \<Rightarrow> v))
     | None \<Rightarrow> False))"
proof (intro conjI impI)
  assume "fst (freesurfer_recon_all en recon_file subject_id subjects_dir w) = Inr recon_out"
  from recon_success [OF this]
  show "case sub_dict recon_out ''metadata'' of
       Some md \<Rightarrow>
         dict_get md ''tool'' = Some (PStr ''FreeSurfer recon-all'') \<and>
         dict_get md ''parameters'' = None \<and>
         dict_get md ''subject_id'' = Some (PStr subject_id) \<and>
         dict_get md ''subjects_dir'' =
           Some (PStr (case subjects_dir of None \<Rightarrow> SUBJECTS_DIR | Some v \<Rightarrow> v))
     | None \<Rightarrow> False"
    by (simp add: sub_dict_def dict_get_def)
qed (rule bet_success fast_success flirt_success dwi2fod_success, assumption)+

theorem metadata_matches_invocation_witness:
  "fst (fsl_bet_brain_extraction ok_env ''t1.nii.gz'' None None None sample_world) =
     Inr [(''brain_image'', PStr ''out.nii.gz''),
      (''metadata'', PDict
         [(''tool'', PStr ''FSL BET''),
          (''parameters'', PDict
             [(''infile'', PStr ''t1.nii.gz''),
              (''maskfile'', PStr
                 ''/Users/hp/Desktop/neurodesk/data/outputs/brain_extracted.nii.gz''),
              (''fractional_intensity'', PFloat float_half),
              (''binary_mask'', PBool True)]),
          (''container'', PStr ''FSL Docker container'')])] \<and>
   metadata_records_call ''niwrap.fsl.bet'' ''FSL BET'' sample_world
     (snd (fsl_bet_brain_extraction ok_env ''t1.nii.gz'' None None None sample_world))
     [(''brain_image'', PStr ''out.nii.gz''),
      (''metadata'', PDict
         [(''tool'', PStr ''FSL BET''),
          (''parameters'', PDict
             [(''infile'', PStr ''t1.nii.gz''),
              (''maskfile'', PStr
                 ''/Users/hp/Desktop/neurodesk/data/outputs/brain_extracted.nii.gz''),
              (''fractional_intensity'', PFloat float_half),
              (''binary_mask'', PBool True)]),
          (''container'', PStr ''FSL Docker container'')])] \<and>
   fst (fsl_fast_segmentation ok_env ''t1.nii.gz'' None None sample_world) =
     Inr [(''segmented_image'', PStr ''out.nii.gz''),
      (''tissue_maps'', PList []), (''bias_field'', PNone),
      (''metadata'', PDict
         [(''tool'', PStr ''FSL FAST''),
          (''parameters'', PDict
             [(''infile'', PStr ''t1.nii.gz''),
              (''basename'', PStr ''/Users/hp/Desktop/neurodesk/data/outputs/segmented''),
              (''classes'', PInt 3), (''bias_field'', PBool True),
              (''probability_maps'', PBool True)]),
          (''tissue_classes'', PInt 3)])] \<and>
   metadata_records_call ''niwrap.fsl.fast'' ''FSL FAST'' sample_world
     (snd (fsl_fast_segmentation ok_env ''t1.nii.gz'' None None sample_world))
     [(''segmented_image'', PStr ''out.nii.gz''),
      (''tissue_maps'', PList []), (''bias_field'', PNone),
      (''metadata'', PDict
         [(''tool'', PStr ''FSL FAST''),
          (''parameters'', PDict
             [(''infile'', PStr ''t1.nii.gz''),
              (''basename'', PStr ''/Users/hp/Desktop/neurodesk/data/outputs/segmented''),
              (''classes'', PInt 3), (''bias_field'', PBool True),
              (''probability_maps'', PBool True)]),
          (''tissue_classes'', PInt 3)])] \<and>
   fst (fsl_flirt_registration ok_env ''t1.nii.gz'' ''mni.nii.gz'' None None sample_world) =
     Inr [(''registered_image'', PStr ''out.nii.gz''),
      (''transformation_matrix'', PNone),
      (''metadata'', PDict
         [(''tool'', PStr ''FSL FLIRT''),
          (''parameters'', PDict
             [(''infile'', PStr ''t1.nii.gz''), (''reference'', PStr ''mni.nii.gz''),
              (''outfile'', PStr ''registered.nii.gz''), (''dof'', PInt 12),
              (''cost'', PStr ''corratio'')]),
          (''dof'', PInt 12)])] \<and>
   metadata_records_call ''niwrap.fsl.flirt'' ''FSL FLIRT'' sample_world
     (snd (fsl_flirt_registration ok_env ''t1.nii.gz'' ''mni.nii.gz'' None None sample_world))
     [(''registered_image'', PStr ''out.nii.gz''),
      (''transformation_matrix'', PNone),
      (''metadata'', PDict
         [(''tool'', PStr ''FSL FLIRT''),
          (''parameters'', PDict
             [(''infile'', PStr ''t1.nii.gz''), (''reference'', PStr ''mni.nii.gz''),
              (''outfile'', PStr ''registered.nii.gz''), (''dof'', PInt 12),
              (''cost'', PStr ''corratio'')]),
          (''dof'', PInt 12)])] \<and>
   fst (mrtrix_dwi2fod ok_env ''t1.nii.gz'' ''mni.nii.gz'' None None sample_world) =
     Inr [(''fod_image'', PStr ''wmfod.mif''),
      (''metadata'', PDict
         [(''tool'', PStr ''MRTrix3 dwi2fod''),
          (''parameters'', PDict
             [(''algorithm'', PStr ''csd''), (''dwi'', PStr ''t1.nii.gz''),
              (''response'', PStr ''mni.nii.gz''), (''fod'', PStr ''wmfod.mif'')]),
          (''algorithm'', PStr ''csd'')])] \<and>
   metadata_records_call ''niwrap.mrtrix3.dwi2fod'' ''MRTrix3 dwi2fod'' sample_world
     (snd (mrtrix_dwi2fod ok_env ''t1.nii.gz'' ''mni.nii.gz'' None None sample_world))
     [(''fod_image'', PStr ''wmfod.mif''),
      (''metadata'', PDict
         [(''tool'', PStr ''MRTrix3 dwi2fod''),
          (''parameters'', PDict
             [(''algorithm'', PStr ''csd''), (''dwi'', PStr ''t1.nii.gz''),
              (''response'', PStr ''mni.nii.gz''), (''fod'', PStr ''wmfod.mif'')]),
          (''algorithm'', PStr ''csd'')])] \<and>
   fst (freesurfer_recon_all ok_env ''t1.nii.gz'' ''sub01'' (Some ''subjects'') sample_world) =
     Inr [(''subject_directory'', PStr ''subjects/sub01''),
      (''surfaces'', PDict
         [(''left_pial'', PStr ''subjects/sub01/surf/lh.pial''),
          (''right_pial'', PStr ''subjects/sub01/surf/rh.pial''),
          (''left_white'', PStr ''subjects/sub01/surf/lh.white''),
          (''right_white'', PStr ''subjects/sub01/surf/rh.white'')]),
      (''volumes'', PDict
         [(''brain'', PStr ''subjects/sub01/mri/brain.mgz''),
          (''aseg'', PStr ''subjects/sub01/mri/aseg.mgz''),
          (''aparc'', PStr ''subjects/sub01/mri/aparc+aseg.mgz'')]),
      (''metadata'', PDict
         [(''tool'', PStr ''FreeSurfer recon-all''),
          (''subject_id'', PStr ''sub01''),
          (''subjects_dir'', PStr ''subjects'')])] \<and>
   (case sub_dict [(''subject_directory'', PStr ''subjects/sub01''),
      (''surfaces'', PDict
         [(''left_pial'', PStr ''subjects/sub01/surf/lh.pial''),
          (''right_pial'', PStr ''subjects/sub01/surf/rh.pial''),
          (''left_white'', PStr ''subjects/sub01/surf/lh.white''),
          (''right_white'', PStr ''subjects/sub01/surf/rh.white'')]),
      (''volumes'', PDict
         [(''brain'', PStr ''subjects/sub01/mri/brain.mgz''),
          (''aseg'', PStr ''subjects/sub01/mri/aseg.mgz''),
          (''aparc'', PStr ''subjects/sub01/mri/aparc+aseg.mgz'')]),
      (''metadata'', PDict
         [(''tool'', PStr ''FreeSurfer recon-all''),
          (''subject_id'', PStr ''sub01''),
          (''subjects_dir'', PStr ''subjects'')])] ''metadata'' of
       Some md \<Rightarrow>
         dict_get md ''tool'' = Some (PStr ''FreeSurfer recon-all'') \<and>
         dict_get md ''parameters'' = None \<and>
         dict_get md ''subject_id'' = Some (PStr ''sub01'') \<and>
         dict_get md ''subjects_dir'' =
           Some (PStr (case Some ''subjects'' of None \<Rightarrow> SUBJECTS_DIR | Some v \<Rightarrow> v))
     | None \<Rightarrow> False)"
proof -
  have bet: "fst (fsl_bet_brain_extraction ok_env ''t1.nii.gz'' None None None sample_world) =
     Inr [(''brain_image'', PStr ''out.nii.gz''),
      (''metadata'', PDict
         [(''tool'', PStr ''FSL BET''),
          (''parameters'', PDict
             [(''infile'', PStr ''t1.nii.gz''),
              (''maskfile'', PStr
                 ''/Users/hp/Desktop/neurodesk/data/outputs/brain_extracted.nii.gz''),
              (''fractional_intensity'', PFloat float_half),
              (''binary_mask'', PBool True)]),
          (''container'', PStr ''FSL Docker container'')])]"
    by code_simp
  have fast: "fst (fsl_fast_segmentation ok_env ''t1.nii.gz'' None None sample_world) =
     Inr [(''segmented_image'', PStr ''out.nii.gz''),
      (''tissue_maps'', PList []), (''bias_field'', PNone),
      (''metadata'', PDict
         [(''tool'', PStr ''FSL FAST''),
          (''parameters'', PDict
             [(''infile'', PStr ''t1.nii.gz''),
              (''basename'', PStr ''/Users/hp/Desktop/neurodesk/data/outputs/segmented''),
              (''classes'', PInt 3), (''bias_field'', PBool True),
              (''probability_maps'', PBool True)]),
          (''tissue_classes'', PInt 3)])]"
    by code_simp
  have flirt: "fst (fsl_flirt_registration ok_env ''t1.nii.gz'' ''mni.nii.gz'' None None sample_world) =
     Inr [(''registered_image'', PStr ''out.nii.gz''),
      (''transformation_matrix'', PNone),
      (''metadata'', PDict
         [(''tool'', PStr ''FSL FLIRT''),
          (''parameters'', PDict
             [(''infile'', PStr ''t1.nii.gz''), (''reference'', PStr ''mni.nii.gz''),
              (''outfile'', PStr ''registered.nii.gz''), (''dof'', PInt 12),
              (''cost'', PStr ''corratio'')]),
          (''dof'', PInt 12)])]"
    by code_simp
  have dwi: "fst (mrtrix_dwi2fod ok_env ''t1.nii.gz'' ''mni.nii.gz'' None None sample_world) =
     Inr [(''fod_image'', PStr ''wmfod.mif''),
      (''metadata'', PDict
         [(''tool'', PStr ''MRTrix3 dwi2fod''),
          (''parameters'', PDict
             [(''algorithm'', PStr ''csd''), (''dwi'', PStr ''t1.nii.gz''),
              (''response'', PStr ''mni.nii.gz''), (''fod'', PStr ''wmfod.mif'')]),
          (''algorithm'', PStr ''csd'')])]"
    by code_simp
  have recon: "fst (freesurfer_recon_all ok_env ''t1.nii.gz'' ''sub01'' (Some ''subjects'') sample_world) =
     Inr [(''subject_directory'', PStr ''subjects/sub01''),
      (''surfaces'', PDict
         [(''left_pial'', PStr ''subjects/sub01/surf/lh.pial''),
          (''right_pial'', PStr ''subjects/sub01/surf/rh.pial''),
          (''left_white'', PStr ''subjects/sub01/surf/lh.white''),
          (''right_white'', PStr ''subjects/sub01/surf/rh.white'')]),
      (''volumes'', PDict
         [(''brain'', PStr ''subjects/sub01/mri/brain.mgz''),
          (''aseg'', PStr ''subjects/sub01/mri/aseg.mgz''),
          (''aparc'', PStr ''subjects/sub01/mri/aparc+aseg.mgz'')]),
      (''metadata'', PDict
         [(''tool'', PStr ''FreeSurfer recon-all''),
          (''subject_id'', PStr ''sub01''),
          (''subjects_dir'', PStr ''subjects'')])]"
    by code_simp
  note inst = metadata_matches_invocation [where w = sample_world and en = ok_env]
  note c_bet = inst [THEN conjunct1, rule_format, OF bet]
  note c_fast = inst [THEN conjunct2, THEN conjunct1, rule_format, OF fast]
  note c_flirt = inst [THEN conjunct2, THEN conjunct2, THEN conjunct1, rule_format, OF flirt]
  note c_dwi = inst [THEN conjunct2, THEN conjunct2, THEN conjunct2, THEN conjunct1, rule_format, OF dwi]
  note c_recon = inst [THEN conjunct2, THEN conjunct2, THEN conjunct2, THEN conjunct2, rule_format, OF recon]
  show ?thesis
    by (rule conjI [OF bet conjI [OF c_bet conjI [OF fast conjI [OF c_fast conjI [OF flirt conjI [OF c_flirt conjI [OF dwi conjI [OF c_dwi conjI [OF recon c_recon]]]]]]]]])
qed

section \<open>Failures inside and outside the guarded section\<close>




section \<open>The raw functions never return\<close>

text \<open>
  C4. The raw brain-extraction, segmentation and registration functions never return a
  response, whatever their input. Whenever the tool wrapper is invoked and returns a
  result, the call raises a \<open>RuntimeError\<close> whose text is the tool's "processing
  failed: " prefix followed by the text of the exception it wraps; when the result has an
  \<open>outfile\<close> attribute, the wrapped exception is the \<open>NameError\<close> for the
  undefined name (\<open>bet_params\<close>, \<open>fast_params\<close>, \<open>flirt_params\<close>) that the
  response's metadata refers to.
\<close>

theorem raw_functions_never_return:
  "(\<exists>e. fst (fsl_bet_brain_extraction_raw en bet_file output_prefix fractional_intensity binary_mask w) = Inl e) \<and>
   (\<forall>n p f res.
      (n, p, f) \<in> set (invocations (new_events w (snd (fsl_bet_brain_extraction_raw en bet_file output_prefix fractional_intensity binary_mask w)))) \<and>
      fst (niwrap en n p f) = Inr res \<longrightarrow>
      (\<exists>e0. fst (fsl_bet_brain_extraction_raw en bet_file output_prefix fractional_intensity binary_mask w) =
          Inl (Exn RuntimeError (''BET processing failed: '' @ exn_msg e0) (Some e0)) \<and>
        (hasattr res ''outfile'' \<longrightarrow> e0 = name_error ''bet_params''))) \<and>
   (\<exists>e. fst (fsl_fast_segmentation_raw en fast_file fast_prefix tissue_classes w) = Inl e) \<and>
   (\<forall>n p f res.
      (n, p, f) \<in> set (invocations (new_events w (snd (fsl_fast_segmentation_raw en fast_file fast_prefix tissue_classes w)))) \<and>
      fst (niwrap en n p f) = Inr res \<longrightarrow>
      (\<exists>e0. fst (fsl_fast_segmentation_raw en fast_file fast_prefix tissue_classes w) =
          Inl (Exn RuntimeError (''FAST processing failed: '' @ exn_msg e0) (Some e0)) \<and>
        (hasattr res ''outfile'' \<longrightarrow> e0 = name_error ''fast_params''))) \<and>
   (\<exists>e. fst (fsl_flirt_registration_raw en flirt_file reference_file output_file dof w) = Inl e) \<and>
   (\<forall>n p f res.
      (n, p, f) \<in> set (invocations (new_events w (snd (fsl_flirt_registration_raw en flirt_file reference_file output_file dof w)))) \<and>
      fst (niwrap en n p f) = Inr res \<longrightarrow>
      (\<exists>e0. fst (fsl_flirt_registration_raw en flirt_file reference_file output_file dof w) =
          Inl (Exn RuntimeError (''FLIRT processing failed: '' @ exn_msg e0) (Some e0)) \<and>
        (hasattr res ''outfile'' \<longrightarrow> e0 = name_error ''flirt_params'')))"
proof (intro conjI)
  show "\<exists>e. fst (fsl_bet_brain_extraction_raw en bet_file output_prefix fractional_intensity binary_mask w) = Inl e"
    by (rule bet_raw_never_returns)
  show "\<forall>n p f res.
      (n, p, f) \<in> set (invocations (new_events w (snd (fsl_bet_brain_extraction_raw en bet_file output_prefix fractional_intensity binary_mask w)))) \<and>
      fst (niwrap en n p f) = Inr res \<longrightarrow>
      (\<exists>e0. fst (fsl_bet_brain_extraction_raw en bet_file output_prefix fractional_intensity binary_mask w) =
          Inl (Exn RuntimeError (''BET processing failed: '' @ exn_msg e0) (Some e0)) \<and>
        (hasattr res ''outfile'' \<longrightarrow> e0 = name_error ''bet_params''))"
    by (auto dest: bet_raw_collaborator_returns)
  show "\<exists>e. fst (fsl_fast_segmentation_raw en fast_file fast_prefix tissue_classes w) = Inl e"
    by (rule fast_raw_never_returns)
  show "\<forall>n p f res.
      (n, p, f) \<in> set (invocations (new_events w (snd (fsl_fast_segmentation_raw en fast_file fast_prefix tissue_classes w)))) \<and>
      fst (niwrap en n p f) = Inr res \<longrightarrow>
      (\<exists>e0. fst (fsl_fast_segmentation_raw en fast_file fast_prefix tissue_classes w) =
          Inl (Exn RuntimeError (''FAST processing failed: '' @ exn_msg e0) (Some e0)) \<and>
        (hasattr res ''outfile'' \<longrightarrow> e0 = name_error ''fast_params''))"
    by (auto dest: fast_raw_collaborator_returns)
  show "\<exists>e. fst (fsl_flirt_registration_raw en flirt_file reference_file output_file dof w) = Inl e"
    by (rule flirt_raw_never_returns)
  show "\<forall>n p f res.
      (n, p, f) \<in> set (invocations (new_events w (snd (fsl_flirt_registration_raw en flirt_file reference_file output_file dof w)))) \<and>
      fst (niwrap en n p f) = Inr res \<longrightarrow>
      (\<exists>e0. fst (fsl_flirt_registration_raw en flirt_file reference_file output_file dof w) =
          Inl (Exn RuntimeError (''FLIRT processing failed: '' @ exn_msg e0) (Some e0)) \<and>
        (hasattr res ''outfile'' \<longrightarrow> e0 = name_error ''flirt_params''))"
    by (auto dest: flirt_raw_collaborator_returns)
qed

theorem raw_functions_never_return_witness:
  "hasattr sample_result ''outfile'' \<and>
   (''niwrap.fsl.bet'',
      [(''infile'', PStr ''t1.nii.gz''),
       (''maskfile'', PStr ''/Users/hp/Desktop/neurodesk/data/outputs/brain_extracted.nii.gz''),
       (''fractional_intensity'', PFloat float_half), (''binary_mask'', PBool True)],
      [(''/'', Dir), (''.'', Dir), (''t1.nii.gz'', File), (''mni.nii.gz'', File),
       (''/Users'', Dir), (''/Users/hp'', Dir), (''/Users/hp/Desktop'', Dir),
       (''/Users/hp/Desktop/neurodesk'', Dir), (''/Users/hp/Desktop/neurodesk/data'', Dir),
       (''/Users/hp/Desktop/neurodesk/data/outputs'', Dir)])
     \<in> set (invocations (new_events sample_world
          (snd (fsl_bet_brain_extraction_raw ok_env ''t1.nii.gz'' None None None sample_world)))) \<and>
   fst (niwrap ok_env ''niwrap.fsl.bet''
      [(''infile'', PStr ''t1.nii.gz''),
       (''maskfile'', PStr ''/Users/hp/Desktop/neurodesk/data/outputs/brain_extracted.nii.gz''),
       (''fractional_intensity'', PFloat float_half), (''binary_mask'', PBool True)]
      [(''/'', Dir), (''.'', Dir), (''t1.nii.gz'', File), (''mni.nii.gz'', File),
       (''/Users'', Dir), (''/Users/hp'', Dir), (''/Users/hp/Desktop'', Dir),
       (''/Users/hp/Desktop/neurodesk'', Dir), (''/Users/hp/Desktop/neurodesk/data'', Dir),
       (''/Users/hp/Desktop/neurodesk/data/outputs'', Dir)]) = Inr sample_result \<and>
   fst (fsl_bet_brain_extraction_raw ok_env ''t1.nii.gz'' None None None sample_world) =
     Inl (Exn RuntimeError (''BET processing failed: '' @ exn_msg (name_error ''bet_params'')) (Some (name_error ''bet_params''))) \<and>
   (''niwrap.fsl.fast'',
      [(''in_files'', PList [PStr ''t1.nii.gz'']), (''number_classes'', PInt 3),
       (''out_basename'', PStr ''/Users/hp/Desktop/neurodesk/data/outputs/segmented''),
       (''output_biasfield'', PBool True), (''segments'', PBool True)],
      [(''/'', Dir), (''.'', Dir), (''t1.nii.gz'', File), (''mni.nii.gz'', File),
       (''/Users'', Dir), (''/Users/hp'', Dir), (''/Users/hp/Desktop'', Dir),
       (''/Users/hp/Desktop/neurodesk'', Dir), (''/Users/hp/Desktop/neurodesk/data'', Dir),
       (''/Users/hp/Desktop/neurodesk/data/outputs'', Dir)])
     \<in> set (invocations (new_events sample_world
          (snd (fsl_fast_segmentation_raw ok_env ''t1.nii.gz'' None None sample_world)))) \<and>
   fst (niwrap ok_env ''niwrap.fsl.fast''
      [(''in_files'', PList [PStr ''t1.nii.gz'']), (''number_classes'', PInt 3),
       (''out_basename'', PStr ''/Users/hp/Desktop/neurodesk/data/outputs/segmented''),
       (''output_biasfield'', PBool True), (''segments'', PBool True)]
      [(''/'', Dir), (''.'', Dir), (''t1.nii.gz'', File), (''mni.nii.gz'', File),
       (''/Users'', Dir), (''/Users/hp'', Dir), (''/Users/hp/Desktop'', Dir),
       (''/Users/hp/Desktop/neurodesk'', Dir), (''/Users/hp/Desktop/neurodesk/data'', Dir),
       (''/Users/hp/Desktop/neurodesk/data/outputs'', Dir)]) = Inr sample_result \<and>
   fst (fsl_fast_segmentation_raw ok_env ''t1.nii.gz'' None None sample_world) =
     Inl (Exn RuntimeError (''FAST processing failed: '' @ exn_msg (name_error ''fast_params'')) (Some (name_error ''fast_params''))) \<and>
   (''niwrap.fsl.flirt'',
      [(''in_file'', PStr ''t1.nii.gz''), (''reference'', PStr ''mni.nii.gz''),
       (''out_file'', PStr ''registered.nii.gz''), (''out_matrix_file'', PStr ''registered.mat''),
       (''dof'', PInt 12), (''cost'', PStr ''corratio'')],
      [(''/'', Dir), (''.'', Dir), (''t1.nii.gz'', File), (''mni.nii.gz'', File)])
     \<in> set (invocations (new_events sample_world
          (snd (fsl_flirt_registration_raw ok_env ''t1.nii.gz'' ''mni.nii.gz'' None None sample_world)))) \<and>
   fst (niwrap ok_env ''niwrap.fsl.flirt''
      [(''in_file'', PStr ''t1.nii.gz''), (''reference'', PStr ''mni.nii.gz''),
       (''out_file'', PStr ''registered.nii.gz''), (''out_matrix_file'', PStr ''registered.mat''),
       (''dof'', PInt 12), (''cost'', PStr ''corratio'')]
      [(''/'', Dir), (''.'', Dir), (''t1.nii.gz'', File), (''mni.nii.gz'', File)]) = Inr sample_result \<and>
   fst (fsl_flirt_registration_raw ok_env ''t1.nii.gz'' ''mni.nii.gz'' None None sample_world) =
     Inl (Exn RuntimeError (''FLIRT processing failed: '' @ exn_msg (name_error ''flirt_params'')) (Some (name_error ''flirt_params'')))"
proof -
  note inst = raw_functions_never_return [where w = sample_world and en = ok_env]
  have has: "hasattr sample_result ''outfile''"
    by code_simp
  have bet_raw_mem: "(''niwrap.fsl.bet'',
      [(''infile'', PStr ''t1.nii.gz''),
       (''maskfile'', PStr ''/Users/hp/Desktop/neurodesk/data/outputs/brain_extracted.nii.gz''),
       (''fractional_intensity'', PFloat float_half), (''binary_mask'', PBool True)],
      [(''/'', Dir), (''.'', Dir), (''t1.nii.gz'', File), (''mni.nii.gz'', File),
       (''/Users'', Dir), (''/Users/hp'', Dir), (''/Users/hp/Desktop'', Dir),
       (''/Users/hp/Desktop/neurodesk'', Dir), (''/Users/hp/Desktop/neurodesk/data'', Dir),
       (''/Users/hp/Desktop/neurodesk/data/outputs'', Dir)])
     \<in> set (invocations (new_events sample_world
          (snd (fsl_bet_brain_extraction_raw ok_env ''t1.nii.gz'' None None None sample_world))))"
    by code_simp
  have bet_raw_ok: "fst (niwrap ok_env ''niwrap.fsl.bet''
      [(''infile'', PStr ''t1.nii.gz''),
       (''maskfile'', PStr ''/Users/hp/Desktop/neurodesk/data/outputs/brain_extracted.nii.gz''),
       (''fractional_intensity'', PFloat float_half), (''binary_mask'', PBool True)]
      [(''/'', Dir), (''.'', Dir), (''t1.nii.gz'', File), (''mni.nii.gz'', File),
       (''/Users'', Dir), (''/Users/hp'', Dir), (''/Users/hp/Desktop'', Dir),
       (''/Users/hp/Desktop/neurodesk'', Dir), (''/Users/hp/Desktop/neurodesk/data'', Dir),
       (''/Users/hp/Desktop/neurodesk/data/outputs'', Dir)]) = Inr sample_result"
    by (simp add: ok_env_def)
  from inst [THEN conjunct2, THEN conjunct1, rule_format, OF conjI [OF bet_raw_mem bet_raw_ok]] has
  have bet_raw_res: "fst (fsl_bet_brain_extraction_raw ok_env ''t1.nii.gz'' None None None sample_world) =
     Inl (Exn RuntimeError (''BET processing failed: '' @ exn_msg (name_error ''bet_params'')) (Some (name_error ''bet_params'')))"
    by auto
  have fast_raw_mem: "(''niwrap.fsl.fast'',
      [(''in_files'', PList [PStr ''t1.nii.gz'']), (''number_classes'', PInt 3),
       (''out_basename'', PStr ''/Users/hp/Desktop/neurodesk/data/outputs/segmented''),
       (''output_biasfield'', PBool True), (''segments'', PBool True)],
      [(''/'', Dir), (''.'', Dir), (''t1.nii.gz'', File), (''mni.nii.gz'', File),
       (''/Users'', Dir), (''/Users/hp'', Dir), (''/Users/hp/Desktop'', Dir),
       (''/Users/hp/Desktop/neurodesk'', Dir), (''/Users/hp/Desktop/neurodesk/data'', Dir),
       (''/Users/hp/Desktop/neurodesk/data/outputs'', Dir)])
     \<in> set (invocations (new_events sample_world
          (snd (fsl_fast_segmentation_raw ok_env ''t1.nii.gz'' None None sample_world))))"
    by code_simp
  have fast_raw_ok: "fst (niwrap ok_env ''niwrap.fsl.fast''
      [(''in_files'', PList [PStr ''t1.nii.gz'']), (''number_classes'', PInt 3),
       (''out_basename'', PStr ''/Users/hp/Desktop/neurodesk/data/outputs/segmented''),
       (''output_biasfield'', PBool True), (''segments'', PBool True)]
      [(''/'', Dir), (''.'', Dir), (''t1.nii.gz'', File), (''mni.nii.gz'', File),
       (''/Users'', Dir), (''/Users/hp'', Dir), (''/Users/hp/Desktop'', Dir),
       (''/Users/hp/Desktop/neurodesk'', Dir), (''/Users/hp/Desktop/neurodesk/data'', Dir),
       (''/Users/hp/Desktop/neurodesk/data/outputs'', Dir)]) = Inr sample_result"
    by (simp add: ok_env_def)
  from inst [THEN conjunct2, THEN conjunct2, THEN conjunct2, THEN conjunct1, rule_format, OF conjI [OF fast_raw_mem fast_raw_ok]] has
  have fast_raw_res: "fst (fsl_fast_segmentation_raw ok_env ''t1.nii.gz'' None None sample_world) =
     Inl (Exn RuntimeError (''FAST processing failed: '' @ exn_msg (name_error ''fast_params'')) (Some (name_error ''fast_params'')))"
    by auto
  have flirt_raw_mem: "(''niwrap.fsl.flirt'',
      [(''in_file'', PStr ''t1.nii.gz''), (''reference'', PStr ''mni.nii.gz''),
       (''out_file'', PStr ''registered.nii.gz''), (''out_matrix_file'', PStr ''registered.mat''),
       (''dof'', PInt 12), (''cost'', PStr ''corratio'')],
      [(''/'', Dir), (''.'', Dir), (''t1.nii.gz'', File), (''mni.nii.gz'', File)])
     \<in> set (invocations (new_events sample_world
          (snd (fsl_flirt_registration_raw ok_env ''t1.nii.gz'' ''mni.nii.gz'' None None sample_world))))"
    by code_simp
  have flirt_raw_ok: "fst (niwrap ok_env ''niwrap.fsl.flirt''
      [(''in_file'', PStr ''t1.nii.gz''), (''reference'', PStr ''mni.nii.gz''),
       (''out_file'', PStr ''registered.nii.gz''), (''out_matrix_file'', PStr ''registered.mat''),
       (''dof'', PInt 12), (''cost'', PStr ''corratio'')]
      [(''/'', Dir), (''.'', Dir), (''t1.nii.gz'', File), (''mni.nii.gz'', File)]) = Inr sample_result"
    by (simp add: ok_env_def)
  from inst [THEN conjunct2, THEN conjunct2, THEN conjunct2, THEN conjunct2, THEN conjunct2, rule_format, OF conjI [OF flirt_raw_mem flirt_raw_ok]] has
  have flirt_raw_res: "fst (fsl_flirt_registration_raw ok_env ''t1.nii.gz'' ''mni.nii.gz'' None None sample_world) =
     Inl (Exn RuntimeError (''FLIRT processing failed: '' @ exn_msg (name_error ''flirt_params'')) (Some (name_error ''flirt_params'')))"
    by auto
  show ?thesis
    by (rule conjI [OF has conjI [OF bet_raw_mem conjI [OF bet_raw_ok conjI [OF bet_raw_res conjI [OF fast_raw_mem conjI [OF fast_raw_ok conjI [OF fast_raw_res conjI [OF flirt_raw_mem conjI [OF flirt_raw_ok flirt_raw_res]]]]]]]]])
qed

section \<open>Directory creation before the invocation\<close>




section \<open>Predicted output paths and registration parameters\<close>

lemma path_join_names:
  "path_join (path_join d ''surf'') ''lh.pial'' = PurePath (root d) (parts d @ [''surf'', ''lh.pial''])"
  "path_join (path_join d ''surf'') ''rh.pial'' = PurePath (root d) (parts d @ [''surf'', ''rh.pial''])"
  "path_join (path_join d ''surf'') ''lh.white'' = PurePath (root d) (parts d @ [''surf'', ''lh.white''])"
  "path_join (path_join d ''surf'') ''rh.white'' = PurePath (root d) (parts d @ [''surf'', ''rh.white''])"
  "path_join (path_join d ''mri'') ''brain.mgz'' = PurePath (root d) (parts d @ [''mri'', ''brain.mgz''])"
  "path_join (path_join d ''mri'') ''aseg.mgz'' = PurePath (root d) (parts d @ [''mri'', ''aseg.mgz''])"
  "path_join (path_join d ''mri'') ''aparc+aseg.mgz'' =
     PurePath (root d) (parts d @ [''mri'', ''aparc+aseg.mgz''])"
  by (simp_all add: path_join_def splitroot_def parse_parts_def)

lemma flirt_metadata:
  "fst (fsl_flirt_registration en i r oa da w) = Inr out \<Longrightarrow>
   sub_dict out ''metadata'' = Some
     [(''tool'', PStr ''FSL FLIRT''),
      (''parameters'', PDict [(''infile'', PStr i), (''reference'', PStr r),
        (''outfile'', PStr (case oa of None \<Rightarrow> ''registered.nii.gz'' | Some v \<Rightarrow> v)),
        (''dof'', PInt (case da of None \<Rightarrow> 12 | Some v \<Rightarrow> v)),
        (''cost'', PStr ''corratio'')]),
      (''dof'', PInt (case da of None \<Rightarrow> 12 | Some v \<Rightarrow> v))]"
  by (auto simp: fsl_flirt_registration_def fsl_flirt_try_def try_except_def reraise_ctx_def
        call_niwrap_eq Let_def sub_dict_def dict_get_def
      split: sum.splits if_splits)

text \<open>
  C6. For every successful cortical-reconstruction call, the returned surface paths
  (\<open>lh.pial\<close>, \<open>rh.pial\<close>, \<open>lh.white\<close>, \<open>rh.white\<close> under \<open>surf\<close>) and volume
  paths (\<open>brain.mgz\<close>, \<open>aseg.mgz\<close>, \<open>aparc+aseg.mgz\<close> under \<open>mri\<close>) are those
  components appended to the subject directory, which is the subjects-directory argument
  joined with the subject identifier; they depend on nothing else, neither on the result of
  the wrapper nor on the filesystem.
\<close>

theorem recon_paths_follow_convention:
  "fst (freesurfer_recon_all en recon_file subject_id subjects_dir w) = Inr out \<longrightarrow>
   (let d = path_join
              (path_of (case subjects_dir of None \<Rightarrow> SUBJECTS_DIR | Some v \<Rightarrow> v))
              subject_id
    in dict_get out ''surfaces'' = Some (PDict
         [(''left_pial'', PStr (path_str (PurePath (root d) (parts d @ [''surf'', ''lh.pial''])))),
          (''right_pial'', PStr (path_str (PurePath (root d) (parts d @ [''surf'', ''rh.pial''])))),
          (''left_white'', PStr (path_str (PurePath (root d) (parts d @ [''surf'', ''lh.white''])))),
          (''right_white'',
             PStr (path_str (PurePath (root d) (parts d @ [''surf'', ''rh.white'']))))]) \<and>
       dict_get out ''volumes'' = Some (PDict
         [(''brain'', PStr (path_str (PurePath (root d) (parts d @ [''mri'', ''brain.mgz''])))),
          (''aseg'', PStr (path_str (PurePath (root d) (parts d @ [''mri'', ''aseg.mgz''])))),
          (''aparc'',
             PStr (path_str (PurePath (root d) (parts d @ [''mri'', ''aparc+aseg.mgz'']))))]))"
proof
  assume "fst (freesurfer_recon_all en recon_file subject_id subjects_dir w) = Inr out"
  from recon_success [OF this] show
   "let d = path_join
              (path_of (case subjects_dir of None \<Rightarrow> SUBJECTS_DIR | Some v \<Rightarrow> v))
              subject_id
    in dict_get out ''surfaces'' = Some (PDict
         [(''left_pial'', PStr (path_str (PurePath (root d) (parts d @ [''surf'', ''lh.pial''])))),
          (''right_pial'', PStr (path_str (PurePath (root d) (parts d @ [''surf'', ''rh.pial''])))),
          (''left_white'', PStr (path_str (PurePath (root d) (parts d @ [''surf'', ''lh.white''])))),
          (''right_white'',
             PStr (path_str (PurePath (root d) (parts d @ [''surf'', ''rh.white'']))))]) \<and>
       dict_get out ''volumes'' = Some (PDict
         [(''brain'', PStr (path_str (PurePath (root d) (parts d @ [''mri'', ''brain.mgz''])))),
          (''aseg'', PStr (path_str (PurePath (root d) (parts d @ [''mri'', ''aseg.mgz''])))),
          (''aparc'',
             PStr (path_str (PurePath (root d) (parts d @ [''mri'', ''aparc+aseg.mgz'']))))])"
    by (simp add: Let_def dict_get_def path_join_names)
qed

theorem recon_paths_follow_convention_witness:
  "fst (freesurfer_recon_all ok_env ''t1.nii.gz'' ''sub01'' (Some ''subjects/'') sample_world) =
     Inr [(''subject_directory'', PStr ''subjects/sub01''),
          (''surfaces'', PDict
             [(''left_pial'', PStr ''subjects/sub01/surf/lh.pial''),
              (''right_pial'', PStr ''subjects/sub01/surf/rh.pial''),
              (''left_white'', PStr ''subjects/sub01/surf/lh.white''),
              (''right_white'', PStr ''subjects/sub01/surf/rh.white'')]),
          (''volumes'', PDict
             [(''brain'', PStr ''subjects/sub01/mri/brain.mgz''),
              (''aseg'', PStr ''subjects/sub01/mri/aseg.mgz''),
              (''aparc'', PStr ''subjects/sub01/mri/aparc+aseg.mgz'')]),
          (''metadata'', PDict
             [(''tool'', PStr ''FreeSurfer recon-all''),
              (''subject_id'', PStr ''sub01''),
              (''subjects_dir'', PStr ''subjects/'')])] \<and>
   path_join (path_of ''subjects/'') ''sub01'' = PurePath [] [''subjects'', ''sub01''] \<and>
   path_str (PurePath [] ([''subjects'', ''sub01''] @ [''surf'', ''lh.pial''])) =
     ''subjects/sub01/surf/lh.pial'' \<and>
   \<not> path_exists
       (fs (snd (freesurfer_recon_all ok_env ''t1.nii.gz'' ''sub01'' (Some ''subjects/'')
          sample_world)))
       (path_of ''subjects/sub01/surf/lh.pial'') \<and>
   (let d = path_join
              (path_of (case Some ''subjects/'' of None \<Rightarrow> SUBJECTS_DIR | Some v \<Rightarrow> v))
              ''sub01''
    in dict_get
         [(''subject_directory'', PStr ''subjects/sub01''),
          (''surfaces'', PDict
             [(''left_pial'', PStr ''subjects/sub01/surf/lh.pial''),
              (''right_pial'', PStr ''subjects/sub01/surf/rh.pial''),
              (''left_white'', PStr ''subjects/sub01/surf/lh.white''),
              (''right_white'', PStr ''subjects/sub01/surf/rh.white'')]),
          (''volumes'', PDict
             [(''brain'', PStr ''subjects/sub01/mri/brain.mgz''),
              (''aseg'', PStr ''subjects/sub01/mri/aseg.mgz''),
              (''aparc'', PStr ''subjects/sub01/mri/aparc+aseg.mgz'')]),
          (''metadata'', PDict
             [(''tool'', PStr ''FreeSurfer recon-all''),
              (''subject_id'', PStr ''sub01''),
              (''subjects_dir'', PStr ''subjects/'')])] ''surfaces'' = Some (PDict
         [(''left_pial'', PStr (path_str (PurePath (root d) (parts d @ [''surf'', ''lh.pial''])))),
          (''right_pial'', PStr (path_str (PurePath (root d) (parts d @ [''surf'', ''rh.pial''])))),
          (''left_white'', PStr (path_str (PurePath (root d) (parts d @ [''surf'', ''lh.white''])))),
          (''right_white'',
             PStr (path_str (PurePath (root d) (parts d @ [''surf'', ''rh.white'']))))]) \<and>
       dict_get
         [(''subject_directory'', PStr ''subjects/sub01''),
          (''surfaces'', PDict
             [(''left_pial'', PStr ''subjects/sub01/surf/lh.pial''),
              (''right_pial'', PStr ''subjects/sub01/surf/rh.pial''),
              (''left_white'', PStr ''subjects/sub01/surf/lh.white''),
              (''right_white'', PStr ''subjects/sub01/surf/rh.white'')]),
          (''volumes'', PDict
             [(''brain'', PStr ''subjects/sub01/mri/brain.mgz''),
              (''aseg'', PStr ''subjects/sub01/mri/aseg.mgz''),
              (''aparc'', PStr ''subjects/sub01/mri/aparc+aseg.mgz'')]),
          (''metadata'', PDict
             [(''tool'', PStr ''FreeSurfer recon-all''),
              (''subject_id'', PStr ''sub01''),
              (''subjects_dir'', PStr ''subjects/'')])] ''volumes'' = Some (PDict
         [(''brain'', PStr (path_str (PurePath (root d) (parts d @ [''mri'', ''brain.mgz''])))),
          (''aseg'', PStr (path_str (PurePath (root d) (parts d @ [''mri'', ''aseg.mgz''])))),
          (''aparc'',
             PStr (path_str (PurePath (root d) (parts d @ [''mri'', ''aparc+aseg.mgz'']))))]))"
proof -
  have run: "fst (freesurfer_recon_all ok_env ''t1.nii.gz'' ''sub01'' (Some ''subjects/'') sample_world) =
     Inr [(''subject_directory'', PStr ''subjects/sub01''),
          (''surfaces'', PDict
             [(''left_pial'', PStr ''subjects/sub01/surf/lh.pial''),
              (''right_pial'', PStr ''subjects/sub01/surf/rh.pial''),
              (''left_white'', PStr ''subjects/sub01/surf/lh.white''),
              (''right_white'', PStr ''subjects/sub01/surf/rh.white'')]),
          (''volumes'', PDict
             [(''brain'', PStr ''subjects/sub01/mri/brain.mgz''),
              (''aseg'', PStr ''subjects/sub01/mri/aseg.mgz''),
              (''aparc'', PStr ''subjects/sub01/mri/aparc+aseg.mgz'')]),
          (''metadata'', PDict
             [(''tool'', PStr ''FreeSurfer recon-all''),
              (''subject_id'', PStr ''sub01''),
              (''subjects_dir'', PStr ''subjects/'')])]"
    by code_simp
  have d: "path_join (path_of ''subjects/'') ''sub01'' = PurePath [] [''subjects'', ''sub01'']"
    by code_simp
  have s: "path_str (PurePath [] ([''subjects'', ''sub01''] @ [''surf'', ''lh.pial''])) =
     ''subjects/sub01/surf/lh.pial''"
    by code_simp
  have absent: "\<not> path_exists
       (fs (snd (freesurfer_recon_all ok_env ''t1.nii.gz'' ''sub01'' (Some ''subjects/'')
          sample_world)))
       (path_of ''subjects/sub01/surf/lh.pial'')"
    by code_simp
  note c = recon_paths_follow_convention [rule_format, OF run]
  show ?thesis
    by (rule conjI [OF run conjI [OF d conjI [OF s conjI [OF absent c]]]])
qed



text \<open>
  C8. For every existing input and reference image, a successful registration call made
  without a \<open>dof\<close> argument invokes the wrapper with \<open>dof\<close> 12 and \<open>cost\<close>
  "corratio", and its metadata records \<open>dof\<close> 12 and, in its parameters, \<open>dof\<close> 12
  and \<open>cost\<close> "corratio".
\<close>

theorem flirt_default_dof_and_cost:
  "path_exists (fs w) (path_of flirt_file) \<and> path_exists (fs w) (path_of reference_file) \<and>
   fst (fsl_flirt_registration en flirt_file reference_file output_file None w) = Inr out \<longrightarrow>
   invocations (new_events w
      (snd (fsl_flirt_registration en flirt_file reference_file output_file None w))) =
     [(''niwrap.fsl.flirt'',
       [(''infile'', PStr flirt_file), (''reference'', PStr reference_file),
        (''outfile'',
           PStr (case output_file of None \<Rightarrow> ''registered.nii.gz'' | Some v \<Rightarrow> v)),
        (''dof'', PInt 12),
        (''cost'', PStr ''corratio'')],
       fs w)] \<and>
   (case sub_dict out ''metadata'' of
      Some md \<Rightarrow>
        dict_get md ''tool'' = Some (PStr ''FSL FLIRT'') \<and>
        dict_get md ''dof'' = Some (PInt 12) \<and>
        (case sub_dict md ''parameters'' of
           Some ps \<Rightarrow> dict_get ps ''dof'' = Some (PInt 12) \<and>
                       dict_get ps ''cost'' = Some (PStr ''corratio'')
         | None \<Rightarrow> False)
    | None \<Rightarrow> False)"
proof
  assume a: "path_exists (fs w) (path_of flirt_file) \<and>
   path_exists (fs w) (path_of reference_file) \<and>
   fst (fsl_flirt_registration en flirt_file reference_file output_file None w) = Inr out"
  then have v: "path_exists (fs w) (path_of flirt_file)"
      "path_exists (fs w) (path_of reference_file)"
    and ok: "fst (fsl_flirt_registration en flirt_file reference_file output_file None w) = Inr out"
    by simp_all
  from runs_as_invocations [OF flirt_run [OF v, of en output_file None]] flirt_metadata [OF ok]
  show "invocations (new_events w
      (snd (fsl_flirt_registration en flirt_file reference_file output_file None w))) =
     [(''niwrap.fsl.flirt'',
       [(''infile'', PStr flirt_file), (''reference'', PStr reference_file),
        (''outfile'',
           PStr (case output_file of None \<Rightarrow> ''registered.nii.gz'' | Some v \<Rightarrow> v)),
        (''dof'', PInt 12),
        (''cost'', PStr ''corratio'')],
       fs w)] \<and>
   (case sub_dict out ''metadata'' of
      Some md \<Rightarrow>
        dict_get md ''tool'' = Some (PStr ''FSL FLIRT'') \<and>
        dict_get md ''dof'' = Some (PInt 12) \<and>
        (case sub_dict md ''parameters'' of
           Some ps \<Rightarrow> dict_get ps ''dof'' = Some (PInt 12) \<and>
                       dict_get ps ''cost'' = Some (PStr ''corratio'')
         | None \<Rightarrow> False)
    | None \<Rightarrow> False)"
    by (simp add: sub_dict_def dict_get_def)
qed

theorem flirt_default_dof_and_cost_witness:
  "(path_exists (fs sample_world) (path_of ''t1.nii.gz'') \<and>
   path_exists (fs sample_world) (path_of ''mni.nii.gz'') \<and>
   fst (fsl_flirt_registration ok_env ''t1.nii.gz'' ''mni.nii.gz'' None None sample_world) =
     Inr [(''registered_image'', PStr ''out.nii.gz''),
      (''transformation_matrix'', PNone),
      (''metadata'', PDict
         [(''tool'', PStr ''FSL FLIRT''),
          (''parameters'', PDict
             [(''infile'', PStr ''t1.nii.gz''), (''reference'', PStr ''mni.nii.gz''),
              (''outfile'', PStr ''registered.nii.gz''), (''dof'', PInt 12),
              (''cost'', PStr ''corratio'')]),
          (''dof'', PInt 12)])]) \<and>
   invocations (new_events sample_world
      (snd (fsl_flirt_registration ok_env ''t1.nii.gz'' ''mni.nii.gz'' None None
         sample_world))) =
     [(''niwrap.fsl.flirt'',
       [(''infile'', PStr ''t1.nii.gz''), (''reference'', PStr ''mni.nii.gz''),
        (''outfile'',
           PStr (case None of None \<Rightarrow> ''registered.nii.gz'' | Some v \<Rightarrow> v)),
        (''dof'', PInt 12),
        (''cost'', PStr ''corratio'')],
       fs sample_world)] \<and>
   (case sub_dict
      [(''registered_image'', PStr ''out.nii.gz''),
      (''transformation_matrix'', PNone),
      (''metadata'', PDict
         [(''tool'', PStr ''FSL FLIRT''),
          (''parameters'', PDict
             [(''infile'', PStr ''t1.nii.gz''), (''reference'', PStr ''mni.nii.gz''),
              (''outfile'', PStr ''registered.nii.gz''), (''dof'', PInt 12),
              (''cost'', PStr ''corratio'')]),
          (''dof'', PInt 12)])] ''metadata'' of
      Some md \<Rightarrow>
        dict_get md ''tool'' = Some (PStr ''FSL FLIRT'') \<and>
        dict_get md ''dof'' = Some (PInt 12) \<and>
        (case sub_dict md ''parameters'' of
           Some ps \<Rightarrow> dict_get ps ''dof'' = Some (PInt 12) \<and>
                       dict_get ps ''cost'' = Some (PStr ''corratio'')
         | None \<Rightarrow> False)
    | None \<Rightarrow> False)"
proof -
  have t1: "path_exists (fs sample_world) (path_of ''t1.nii.gz'')"
    by code_simp
  have mni: "path_exists (fs sample_world) (path_of ''mni.nii.gz'')"
    by code_simp
  have run: "fst (fsl_flirt_registration ok_env ''t1.nii.gz'' ''mni.nii.gz'' None None sample_world) =
     Inr [(''registered_image'', PStr ''out.nii.gz''),
      (''transformation_matrix'', PNone),
      (''metadata'', PDict
         [(''tool'', PStr ''FSL FLIRT''),
          (''parameters'', PDict
             [(''infile'', PStr ''t1.nii.gz''), (''reference'', PStr ''mni.nii.gz''),
              (''outfile'', PStr ''registered.nii.gz''), (''dof'', PInt 12),
              (''cost'', PStr ''corratio'')]),
          (''dof'', PInt 12)])]"
    by code_simp
  have h: "path_exists (fs sample_world) (path_of ''t1.nii.gz'') \<and>
   path_exists (fs sample_world) (path_of ''mni.nii.gz'') \<and>
   fst (fsl_flirt_registration ok_env ''t1.nii.gz'' ''mni.nii.gz'' None None sample_world) =
     Inr [(''registered_image'', PStr ''out.nii.gz''),
      (''transformation_matrix'', PNone),
      (''metadata'', PDict
         [(''tool'', PStr ''FSL FLIRT''),
          (''parameters'', PDict
             [(''infile'', PStr ''t1.nii.gz''), (''reference'', PStr ''mni.nii.gz''),
              (''outfile'', PStr ''registered.nii.gz''), (''dof'', PInt 12),
              (''cost'', PStr ''corratio'')]),
          (''dof'', PInt 12)])]"
    by (rule conjI [OF t1 conjI [OF mni run]])
  note c = flirt_default_dof_and_cost [rule_format, OF h]
  show ?thesis
    by (rule conjI [OF h c])
qed

end
